theory Spec2Isabelle
  imports Complex_Main
begin

section \<open>The block-stacking game: data model\<close>

text \<open>
  The engine is the class \<open>GameLogic\<close> of \<open>src/game/game_logic.js\<close> together with the
  class \<open>Block\<close> of \<open>src/entities/block.js\<close>. A JavaScript number is modelled as the
  real number it denotes, and every addition, subtraction, multiplication and division of
  the source is followed by the rounding \<open>fl\<close> of IEEE 754 doubles. Infinities and NaN
  are outside the model, except that the one place where the engine can compute NaN (a
  block whose \<open>direction\<close> is \<open>null\<close>) is written out as a branch of its own.
\<close>

subsection \<open>Double precision rounding\<close>

text \<open>
  Round to nearest, ties to even, with 53 significant bits and gradual underflow: the
  exponent of \<open>x\<close> is that of its leading bit but not less than \<open>-1022\<close>, the unit in the
  last place is \<open>2\<close> to that exponent minus 52, and \<open>fl x\<close> is the multiple of this unit
  nearest to \<open>x\<close>, the even one of two equally near. Overflow is not modelled.
  \<open>eta\<close> is half the smallest positive double.
\<close>

definition expo :: "real \<Rightarrow> int" where
  "expo x = max \<lfloor>log 2 \<bar>x\<bar>\<rfloor> (- 1022)"

definition ulp :: "real \<Rightarrow> real" where
  "ulp x = 2 powr (real_of_int (expo x) - 52)"

definition round_even :: "real \<Rightarrow> int" where
  "round_even y =
     (let n = \<lfloor>y\<rfloor>; r = y - of_int n
      in if r < 1 / 2 then n else if 1 / 2 < r then n + 1 else if even n then n else n + 1)"

definition fl :: "real \<Rightarrow> real" where
  "fl x = (if x = 0 then 0 else of_int (round_even (x / ulp x)) * ulp x)"

definition eta :: real where "eta = 1 / 2 ^ 1075"

subsection \<open>Configuration constants (\<open>GAME_CONFIG\<close>, \<open>DIRECTIONS\<close>)\<close>

text \<open>The literals \<open>0.008\<close> and \<open>0.08\<close> denote the doubles nearest to them.\<close>

definition BOX_HEIGHT :: real where "BOX_HEIGHT = 1"
definition ORIGINAL_BOX_SIZE :: real where "ORIGINAL_BOX_SIZE = 3"
definition MOVEMENT_SPEED :: real where "MOVEMENT_SPEED = fl (8 / 1000)"
definition CAMERA_FOLLOW_SPEED :: real where "CAMERA_FOLLOW_SPEED = fl (8 / 100)"
definition BOX_FALL_MASS :: real where "BOX_FALL_MASS = 5"
definition ROBOT_PRECISION_RANGE :: real where "ROBOT_PRECISION_RANGE = 1"

datatype direction = DIR_X | DIR_Z

subsection \<open>Vectors, meshes, bodies and blocks\<close>

record vec3 =
  vx :: real
  vy :: real
  vz :: real

definition vec3 :: "real \<Rightarrow> real \<Rightarrow> real \<Rightarrow> vec3" where
  "vec3 a b c = \<lparr>vx = a, vy = b, vz = c\<rparr>"

text \<open>\<open>v[d]\<close> and \<open>v[d] += c\<close> for \<open>d\<close> one of \<open>'x'\<close>, \<open>'z'\<close>.\<close>

fun coord :: "vec3 \<Rightarrow> direction \<Rightarrow> real" where
  "coord v DIR_X = vx v"
| "coord v DIR_Z = vz v"

fun set_coord :: "direction \<Rightarrow> real \<Rightarrow> vec3 \<Rightarrow> vec3" where
  "set_coord DIR_X c v = v\<lparr>vx := c\<rparr>"
| "set_coord DIR_Z c v = v\<lparr>vz := c\<rparr>"

text \<open>
  The mesh of the rendering engine and the rigid body of the physics engine, as far as the
  engine reads or writes them: transform, scale, mass and the list of box shapes
  (half extents). Colour, shadow flags and orientation are left out.
\<close>

record mesh =
  mesh_position :: vec3
  mesh_scale :: vec3

record body =
  body_position :: vec3
  body_mass :: real
  body_shapes :: "vec3 list"

text \<open>
  A \<open>Block\<close>. Every block of the engine is built by \<open>createBlock\<close>, which gives it a body
  and a mesh at once, so both are always present. \<open>handle\<close> is the identity of the
  block's body and mesh objects: the physics world and the scene hold handles.
\<close>

record block =
  position :: vec3
  width :: real
  depth :: real
  direction :: "direction option"
  mesh :: mesh
  physicsBody :: body
  isMoving :: bool
  isFalling :: bool
  handle :: nat

datatype event =
    GAME_START
  | GAME_OVER
  | SCORE_UPDATE int
  | LAYER_ADDED nat nat

text \<open>
  The state of a \<open>GameLogic\<close> object and of what it drives in its two collaborators:
  the bodies of the physics world, the meshes of the scene, the height of the camera.
  \<open>events\<close> is the log of what \<open>gameEvents.emit\<close> was called with, oldest first;
  \<open>nextHandle\<close> is the supply of fresh object identities.
\<close>

record game =
  stack :: "block list"
  overhangs :: "block list"
  isAutopilot :: bool
  isGameEnded :: bool
  score :: int
  robotPrecision :: real
  world :: "nat list"
  scene :: "nat list"
  cameraY :: real
  nextHandle :: nat
  events :: "event list"

section \<open>Block operations (\<open>block.js\<close>)\<close>

definition getPosition :: "block \<Rightarrow> direction \<Rightarrow> real" where
  "getPosition b d = coord (position b) d"

text \<open>\<open>direction === DIRECTIONS.X ? this.width : this.depth\<close>: \<open>null\<close> selects the depth.\<close>

definition getSize :: "block \<Rightarrow> direction option \<Rightarrow> real" where
  "getSize b d = (if d = Some DIR_X then width b else depth b)"

text \<open>
  \<open>updatePosition\<close>: mesh, body and block move together. With \<open>direction = null\<close> the
  assignments write a property named \<open>null\<close> and leave x, y and z alone.
\<close>

definition updatePosition :: "direction option \<Rightarrow> real \<Rightarrow> block \<Rightarrow> block" where
  "updatePosition dir delta b =
     (case dir of
        None \<Rightarrow> b
      | Some d \<Rightarrow>
          b\<lparr>mesh := (mesh b)\<lparr>mesh_position :=
                 set_coord d (fl (coord (mesh_position (mesh b)) d + delta))
                   (mesh_position (mesh b))\<rparr>,
            physicsBody := (physicsBody b)\<lparr>body_position :=
                 set_coord d (fl (coord (body_position (physicsBody b)) d + delta))
                   (body_position (physicsBody b))\<rparr>,
            position := set_coord d (fl (coord (position b) d + delta)) (position b)\<rparr>)"

text \<open>
  \<open>cut(overlap, originalSize, delta)\<close>: the extent along the block's own direction
  becomes \<open>overlap\<close>, the mesh is scaled by \<open>overlap / originalSize\<close>, and mesh, body and
  block are shifted by \<open>- delta / 2\<close> along that direction.
\<close>

definition cut :: "real \<Rightarrow> real \<Rightarrow> real \<Rightarrow> block \<Rightarrow> block" where
  "cut overlap originalSize delta b =
     (case direction b of
        None \<Rightarrow> b
      | Some d \<Rightarrow>
          (let newWidth = (if d = DIR_X then overlap else width b);
               newDepth = (if d = DIR_Z then overlap else depth b)
           in b\<lparr>width := newWidth,
                depth := newDepth,
                mesh := (mesh b)\<lparr>
                  mesh_scale := set_coord d (fl (overlap / originalSize)) (mesh_scale (mesh b)),
                  mesh_position :=
                    set_coord d (fl (coord (mesh_position (mesh b)) d - fl (delta / 2)))
                      (mesh_position (mesh b))\<rparr>,
                physicsBody := (physicsBody b)\<lparr>body_position :=
                    set_coord d (fl (coord (body_position (physicsBody b)) d - fl (delta / 2)))
                      (body_position (physicsBody b))\<rparr>,
                position :=
                  set_coord d (fl (coord (position b) d - fl (delta / 2))) (position b)\<rparr>))"

text \<open>
  \<open>isOutOfBounds(bound = 10)\<close>: \<open>Math.abs(undefined) > 10\<close> is false for a block without
  direction.
\<close>

definition isOutOfBounds :: "block \<Rightarrow> bool" where
  "isOutOfBounds b =
     (case direction b of None \<Rightarrow> False | Some d \<Rightarrow> \<bar>getPosition b d\<bar> > 10)"

definition startFalling :: "block \<Rightarrow> block" where
  "startFalling b = b\<lparr>isFalling := True, isMoving := False\<rparr>"

definition updateFromPhysics :: "block \<Rightarrow> block" where
  "updateFromPhysics b =
     b\<lparr>mesh := (mesh b)\<lparr>mesh_position := body_position (physicsBody b)\<rparr>\<rparr>"

section \<open>Collaborators (\<open>physics_manager.js\<close>, \<open>render_manager.js\<close>)\<close>

text \<open>
  \<open>createBoxBody\<close>: one box shape of the half extents; a dynamic body weighs
  \<open>BOX_FALL_MASS\<close> scaled by both extents over the original size, a static one nothing.
  The physics manager is initialised before the engine is built.
\<close>

definition createBoxBody ::
  "real \<Rightarrow> real \<Rightarrow> real \<Rightarrow> real \<Rightarrow> real \<Rightarrow> real \<Rightarrow> bool \<Rightarrow> body" where
  "createBoxBody x y z w h d isDynamic =
     \<lparr>body_position = vec3 x y z,
      body_mass = (if isDynamic
                   then fl (fl (BOX_FALL_MASS * fl (w / ORIGINAL_BOX_SIZE))
                              * fl (d / ORIGINAL_BOX_SIZE))
                   else 0),
      body_shapes = [vec3 (fl (w / 2)) (fl (h / 2)) (fl (d / 2))]\<rparr>"

text \<open>\<open>updateBodyShape\<close> empties the shape list and attaches the one new box.\<close>

definition updateBodyShape :: "real \<Rightarrow> real \<Rightarrow> real \<Rightarrow> body \<Rightarrow> body" where
  "updateBodyShape w h d bd =
     bd\<lparr>body_shapes := [vec3 (fl (w / 2)) (fl (h / 2)) (fl (d / 2))]\<rparr>"

text \<open>\<open>updateCameraPosition(targetY, deltaTime)\<close> and \<open>resetCamera()\<close>.\<close>

definition updateCameraPosition :: "real \<Rightarrow> real \<Rightarrow> game \<Rightarrow> game" where
  "updateCameraPosition targetY deltaTime s =
     (if cameraY s < fl (targetY + 4)
      then s\<lparr>cameraY := fl (cameraY s + fl (CAMERA_FOLLOW_SPEED * deltaTime))\<rparr>
      else s)"

definition resetCamera :: "game \<Rightarrow> game" where
  "resetCamera s = s\<lparr>cameraY := 4\<rparr>"

definition emit :: "event \<Rightarrow> game \<Rightarrow> game" where
  "emit e s = s\<lparr>events := events s @ [e]\<rparr>"

section \<open>The engine (\<open>game_logic.js\<close>)\<close>

text \<open>
  The constructor; \<open>rnd\<close> is the value of \<open>Math.random()\<close> that its call of
  \<open>setRobotPrecision\<close> draws.
\<close>

definition setRobotPrecision :: "real \<Rightarrow> game \<Rightarrow> game" where
  "setRobotPrecision rnd s =
     s\<lparr>robotPrecision := fl (fl (rnd * ROBOT_PRECISION_RANGE) - 0.5)\<rparr>"

definition newGameLogic :: "real \<Rightarrow> game" where
  "newGameLogic rnd =
     setRobotPrecision rnd
       \<lparr>stack = [], overhangs = [], isAutopilot = True, isGameEnded = False, score = 0,
        robotPrecision = 0, world = [], scene = [], cameraY = 4, nextHandle = 0,
        events = []\<rparr>"

text \<open>
  \<open>createBlock\<close>: a body in the world, the block around it, its mesh in the scene.
  The mesh starts at the block's position with unit scale.
\<close>

definition createBlock ::
  "real \<Rightarrow> real \<Rightarrow> real \<Rightarrow> real \<Rightarrow> real \<Rightarrow> direction option \<Rightarrow> bool \<Rightarrow> game
     \<Rightarrow> block \<times> game" where
  "createBlock x y z w d dir isDynamic s =
     (let h = nextHandle s;
          physicsBody = createBoxBody x y z w BOX_HEIGHT d isDynamic;
          s1 = s\<lparr>world := world s @ [h], nextHandle := Suc h\<rparr>;
          b = \<lparr>position = vec3 x y z, width = w, depth = d, direction = dir,
               mesh = \<lparr>mesh_position = vec3 x y z, mesh_scale = vec3 1 1 1\<rparr>,
               physicsBody = physicsBody, isMoving = False, isFalling = False,
               handle = h\<rparr>;
          s2 = s1\<lparr>scene := scene s1 @ [h]\<rparr>
      in (b, s2))"

definition addLayer ::
  "real \<Rightarrow> real \<Rightarrow> real \<Rightarrow> real \<Rightarrow> direction option \<Rightarrow> game \<Rightarrow> game" where
  "addLayer x z w d dir s =
     (let y = BOX_HEIGHT * real (length (stack s));
          (b, s1) = createBlock x y z w d dir False s;
          s2 = s1\<lparr>stack := stack s1 @ [b]\<rparr>
      in emit (LAYER_ADDED (handle b) (length (stack s2))) s2)"

text \<open>
  \<open>stack.length - 1\<close> is \<open>-1\<close> on an empty stack, hence the integer. The products of
  \<open>BOX_HEIGHT\<close>, which is 1, with \<open>stack.length\<close>, \<open>stack.length - 1\<close> and
  \<open>stack.length - 2\<close> are exact in doubles (the length of an array is an integer below
  \<open>2\<close> to the 32), so they are not rounded here, in \<open>addLayer\<close> and in \<open>update\<close>.
\<close>

definition addOverhang :: "real \<Rightarrow> real \<Rightarrow> real \<Rightarrow> real \<Rightarrow> game \<Rightarrow> game" where
  "addOverhang x z w d s =
     (let y = BOX_HEIGHT * real_of_int (int (length (stack s)) - 1);
          (overhang, s1) = createBlock x y z w d None True s
      in s1\<lparr>overhangs := overhangs s1 @ [startFalling overhang]\<rparr>)"

definition initialize :: "game \<Rightarrow> game" where
  "initialize s =
     addLayer (-10) 0 ORIGINAL_BOX_SIZE ORIGINAL_BOX_SIZE (Some DIR_X)
       (addLayer 0 0 ORIGINAL_BOX_SIZE ORIGINAL_BOX_SIZE None s)"

text \<open>
  \<open>clearGame\<close>: every body leaves the world, every mesh leaves the scene (and is
  disposed there), the blocks still listed are disposed, both lists are emptied.
  Disposal itself has no effect on the modelled state.
\<close>

definition clearGame :: "game \<Rightarrow> game" where
  "clearGame s = s\<lparr>world := [], scene := [], stack := [], overhangs := []\<rparr>"

definition startGame :: "game \<Rightarrow> game" where
  "startGame s =
     (let s1 = s\<lparr>isAutopilot := False, isGameEnded := False, score := 0,
                 stack := [], overhangs := []\<rparr>;
          s2 = clearGame s1;
          s3 = resetCamera s2;
          s4 = addLayer 0 0 ORIGINAL_BOX_SIZE ORIGINAL_BOX_SIZE None s3;
          s5 = addLayer (-10) 0 ORIGINAL_BOX_SIZE ORIGINAL_BOX_SIZE (Some DIR_X) s4;
          s6 = emit GAME_START s5
      in emit (SCORE_UPDATE (score s6)) s6)"

text \<open>
  \<open>missBlock\<close>: the top block falls. On an empty stack \<open>topLayer\<close> is \<open>undefined\<close> and
  reading its position throws a TypeError: the result \<open>None\<close>. \<open>removeBody\<close> and
  \<open>removeFromScene\<close> take the top block's body and mesh out of world and scene.
\<close>

definition missBlock :: "game \<Rightarrow> game option" where
  "missBlock s =
     (if stack s = [] then None
      else
        (let topLayer = last (stack s);
             s1 = addOverhang (getPosition topLayer DIR_X) (getPosition topLayer DIR_Z)
                    (width topLayer) (depth topLayer) s;
             s2 = s1\<lparr>world := removeAll (handle topLayer) (world s1)\<rparr>;
             s3 = s2\<lparr>scene := removeAll (handle topLayer) (scene s2)\<rparr>;
             s4 = s3\<lparr>stack := butlast (stack s3)\<rparr>;
             s5 = s4\<lparr>isGameEnded := True\<rparr>
         in Some (if \<not> isAutopilot s5 then emit GAME_OVER s5 else s5)))"

text \<open>
  \<open>cutAndContinue\<close>. Its argument \<open>topLayer\<close> is a reference to the last element of
  the stack (the one call site passes \<open>this.stack[this.stack.length - 1]\<close>), so cutting
  it updates the stack in place; \<open>direction\<close> is that block's direction. The overhang and
  the next layer are placed from the position of the top block \<^emph>\<open>after\<close> the cut.
\<close>

definition cutAndContinue ::
  "real \<Rightarrow> real \<Rightarrow> real \<Rightarrow> real \<Rightarrow> direction \<Rightarrow> game \<Rightarrow> game" where
  "cutAndContinue overlap sz delta overhangSize dir s =
     (let i = length (stack s) - 1;
          t1 = cut overlap sz delta (stack s ! i);
          topLayer = t1\<lparr>physicsBody :=
                        updateBodyShape (width t1) BOX_HEIGHT (depth t1) (physicsBody t1)\<rparr>;
          s1 = s\<lparr>stack := (stack s)[i := topLayer]\<rparr>;
          overhangShift = fl (fl (fl (overlap / 2) + fl (overhangSize / 2)) * sgn delta);
          overhangX = (if dir = DIR_X then fl (getPosition topLayer DIR_X + overhangShift)
                       else getPosition topLayer DIR_X);
          overhangZ = (if dir = DIR_Z then fl (getPosition topLayer DIR_Z + overhangShift)
                       else getPosition topLayer DIR_Z);
          overhangWidth = (if dir = DIR_X then overhangSize else width topLayer);
          overhangDepth = (if dir = DIR_Z then overhangSize else depth topLayer);
          s2 = addOverhang overhangX overhangZ overhangWidth overhangDepth s1;
          nextX = (if dir = DIR_X then getPosition topLayer DIR_X else -10);
          nextZ = (if dir = DIR_Z then getPosition topLayer DIR_Z else -10);
          nextDirection = (if dir = DIR_X then DIR_Z else DIR_X);
          s3 = s2\<lparr>score := int (length (stack s2)) - 1\<rparr>;
          s4 = emit (SCORE_UPDATE (score s3)) s3
      in addLayer nextX nextZ (width topLayer) (depth topLayer) (Some nextDirection) s4)"

text \<open>
  \<open>splitBlockAndAddNext\<close>. When the top block has no direction, its position along
  \<open>null\<close> is \<open>undefined\<close>, \<open>delta\<close> and \<open>overlap\<close> are NaN, \<open>overlap > 0\<close> is false and
  the block is missed. \<open>sz\<close> is the source's \<open>size\<close>.
\<close>

definition splitBlockAndAddNext :: "game \<Rightarrow> game option" where
  "splitBlockAndAddNext s =
     (if isGameEnded s \<or> length (stack s) < 2 then Some s
      else
        (let topLayer = stack s ! (length (stack s) - 1);
             previousLayer = stack s ! (length (stack s) - 2)
         in case direction topLayer of
              None \<Rightarrow> missBlock s
            | Some dir \<Rightarrow>
                (let sz = getSize topLayer (Some dir);
                     delta = fl (getPosition topLayer dir - getPosition previousLayer dir);
                     overhangSize = \<bar>delta\<bar>;
                     overlap = fl (sz - overhangSize)
                 in if overlap > 0
                    then Some (cutAndContinue overlap sz delta overhangSize dir s)
                    else missBlock s)))"

definition handleBlockPlacement :: "game \<Rightarrow> game option" where
  "handleBlockPlacement s =
     (if isAutopilot s then Some (startGame s) else splitBlockAndAddNext s)"

text \<open>
  \<open>shouldBlockMove\<close>: in autopilot a block without direction compares \<open>undefined\<close> with
  NaN, which is false.
\<close>

definition shouldBlockMove :: "block \<Rightarrow> block \<Rightarrow> game \<Rightarrow> bool" where
  "shouldBlockMove topLayer previousLayer s =
     (if isGameEnded s then False
      else if \<not> isAutopilot s then True
      else (case direction topLayer of
              None \<Rightarrow> False
            | Some d \<Rightarrow>
                (let currentPos = getPosition topLayer d;
                     targetPos = fl (getPosition previousLayer d + robotPrecision s)
                 in currentPos < targetPos)))"

definition moveBlock :: "real \<Rightarrow> block \<Rightarrow> block" where
  "moveBlock deltaTime b =
     (let speed = MOVEMENT_SPEED; delta = fl (speed * deltaTime)
      in updatePosition (direction b) delta b)"

definition updateOverhangs :: "game \<Rightarrow> game" where
  "updateOverhangs s = s\<lparr>overhangs := map updateFromPhysics (overhangs s)\<rparr>"

text \<open>
  \<open>update(deltaTime)\<close>; \<open>rnd\<close> is the value \<open>Math.random()\<close> returns if
  \<open>setRobotPrecision\<close> is reached.
\<close>

definition update :: "real \<Rightarrow> real \<Rightarrow> game \<Rightarrow> game option" where
  "update deltaTime rnd s =
     (if length (stack s) < 2 then Some s
      else
        (let i = length (stack s) - 1;
             topLayer = stack s ! i;
             previousLayer = stack s ! (length (stack s) - 2);
             targetCameraY = BOX_HEIGHT * real_of_int (int (length (stack s)) - 2);
             s1 = updateCameraPosition targetCameraY deltaTime s;
             shouldMove = shouldBlockMove topLayer previousLayer s1;
             r = (if shouldMove
                  then (let moved = moveBlock deltaTime topLayer;
                            s2 = s1\<lparr>stack := (stack s1)[i := moved]\<rparr>
                        in if isOutOfBounds moved then missBlock s2 else Some s2)
                  else if isAutopilot s1
                  then map_option (setRobotPrecision rnd) (splitBlockAndAddNext s1)
                  else Some s1)
         in map_option updateOverhangs r))"

section \<open>Runs of the engine\<close>

text \<open>
  What reaches the engine from outside: the event \<open>BLOCK_PLACED\<close> (bound to
  \<open>handleBlockPlacement\<close>), the event \<open>GAME_RESET\<close> (bound to \<open>startGame\<close>) and the
  frame tick (\<open>update\<close>, with its elapsed time and its random draw).
\<close>

datatype action = PlaceBlock | Reset | Tick real real

fun step :: "action \<Rightarrow> game \<Rightarrow> game option" where
  "step PlaceBlock s = handleBlockPlacement s"
| "step Reset s = Some (startGame s)"
| "step (Tick deltaTime rnd) s = update deltaTime rnd s"

fun run :: "action list \<Rightarrow> game \<Rightarrow> game option" where
  "run [] s = Some s"
| "run (a # as) s = (case step a s of None \<Rightarrow> None | Some s' \<Rightarrow> run as s')"

section \<open>The quantities of a placement\<close>

text \<open>
  The locals of \<open>splitBlockAndAddNext\<close>, as functions of the state and of the top block's
  direction \<open>d\<close>: the two layers compared, \<open>size\<close>, \<open>delta\<close>, \<open>overhangSize\<close> and \<open>overlap\<close>.
\<close>

definition top_layer :: "game \<Rightarrow> block" where
  "top_layer s = stack s ! (length (stack s) - 1)"

definition previous_layer :: "game \<Rightarrow> block" where
  "previous_layer s = stack s ! (length (stack s) - 2)"

definition placement_size :: "game \<Rightarrow> direction \<Rightarrow> real" where
  "placement_size s d = getSize (top_layer s) (Some d)"

definition placement_delta :: "game \<Rightarrow> direction \<Rightarrow> real" where
  "placement_delta s d = fl (getPosition (top_layer s) d - getPosition (previous_layer s) d)"

definition placement_overhangSize :: "game \<Rightarrow> direction \<Rightarrow> real" where
  "placement_overhangSize s d = \<bar>placement_delta s d\<bar>"

definition placement_overlap :: "game \<Rightarrow> direction \<Rightarrow> real" where
  "placement_overlap s d = fl (placement_size s d - placement_overhangSize s d)"

text \<open>The other horizontal axis.\<close>

fun other :: "direction \<Rightarrow> direction" where
  "other DIR_X = DIR_Z"
| "other DIR_Z = DIR_X"

text \<open>
  Two blocks adjoin along \<open>d\<close> when the faces between them coincide: their centres are
  apart by the sum of their half extents.
\<close>

definition adjoining :: "block \<Rightarrow> block \<Rightarrow> direction \<Rightarrow> bool" where
  "adjoining a b d \<longleftrightarrow>
     \<bar>getPosition a d - getPosition b d\<bar> = getSize a (Some d) / 2 + getSize b (Some d) / 2"

text \<open>
  The distance between the two faces that two blocks turn to each other along \<open>d\<close>:
  zero when they adjoin, positive across a gap, negative when they overlap.
\<close>

definition face_gap :: "block \<Rightarrow> block \<Rightarrow> direction \<Rightarrow> real" where
  "face_gap a b d =
     \<bar>getPosition a d - getPosition b d\<bar> - (getSize a (Some d) / 2 + getSize b (Some d) / 2)"

section \<open>Concrete games\<close>

text \<open>
  A game as the page builds it and the player starts it, and Scenario A: the first
  sliding layer is placed when it has travelled 11 units, one unit past the base.
\<close>

definition fresh_game :: game where
  "fresh_game = startGame (initialize (newGameLogic 0))"

definition scenarioA :: game where
  "scenarioA = the (update 1375 0 fresh_game)"

text \<open>The block that \<open>cutAndContinue\<close> leaves at the top block's place.\<close>

definition kept_block :: "real \<Rightarrow> real \<Rightarrow> real \<Rightarrow> game \<Rightarrow> block" where
  "kept_block ov sz dl s =
     (let t1 = cut ov sz dl (top_layer s)
      in t1\<lparr>physicsBody :=
              updateBodyShape (width t1) BOX_HEIGHT (depth t1) (physicsBody t1)\<rparr>)"

text \<open>Scenario A after the placement, and after a second placement at once, which misses.\<close>

definition scenarioA_placed :: game where
  "scenarioA_placed = the (splitBlockAndAddNext scenarioA)"

definition scenarioA_lost :: game where
  "scenarioA_lost = the (run [PlaceBlock, PlaceBlock] scenarioA)"

text \<open>The engine as the page builds it: in autopilot, two seed layers.\<close>

definition autopilot_game :: game where
  "autopilot_game = initialize (newGameLogic 0)"

text \<open>
  Every block in stack and overhangs was made before the next handle to be handed out.
\<close>

definition handles_fresh :: "game \<Rightarrow> bool" where
  "handles_fresh s \<longleftrightarrow> list_all (\<lambda>b. handle b < nextHandle s) (stack s @ overhangs s)"

text \<open>
  The first sliding layer placed when it has travelled 13 units: it touches the base
  along one edge and overlaps it by exactly 0.
\<close>

definition touching_game :: game where
  "touching_game = the (update 1625 0 fresh_game)"

text \<open>The first sliding layer placed when it is exactly above the base.\<close>

definition centred_game :: game where
  "centred_game = the (update 1250 0 fresh_game)"

text \<open>
  Two games in which rounding shows. In the first, the first sliding layer is placed after
  two frames of 995 and 44 milliseconds. In the second, it is placed after two frames of 995
  and 33 milliseconds, the next layer after a frame of 1201 milliseconds, and the third is
  about to be placed after a frame of 1164 milliseconds.
\<close>

definition rounded_1 :: game where
  "rounded_1 = the (update 995 0 fresh_game)"

definition skewed_game :: game where
  "skewed_game = the (update 44 0 rounded_1)"

definition skewed_placed :: game where
  "skewed_placed = the (splitBlockAndAddNext skewed_game)"

definition rounded_2 :: game where
  "rounded_2 = the (update 33 0 rounded_1)"

definition rounded_3 :: game where
  "rounded_3 = the (handleBlockPlacement rounded_2)"

definition rounded_4 :: game where
  "rounded_4 = the (update 1201 0 rounded_3)"

definition rounded_5 :: game where
  "rounded_5 = the (handleBlockPlacement rounded_4)"

definition rounded_game :: game where
  "rounded_game = the (update 1164 0 rounded_5)"

definition rounded_placed :: game where
  "rounded_placed = the (splitBlockAndAddNext rounded_game)"

section \<open>Settled states and games\<close>

text \<open>
  The axis of the layer at index \<open>i\<close> of the stack: none for the base, x for the first
  sliding layer, then z, x, z and so on.
\<close>

fun layer_direction :: "nat \<Rightarrow> direction option" where
  "layer_direction i = (if i = 0 then None else if odd i then Some DIR_X else Some DIR_Z)"

text \<open>
  The invariant of the engine between two requests: the layers have their axes; a live
  game has the base, at least one more layer, and a score of two less than the length of
  the stack; a game that has ended has lost its top layer, and its score is one less than
  the length.
\<close>

definition settled :: "game \<Rightarrow> bool" where
  "settled s \<longleftrightarrow>
     map direction (stack s) = map layer_direction [0..<length (stack s)] \<and>
     (if isGameEnded s
      then 1 \<le> length (stack s) \<and> score s = int (length (stack s)) - 1
      else 2 \<le> length (stack s) \<and> score s = int (length (stack s)) - 2)"

text \<open>
  The requests that call \<open>startGame\<close>: a reset, and a placement request in autopilot.
  A list of requests stays within one game when none of them does.
\<close>

definition resets :: "action \<Rightarrow> game \<Rightarrow> bool" where
  "resets a s \<longleftrightarrow> a = Reset \<or> (a = PlaceBlock \<and> isAutopilot s)"

fun one_game :: "action list \<Rightarrow> game \<Rightarrow> bool" where
  "one_game [] s = True"
| "one_game (a # as) s =
     (\<not> resets a s \<and> (case step a s of None \<Rightarrow> True | Some s' \<Rightarrow> one_game as s'))"

text \<open>
  The number of successful placements of a run: the requests after which the stack is
  longer than before (within one game only \<open>cutAndContinue\<close> appends a layer). And the
  scores after each request of a run, in order.
\<close>

fun placements :: "action list \<Rightarrow> game \<Rightarrow> nat" where
  "placements [] s = 0"
| "placements (a # as) s =
     (case step a s of
        None \<Rightarrow> 0
      | Some s' \<Rightarrow> (if length (stack s) < length (stack s') then 1 else 0) + placements as s')"

fun scores_along :: "action list \<Rightarrow> game \<Rightarrow> int list" where
  "scores_along [] s = []"
| "scores_along (a # as) s =
     (case step a s of None \<Rightarrow> [] | Some s' \<Rightarrow> score s' # scores_along as s')"

section \<open>Rounding\<close>

text \<open>
  What is used of \<open>fl\<close>: the error of one rounding, that a double is not changed by
  rounding it again, and a rule that evaluates \<open>fl\<close> at a given number.
\<close>

lemma ulp_pos: "0 < ulp x"
  by (simp add: ulp_def)

lemma round_even_error: "\<bar>of_int (round_even y) - y\<bar> \<le> 1 / 2"
proof -
  have "of_int \<lfloor>y\<rfloor> \<le> y" "y < of_int \<lfloor>y\<rfloor> + 1" by linarith+
  then show ?thesis
    by (auto simp: round_even_def Let_def)
qed

lemma round_even_of_int: "round_even (of_int n) = n"
  by (simp add: round_even_def)

lemma fl_zero: "fl 0 = 0"
  by (simp add: fl_def)

lemma fl_error_ulp: "\<bar>fl x - x\<bar> \<le> ulp x / 2"
proof (cases "x = 0")
  case True
  then show ?thesis using ulp_pos [of x] by (simp add: fl_def)
next
  case False
  let ?u = "ulp x"
  have u: "0 < ?u" by (rule ulp_pos)
  have "fl x - x = (of_int (round_even (x / ?u)) - x / ?u) * ?u"
    using False u by (simp add: fl_def field_simps)
  then have "\<bar>fl x - x\<bar> = \<bar>of_int (round_even (x / ?u)) - x / ?u\<bar> * ?u"
    using u by (simp add: abs_mult)
  also have "\<dots> \<le> (1 / 2) * ?u"
    using u round_even_error [of "x / ?u"] by (intro mult_right_mono) simp_all
  finally show ?thesis by simp
qed

lemma ulp_le:
  assumes "x \<noteq> 0"
  shows "ulp x \<le> max (\<bar>x\<bar> / 2 ^ 52) (1 / 2 ^ 1074)"
proof (cases "- 1022 \<le> \<lfloor>log 2 \<bar>x\<bar>\<rfloor>")
  case True
  then have e: "expo x = \<lfloor>log 2 \<bar>x\<bar>\<rfloor>" by (simp add: expo_def)
  have "real_of_int \<lfloor>log 2 \<bar>x\<bar>\<rfloor> \<le> log 2 \<bar>x\<bar>" by linarith
  then have "2 powr real_of_int \<lfloor>log 2 \<bar>x\<bar>\<rfloor> \<le> 2 powr log 2 \<bar>x\<bar>"
    by (simp add: powr_le_cancel_iff)
  also have "\<dots> = \<bar>x\<bar>" using assms by simp
  finally have "2 powr real_of_int (expo x) \<le> \<bar>x\<bar>" by (simp add: e)
  moreover have "ulp x = 2 powr real_of_int (expo x) / 2 ^ 52"
    by (simp add: ulp_def powr_diff powr_realpow [of 2 52, simplified])
  ultimately have "ulp x \<le> \<bar>x\<bar> / 2 ^ 52"
    by (simp add: divide_right_mono)
  then show ?thesis by simp
next
  case False
  then have e: "expo x = - 1022" by (simp add: expo_def)
  have "ulp x = 2 powr (- real (1074::nat))"
    by (simp add: ulp_def e)
  also have "\<dots> = 1 / 2 ^ 1074"
    by (simp only: powr_minus powr_realpow [of 2, simplified] inverse_eq_divide)
  finally show ?thesis by simp
qed

lemma fl_error: "\<bar>fl x - x\<bar> \<le> \<bar>x\<bar> / 2 ^ 53 + eta"
proof (cases "x = 0")
  case True
  then show ?thesis by (simp add: fl_zero eta_def)
next
  case False
  have "\<bar>fl x - x\<bar> \<le> ulp x / 2" by (rule fl_error_ulp)
  also have "\<dots> \<le> max (\<bar>x\<bar> / 2 ^ 52) (1 / 2 ^ 1074) / 2"
    using ulp_le [OF False] by simp
  also have "\<dots> \<le> \<bar>x\<bar> / 2 ^ 53 + eta"
    by (simp add: eta_def max_def)
  finally show ?thesis .
qed

lemma expo_eqI:
  assumes "y \<noteq> 0" and "\<bar>y\<bar> < 2 powr (real_of_int e + 1)"
    and "2 powr real_of_int e \<le> \<bar>y\<bar> \<or> e = - 1022" and "- 1022 \<le> e"
  shows "expo y = e"
proof (cases "2 powr real_of_int e \<le> \<bar>y\<bar>")
  case True
  have "\<lfloor>log 2 \<bar>y\<bar>\<rfloor> = e"
    using assms(1,2) True by (subst floor_log_eq_powr_iff) simp_all
  then show ?thesis using assms(4) by (simp add: expo_def)
next
  case False
  then have e: "e = - 1022" and lt: "\<bar>y\<bar> < 2 powr real_of_int e"
    using assms(3) by auto
  have "log 2 \<bar>y\<bar> < real_of_int e"
    using lt assms(1) by (simp add: log_less_iff)
  then have "\<lfloor>log 2 \<bar>y\<bar>\<rfloor> < e" by linarith
  then show ?thesis by (simp add: expo_def e)
qed

lemma expo_bounds:
  assumes "x \<noteq> 0"
  shows "\<bar>x\<bar> < 2 powr (real_of_int (expo x) + 1)"
    and "2 powr real_of_int (expo x) \<le> \<bar>x\<bar> \<or> expo x = - 1022"
    and "- 1022 \<le> expo x"
proof -
  let ?f = "\<lfloor>log 2 \<bar>x\<bar>\<rfloor>"
  have f: "2 powr real_of_int ?f \<le> \<bar>x\<bar>" "\<bar>x\<bar> < 2 powr (real_of_int ?f + 1)"
    using assms floor_log_eq_powr_iff [of "\<bar>x\<bar>" 2 ?f] by simp_all
  have "?f \<le> expo x" by (simp add: expo_def)
  then have "2 powr (real_of_int ?f + 1) \<le> 2 powr (real_of_int (expo x) + 1)"
    by (simp add: powr_le_cancel_iff)
  with f(2) show "\<bar>x\<bar> < 2 powr (real_of_int (expo x) + 1)" by linarith
  show "2 powr real_of_int (expo x) \<le> \<bar>x\<bar> \<or> expo x = - 1022"
    using f(1) by (auto simp: expo_def max_def)
  show "- 1022 \<le> expo x" by (simp add: expo_def)
qed

lemma ulp_expo: "expo y = expo x \<Longrightarrow> ulp y = ulp x"
  by (simp add: ulp_def)

lemma fl_multiple:
  assumes "y = of_int m * ulp y"
  shows "fl y = y"
proof (cases "y = 0")
  case True
  then show ?thesis by (simp add: fl_zero)
next
  case False
  have "y / ulp y = of_int m"
    using assms ulp_pos [of y] by (simp add: field_simps)
  then show ?thesis
    using False assms by (simp add: fl_def round_even_of_int)
qed

lemma fl_fl: "fl (fl x) = fl x"
proof (cases "fl x = 0")
  case True
  then show ?thesis by (simp add: fl_zero)
next
  case nz: False
  then have x0: "x \<noteq> 0" by (auto simp: fl_zero)
  let ?e = "expo x" and ?u = "ulp x"
  let ?m = "round_even (x / ?u)"
  have u: "0 < ?u" by (rule ulp_pos)
  have y: "fl x = of_int ?m * ?u" using x0 by (simp add: fl_def)
  have u52: "?u * 2 ^ 52 = 2 powr real_of_int ?e"
    by (simp add: ulp_def powr_diff powr_realpow [of 2 52, simplified])
  have u53: "?u * 2 ^ 53 = 2 powr (real_of_int ?e + 1)"
    using u52 by (simp add: powr_add)
  note b = expo_bounds [OF x0]
  have "\<bar>x\<bar> / ?u < 2 ^ 53"
    using b(1) u u53 by (simp add: field_simps)
  then have "\<bar>x / ?u\<bar> < 2 ^ 53" using u by (simp add: abs_divide)
  then have "\<bar>real_of_int ?m\<bar> < 2 ^ 53 + 1 / 2"
    using round_even_error [of "x / ?u"] by linarith
  then have "real_of_int \<bar>?m\<bar> < real_of_int (2 ^ 53 + 1)" by simp
  then have "\<bar>?m\<bar> < 2 ^ 53 + 1" by (simp only: of_int_less_iff)
  then have m_le: "\<bar>?m\<bar> \<le> 2 ^ 53" by simp
  have low: "2 ^ 52 \<le> \<bar>?m\<bar> \<or> ?e = - 1022"
  proof (cases "?e = - 1022")
    case True
    then show ?thesis by simp
  next
    case False
    with b(2) have "2 powr real_of_int ?e \<le> \<bar>x\<bar>" by simp
    then have "2 ^ 52 \<le> \<bar>x\<bar> / ?u"
      using u u52 by (simp add: field_simps)
    then have "2 ^ 52 \<le> \<bar>x / ?u\<bar>" using u by (simp add: abs_divide)
    then have "2 ^ 52 - 1 / 2 \<le> \<bar>real_of_int ?m\<bar>"
      using round_even_error [of "x / ?u"] by linarith
    then have "real_of_int (2 ^ 52 - 1) < real_of_int \<bar>?m\<bar>" by simp
    then have "2 ^ 52 - 1 < \<bar>?m\<bar>" by (simp only: of_int_less_iff)
    then show ?thesis by simp
  qed
  have absy: "\<bar>fl x\<bar> = real_of_int \<bar>?m\<bar> * ?u"
    using u by (simp add: y abs_mult)
  show ?thesis
  proof (cases "\<bar>?m\<bar> = 2 ^ 53")
    case True
    then have ay: "\<bar>fl x\<bar> = 2 powr (real_of_int (?e + 1))"
      using u53 by (simp add: absy mult.commute)
    have "expo (fl x) = ?e + 1"
    proof (rule expo_eqI [OF nz])
      show "\<bar>fl x\<bar> < 2 powr (real_of_int (?e + 1) + 1)"
        by (simp add: ay powr_less_cancel_iff)
      show "2 powr real_of_int (?e + 1) \<le> \<bar>fl x\<bar> \<or> ?e + 1 = - 1022"
        by (simp add: ay)
      show "- 1022 \<le> ?e + 1" using b(3) by simp
    qed
    then have u': "ulp (fl x) = 2 * ?u"
      by (simp add: ulp_def powr_add powr_diff)
    from True have "?m = 2 ^ 53 \<or> ?m = - (2 ^ 53)" by linarith
    then have "\<exists>k. ?m = 2 * k" by (auto intro: exI [of _ "2 ^ 52"] exI [of _ "- (2 ^ 52)"])
    then obtain k where k: "?m = 2 * k" by blast
    have "fl x = of_int ?m * ?u" by (rule y)
    also have "\<dots> = of_int k * (2 * ?u)" by (simp add: k)
    also have "\<dots> = of_int k * ulp (fl x)" by (simp only: u')
    finally show ?thesis by (rule fl_multiple)
  next
    case False
    with m_le have m_lt: "\<bar>?m\<bar> < 2 ^ 53" by simp
    have "expo (fl x) = ?e"
    proof (rule expo_eqI [OF nz])
      have "real_of_int \<bar>?m\<bar> < real_of_int (2 ^ 53)"
        using m_lt by (simp only: of_int_less_iff)
      then have "real_of_int \<bar>?m\<bar> < 2 ^ 53" by simp
      then have "real_of_int \<bar>?m\<bar> * ?u < 2 ^ 53 * ?u"
        using u by (simp add: mult_strict_right_mono)
      then show "\<bar>fl x\<bar> < 2 powr (real_of_int ?e + 1)"
        using u53 by (simp add: absy mult.commute)
      show "2 powr real_of_int ?e \<le> \<bar>fl x\<bar> \<or> ?e = - 1022"
      proof (cases "?e = - 1022")
        case True
        then show ?thesis by simp
      next
        case False
        with low have "2 ^ 52 \<le> \<bar>?m\<bar>" by simp
        then have "real_of_int (2 ^ 52) \<le> real_of_int \<bar>?m\<bar>"
          by (simp only: of_int_le_iff)
        then have "2 ^ 52 \<le> real_of_int \<bar>?m\<bar>" by simp
        then have "2 ^ 52 * ?u \<le> real_of_int \<bar>?m\<bar> * ?u"
          using u by (simp add: mult_right_mono)
        then show ?thesis using u52 by (simp add: absy mult.commute)
      qed
      show "- 1022 \<le> ?e" by (rule b(3))
    qed
    then have "ulp (fl x) = ?u" by (rule ulp_expo)
    then have "of_int ?m * ?u = of_int ?m * ulp (fl x)" by (simp only:)
    with y have "fl x = of_int ?m * ulp (fl x)" by (rule trans)
    then show ?thesis by (rule fl_multiple)
  qed
qed

lemma fl_eqI:
  assumes "2 ^ 52 \<le> \<bar>x\<bar> * 2 ^ k" and "\<bar>x\<bar> * 2 ^ k < 2 ^ 53" and "k \<le> 1074"
  shows "fl x = of_int (round_even (x * 2 ^ k)) / 2 ^ k"
proof -
  have x0: "x \<noteq> 0" using assms(1) by auto
  have pk: "2 powr real k = 2 ^ k"
    by (simp add: powr_realpow)
  have "2 powr (real_of_int (52 - int k)) = 2 powr 52 / 2 powr real k"
    by (simp add: powr_diff)
  then have p: "2 powr (real_of_int (52 - int k)) = 2 ^ 52 / 2 ^ k"
    by (simp add: pk)
  have "2 powr (real_of_int (53 - int k)) = 2 powr 53 / 2 powr real k"
    by (simp add: powr_diff)
  then have p53: "2 powr (real_of_int (53 - int k)) = 2 ^ 53 / 2 ^ k"
    by (simp add: pk)
  have "expo x = 52 - int k"
  proof (rule expo_eqI [OF x0])
    have "real_of_int (52 - int k) + 1 = real_of_int (53 - int k)" by simp
    then have "2 powr (real_of_int (52 - int k) + 1) = 2 ^ 53 / 2 ^ k"
      by (simp only: p53)
    then have A: "2 powr (real_of_int (52 - int k) + 1) = 2 ^ 53 / 2 ^ k" .
    have "\<bar>x\<bar> < 2 ^ 53 / 2 ^ k"
      using assms(2) by (simp add: pos_less_divide_eq)
    then show "\<bar>x\<bar> < 2 powr (real_of_int (52 - int k) + 1)"
      by (simp only: A)
    have "2 ^ 52 / 2 ^ k \<le> \<bar>x\<bar>"
      using assms(1) by (simp add: pos_divide_le_eq)
    then have "2 powr real_of_int (52 - int k) \<le> \<bar>x\<bar>"
      by (simp only: p)
    then show "2 powr real_of_int (52 - int k) \<le> \<bar>x\<bar> \<or> 52 - int k = - 1022"
      by (rule disjI1)
    show "- 1022 \<le> 52 - int k" using assms(3) by simp
  qed
  then have "ulp x = 2 powr (- real k)"
    by (simp add: ulp_def)
  then have "ulp x = 1 / 2 ^ k"
    by (simp only: powr_minus pk inverse_eq_divide)
  then show ?thesis
    using x0 by (simp add: fl_def)
qed

lemma eta_nonneg: "0 \<le> eta"
  by (simp add: eta_def)

lemma fl_abs_le: "\<bar>fl x\<bar> \<le> \<bar>x\<bar> + (\<bar>x\<bar> / 2 ^ 53 + eta)"
  using fl_error [of x] by linarith

lemma abs_diff_abs: "\<bar>\<bar>x\<bar> - \<bar>y\<bar>\<bar> \<le> \<bar>x - y\<bar>" for x y :: real
  by linarith

lemma shift_gap_bound:
  fixes K ov oh sg :: real
  assumes "0 \<le> ov" and "0 \<le> oh" and "\<bar>sg\<bar> = 1"
  shows "\<bar>\<bar>K - fl (K + fl (fl (fl (ov / 2) + fl (oh / 2)) * sg))\<bar> - (ov / 2 + oh / 2)\<bar>
           \<le> (\<bar>K\<bar> + 4 * (ov + oh)) / 2 ^ 53 + 8 * eta"
proof -
  define S where "S = ov / 2 + oh / 2"
  define A where "A = fl (ov / 2) + fl (oh / 2)"
  define h where "h = fl A"
  define m where "m = fl (h * sg)"
  define P where "P = fl (K + m)"
  note e = eta_nonneg
  have N: "(2::real) ^ 53 = 9007199254740992" by simp
  have S0: "0 \<le> S" using assms(1,2) by (simp add: S_def)
  have "\<bar>fl (ov / 2) - ov / 2\<bar> \<le> \<bar>ov / 2\<bar> / 2 ^ 53 + eta"
    and "\<bar>fl (oh / 2) - oh / 2\<bar> \<le> \<bar>oh / 2\<bar> / 2 ^ 53 + eta"
    by (rule fl_error)+
  then have eA: "\<bar>A - S\<bar> \<le> S / 2 ^ 53 + 2 * eta"
    using assms(1,2) unfolding A_def S_def by (simp add: add_divide_distrib)
  have eh: "\<bar>h - A\<bar> \<le> \<bar>A\<bar> / 2 ^ 53 + eta"
    unfolding h_def by (rule fl_error)
  have hs: "\<bar>h * sg\<bar> = \<bar>h\<bar>"
    by (simp add: abs_mult assms(3))
  have "\<bar>m - h * sg\<bar> \<le> \<bar>h * sg\<bar> / 2 ^ 53 + eta"
    unfolding m_def by (rule fl_error)
  then have "\<bar>\<bar>m\<bar> - \<bar>h * sg\<bar>\<bar> \<le> \<bar>h * sg\<bar> / 2 ^ 53 + eta"
    using abs_diff_abs [of m "h * sg"] by linarith
  then have em: "\<bar>\<bar>m\<bar> - \<bar>h\<bar>\<bar> \<le> \<bar>h\<bar> / 2 ^ 53 + eta"
    by (simp only: hs)
  have "\<bar>P - (K + m)\<bar> \<le> \<bar>K + m\<bar> / 2 ^ 53 + eta"
    unfolding P_def by (rule fl_error)
  moreover have "\<bar>K + m\<bar> \<le> \<bar>K\<bar> + \<bar>m\<bar>" by (rule abs_triangle_ineq)
  then have "\<bar>K + m\<bar> / 2 ^ 53 \<le> (\<bar>K\<bar> + \<bar>m\<bar>) / 2 ^ 53"
    by (simp add: divide_right_mono)
  moreover have "\<bar>\<bar>K - P\<bar> - \<bar>m\<bar>\<bar> \<le> \<bar>P - (K + m)\<bar>"
    by linarith
  ultimately have eP: "\<bar>\<bar>K - P\<bar> - \<bar>m\<bar>\<bar> \<le> (\<bar>K\<bar> + \<bar>m\<bar>) / 2 ^ 53 + eta"
    by linarith
  define aA where "aA = \<bar>A\<bar>"
  define ah where "ah = \<bar>h\<bar>"
  define am where "am = \<bar>m\<bar>"
  define aK where "aK = \<bar>K\<bar>"
  define D where "D = \<bar>K - P\<bar>"
  have 1: "\<bar>aA - S\<bar> \<le> S / 2 ^ 53 + 2 * eta"
    using eA S0 unfolding aA_def by linarith
  have 2: "\<bar>ah - aA\<bar> \<le> aA / 2 ^ 53 + eta"
    using eh abs_diff_abs [of h A] unfolding aA_def ah_def by linarith
  have 3: "\<bar>am - ah\<bar> \<le> ah / 2 ^ 53 + eta"
    using em unfolding am_def ah_def .
  have 4: "\<bar>D - am\<bar> \<le> (aK + am) / 2 ^ 53 + eta"
    using eP unfolding D_def am_def aK_def .
  have K0: "0 \<le> aK" by (simp add: aK_def)
  have a: "aA \<le> S + S / 9007199254740992 + 2 * eta"
    "S - S / 9007199254740992 - 2 * eta \<le> aA"
    using 1 unfolding N by linarith+
  have b: "ah \<le> aA + aA / 9007199254740992 + eta"
    "aA - aA / 9007199254740992 - eta \<le> ah"
    using 2 unfolding N by linarith+
  have c: "am \<le> ah + ah / 9007199254740992 + eta"
    "ah - ah / 9007199254740992 - eta \<le> am"
    using 3 unfolding N by linarith+
  have d: "D \<le> am + aK / 9007199254740992 + am / 9007199254740992 + eta"
    "am - aK / 9007199254740992 - am / 9007199254740992 - eta \<le> D"
    using 4 unfolding N by (simp_all add: add_divide_distrib)
  have uh: "ah \<le> S + 3 * S / 9007199254740992 + 4 * eta"
    using a(1) b(1) S0 e by linarith
  have um: "am \<le> S + 5 * S / 9007199254740992 + 6 * eta"
    using uh c(1) S0 e by linarith
  have up: "D \<le> S + aK / 9007199254740992 + 7 * S / 9007199254740992 + 8 * eta"
    using um d(1) S0 e by linarith
  have lh: "S - 2 * S / 9007199254740992 - 3 * eta \<le> ah"
    using a(2) b(2) S0 e by linarith
  have lm: "S - 3 * S / 9007199254740992 - 4 * eta \<le> am"
    using lh c(2) S0 e by linarith
  have lo: "S - aK / 9007199254740992 - 4 * S / 9007199254740992 - 5 * eta \<le> D"
    using lm d(2) S0 e by linarith
  have "\<bar>D - S\<bar> \<le> aK / 9007199254740992 + 8 * S / 9007199254740992 + 8 * eta"
    using up lo S0 e by linarith
  then show ?thesis
    unfolding D_def P_def m_def h_def A_def S_def aK_def by (simp add: field_simps)
qed

text \<open>The roundings met in the concrete games below.\<close>

lemma fl_values:
  shows "fl (1 / 125) = 1152921504606847 / 144115188075855872"
    and "fl (1801439850948193 / 27021597764222976) = 4803839602528515 / 72057594037927936"
    and "fl (2 / 25) = 5764607523034235 / 72057594037927936"
    and "fl (1801439850948193 / 18014398509481984) = 1801439850948193 / 18014398509481984"
    and "fl (36779396956859 / 281474976710656) = 36779396956859 / 281474976710656"
    and "fl (- (792633534417209 / 4503599627370496)) = - (792633534417209 / 4503599627370496)"
    and "fl (- (110338190870577 / 562949953421312)) = - (110338190870577 / 562949953421312)"
    and "fl (110338190870577 / 562949953421312) = 110338190870577 / 562949953421312"
    and "fl (1801439850948193 / 9007199254740992) = 1801439850948193 / 9007199254740992"
    and "fl (38046409652025951 / 144115188075855872) = 1188950301625811 / 4503599627370496"
    and "fl (84476235999209092413901808627 / 316912650057057350374175801344) = 4801918066687511 / 18014398509481984"
    and "fl (367336973932801491169214991317 / 1267650600228229401496703205376) = 1305043092020247 / 4503599627370496"
    and "fl (24019198012642575 / 72057594037927936) = 1501199875790161 / 4503599627370496"
    and "fl (1 / 3) = 6004799503160661 / 18014398509481984"
    and "fl (12682136550675317 / 36028797018963968) = 3170534137668829 / 9007199254740992"
    and "fl (- (110338190870577 / 281474976710656)) = - (110338190870577 / 281474976710656)"
    and "fl (5512405943901487 / 13510798882111488) = 7349874591868649 / 18014398509481984"
    and "fl (2954361355555045 / 6755399441055744) = 7878296948146787 / 18014398509481984"
    and "fl (- (1 / 2)) = - (1 / 2)"
    and "fl (1 / 2) = 1 / 2"
    and "fl (2305843009213695 / 4503599627370496) = 2305843009213695 / 4503599627370496"
    and "fl (3801038085500699 / 6755399441055744) = 5068050780667599 / 9007199254740992"
    and "fl (7998392938210001 / 13510798882111488) = 5332261958806667 / 9007199254740992"
    and "fl (2756202971950743 / 4503599627370496) = 2756202971950743 / 4503599627370496"
    and "fl (11024811887802973 / 18014398509481984) = 2756202971950743 / 4503599627370496"
    and "fl (5512405943901487 / 9007199254740992) = 5512405943901487 / 9007199254740992"
    and "fl (2954361355555045 / 4503599627370496) = 2954361355555045 / 4503599627370496"
    and "fl (2 / 3) = 6004799503160661 / 9007199254740992"
    and "fl (- (387309567953863 / 562949953421312)) = - (387309567953863 / 562949953421312)"
    and "fl (- (14195346025471809 / 18014398509481984)) = - (221802281647997 / 281474976710656)"
    and "fl (4611686018427390 / 5512405943901487) = 3767717335316495 / 4503599627370496"
    and "fl (- (3801038085500699 / 4503599627370496)) = - (3801038085500699 / 4503599627370496)"
    and "fl (3801038085500699 / 4503599627370496) = 3801038085500699 / 4503599627370496"
    and "fl (244695579753797 / 281474976710656) = 244695579753797 / 281474976710656"
    and "fl (- (7998392938210001 / 9007199254740992)) = - (7998392938210001 / 9007199254740992)"
    and "fl (7998392938210001 / 9007199254740992) = 7998392938210001 / 9007199254740992"
    and "fl (1) = 1"
    and "fl (9223372036854781 / 9007199254740992) = 2305843009213695 / 2251799813685248"
    and "fl (11024811887802973 / 9007199254740992) = 2756202971950743 / 2251799813685248"
    and "fl (5512405943901487 / 4503599627370496) = 5512405943901487 / 4503599627370496"
    and "fl (734086739261391 / 562949953421312) = 734086739261391 / 562949953421312"
    and "fl (2954361355555045 / 2251799813685248) = 2954361355555045 / 2251799813685248"
    and "fl (- (3 / 2)) = - (3 / 2)"
    and "fl (3 / 2) = 3 / 2"
    and "fl (6755399441055745 / 4503599627370496) = 6755399441055745 / 4503599627370496"
    and "fl (3752999689475413 / 2251799813685248) = 3752999689475413 / 2251799813685248"
    and "fl (30023997515803305 / 18014398509481984) = 3752999689475413 / 2251799813685248"
    and "fl (- (15204152342002795 / 9007199254740992)) = - (3801038085500699 / 2251799813685248)"
    and "fl (- (3801038085500699 / 2251799813685248)) = - (3801038085500699 / 2251799813685248)"
    and "fl (- (954763121002545 / 562949953421312)) = - (954763121002545 / 562949953421312)"
    and "fl (- (7998392938210001 / 4503599627370496)) = - (7998392938210001 / 4503599627370496)"
    and "fl (2) = 2"
    and "fl (36749372959343245 / 18014398509481984) = 2296835809958953 / 1125899906842624"
    and "fl (- (2296835809958953 / 1125899906842624)) = - (2296835809958953 / 1125899906842624)"
    and "fl (- (10556437526556443 / 4503599627370496)) = - (2639109381639111 / 1125899906842624)"
    and "fl (- (21509191820321489 / 9007199254740992)) = - (1344324488770093 / 562949953421312)"
    and "fl (734086739261391 / 281474976710656) = 734086739261391 / 281474976710656"
    and "fl (25340253903337995 / 9007199254740992) = 6335063475834499 / 2251799813685248"
    and "fl (6335063475834499 / 2251799813685248) = 6335063475834499 / 2251799813685248"
    and "fl (26661309794033335 / 9007199254740992) = 3332663724254167 / 1125899906842624"
    and "fl (3332663724254167 / 1125899906842624) = 3332663724254167 / 1125899906842624"
    and "fl (3) = 3"
    and "fl (3752999689475413 / 1125899906842624) = 3752999689475413 / 1125899906842624"
    and "fl (30023997515803305 / 9007199254740992) = 3752999689475413 / 1125899906842624"
    and "fl (4) = 4"
    and "fl (5) = 5"
    and "fl (6) = 6"
    and "fl (- 7) = - 7"
    and "fl (1147156897083812765 / 144115188075855872) = 8962163258467287 / 1125899906842624"
    and "fl (335500157840592477 / 36028797018963968) = 5242189966259257 / 562949953421312"
    and "fl (1384658727032823247 / 144115188075855872) = 2704411576235983 / 281474976710656"
    and "fl (- 10) = - 10"
    and "fl (720575940379279375 / 72057594037927936) = 10"
    and "fl (1585267068834414625 / 144115188075855872) = 11"
    and "fl (1873497444986126375 / 144115188075855872) = 13"
    and "fl (6923293635164116235 / 72057594037927936) = 6761028940589957 / 70368744177664"
    and "fl (7042503917300613 / 70368744177664) = 7042503917300613 / 70368744177664"
proof -
  show "fl (1 / 125) = 1152921504606847 / 144115188075855872"
    using fl_eqI [of "1 / 125" 59] by (simp add: round_even_def)
  show "fl (1801439850948193 / 27021597764222976) = 4803839602528515 / 72057594037927936"
    using fl_eqI [of "1801439850948193 / 27021597764222976" 56] by (simp add: round_even_def)
  show "fl (2 / 25) = 5764607523034235 / 72057594037927936"
    using fl_eqI [of "2 / 25" 56] by (simp add: round_even_def)
  show "fl (1801439850948193 / 18014398509481984) = 1801439850948193 / 18014398509481984"
    using fl_eqI [of "1801439850948193 / 18014398509481984" 56] by (simp add: round_even_def)
  show "fl (36779396956859 / 281474976710656) = 36779396956859 / 281474976710656"
    using fl_eqI [of "36779396956859 / 281474976710656" 55] by (simp add: round_even_def)
  show "fl (- (792633534417209 / 4503599627370496)) = - (792633534417209 / 4503599627370496)"
    using fl_eqI [of "- (792633534417209 / 4503599627370496)" 55] by (simp add: round_even_def)
  show "fl (- (110338190870577 / 562949953421312)) = - (110338190870577 / 562949953421312)"
    using fl_eqI [of "- (110338190870577 / 562949953421312)" 55] by (simp add: round_even_def)
  show "fl (110338190870577 / 562949953421312) = 110338190870577 / 562949953421312"
    using fl_eqI [of "110338190870577 / 562949953421312" 55] by (simp add: round_even_def)
  show "fl (1801439850948193 / 9007199254740992) = 1801439850948193 / 9007199254740992"
    using fl_eqI [of "1801439850948193 / 9007199254740992" 55] by (simp add: round_even_def)
  show "fl (38046409652025951 / 144115188075855872) = 1188950301625811 / 4503599627370496"
    using fl_eqI [of "38046409652025951 / 144115188075855872" 54] by (simp add: round_even_def)
  show "fl (84476235999209092413901808627 / 316912650057057350374175801344) = 4801918066687511 / 18014398509481984"
    using fl_eqI [of "84476235999209092413901808627 / 316912650057057350374175801344" 54] by (simp add: round_even_def)
  show "fl (367336973932801491169214991317 / 1267650600228229401496703205376) = 1305043092020247 / 4503599627370496"
    using fl_eqI [of "367336973932801491169214991317 / 1267650600228229401496703205376" 54] by (simp add: round_even_def)
  show "fl (24019198012642575 / 72057594037927936) = 1501199875790161 / 4503599627370496"
    using fl_eqI [of "24019198012642575 / 72057594037927936" 54] by (simp add: round_even_def)
  show "fl (1 / 3) = 6004799503160661 / 18014398509481984"
    using fl_eqI [of "1 / 3" 54] by (simp add: round_even_def)
  show "fl (12682136550675317 / 36028797018963968) = 3170534137668829 / 9007199254740992"
    using fl_eqI [of "12682136550675317 / 36028797018963968" 54] by (simp add: round_even_def)
  show "fl (- (110338190870577 / 281474976710656)) = - (110338190870577 / 281474976710656)"
    using fl_eqI [of "- (110338190870577 / 281474976710656)" 54] by (simp add: round_even_def)
  show "fl (5512405943901487 / 13510798882111488) = 7349874591868649 / 18014398509481984"
    using fl_eqI [of "5512405943901487 / 13510798882111488" 54] by (simp add: round_even_def)
  show "fl (2954361355555045 / 6755399441055744) = 7878296948146787 / 18014398509481984"
    using fl_eqI [of "2954361355555045 / 6755399441055744" 54] by (simp add: round_even_def)
  show "fl (- (1 / 2)) = - (1 / 2)"
    using fl_eqI [of "- (1 / 2)" 53] by (simp add: round_even_def)
  show "fl (1 / 2) = 1 / 2"
    using fl_eqI [of "1 / 2" 53] by (simp add: round_even_def)
  show "fl (2305843009213695 / 4503599627370496) = 2305843009213695 / 4503599627370496"
    using fl_eqI [of "2305843009213695 / 4503599627370496" 53] by (simp add: round_even_def)
  show "fl (3801038085500699 / 6755399441055744) = 5068050780667599 / 9007199254740992"
    using fl_eqI [of "3801038085500699 / 6755399441055744" 53] by (simp add: round_even_def)
  show "fl (7998392938210001 / 13510798882111488) = 5332261958806667 / 9007199254740992"
    using fl_eqI [of "7998392938210001 / 13510798882111488" 53] by (simp add: round_even_def)
  show "fl (2756202971950743 / 4503599627370496) = 2756202971950743 / 4503599627370496"
    using fl_eqI [of "2756202971950743 / 4503599627370496" 53] by (simp add: round_even_def)
  show "fl (11024811887802973 / 18014398509481984) = 2756202971950743 / 4503599627370496"
    using fl_eqI [of "11024811887802973 / 18014398509481984" 53] by (simp add: round_even_def)
  show "fl (5512405943901487 / 9007199254740992) = 5512405943901487 / 9007199254740992"
    using fl_eqI [of "5512405943901487 / 9007199254740992" 53] by (simp add: round_even_def)
  show "fl (2954361355555045 / 4503599627370496) = 2954361355555045 / 4503599627370496"
    using fl_eqI [of "2954361355555045 / 4503599627370496" 53] by (simp add: round_even_def)
  show "fl (2 / 3) = 6004799503160661 / 9007199254740992"
    using fl_eqI [of "2 / 3" 53] by (simp add: round_even_def)
  show "fl (- (387309567953863 / 562949953421312)) = - (387309567953863 / 562949953421312)"
    using fl_eqI [of "- (387309567953863 / 562949953421312)" 53] by (simp add: round_even_def)
  show "fl (- (14195346025471809 / 18014398509481984)) = - (221802281647997 / 281474976710656)"
    using fl_eqI [of "- (14195346025471809 / 18014398509481984)" 53] by (simp add: round_even_def)
  show "fl (4611686018427390 / 5512405943901487) = 3767717335316495 / 4503599627370496"
    using fl_eqI [of "4611686018427390 / 5512405943901487" 53] by (simp add: round_even_def)
  show "fl (- (3801038085500699 / 4503599627370496)) = - (3801038085500699 / 4503599627370496)"
    using fl_eqI [of "- (3801038085500699 / 4503599627370496)" 53] by (simp add: round_even_def)
  show "fl (3801038085500699 / 4503599627370496) = 3801038085500699 / 4503599627370496"
    using fl_eqI [of "3801038085500699 / 4503599627370496" 53] by (simp add: round_even_def)
  show "fl (244695579753797 / 281474976710656) = 244695579753797 / 281474976710656"
    using fl_eqI [of "244695579753797 / 281474976710656" 53] by (simp add: round_even_def)
  show "fl (- (7998392938210001 / 9007199254740992)) = - (7998392938210001 / 9007199254740992)"
    using fl_eqI [of "- (7998392938210001 / 9007199254740992)" 53] by (simp add: round_even_def)
  show "fl (7998392938210001 / 9007199254740992) = 7998392938210001 / 9007199254740992"
    using fl_eqI [of "7998392938210001 / 9007199254740992" 53] by (simp add: round_even_def)
  show "fl (1) = 1"
    using fl_eqI [of "1" 52] by (simp add: round_even_def)
  show "fl (9223372036854781 / 9007199254740992) = 2305843009213695 / 2251799813685248"
    using fl_eqI [of "9223372036854781 / 9007199254740992" 52] by (simp add: round_even_def)
  show "fl (11024811887802973 / 9007199254740992) = 2756202971950743 / 2251799813685248"
    using fl_eqI [of "11024811887802973 / 9007199254740992" 52] by (simp add: round_even_def)
  show "fl (5512405943901487 / 4503599627370496) = 5512405943901487 / 4503599627370496"
    using fl_eqI [of "5512405943901487 / 4503599627370496" 52] by (simp add: round_even_def)
  show "fl (734086739261391 / 562949953421312) = 734086739261391 / 562949953421312"
    using fl_eqI [of "734086739261391 / 562949953421312" 52] by (simp add: round_even_def)
  show "fl (2954361355555045 / 2251799813685248) = 2954361355555045 / 2251799813685248"
    using fl_eqI [of "2954361355555045 / 2251799813685248" 52] by (simp add: round_even_def)
  show "fl (- (3 / 2)) = - (3 / 2)"
    using fl_eqI [of "- (3 / 2)" 52] by (simp add: round_even_def)
  show "fl (3 / 2) = 3 / 2"
    using fl_eqI [of "3 / 2" 52] by (simp add: round_even_def)
  show "fl (6755399441055745 / 4503599627370496) = 6755399441055745 / 4503599627370496"
    using fl_eqI [of "6755399441055745 / 4503599627370496" 52] by (simp add: round_even_def)
  show "fl (3752999689475413 / 2251799813685248) = 3752999689475413 / 2251799813685248"
    using fl_eqI [of "3752999689475413 / 2251799813685248" 52] by (simp add: round_even_def)
  show "fl (30023997515803305 / 18014398509481984) = 3752999689475413 / 2251799813685248"
    using fl_eqI [of "30023997515803305 / 18014398509481984" 52] by (simp add: round_even_def)
  show "fl (- (15204152342002795 / 9007199254740992)) = - (3801038085500699 / 2251799813685248)"
    using fl_eqI [of "- (15204152342002795 / 9007199254740992)" 52] by (simp add: round_even_def)
  show "fl (- (3801038085500699 / 2251799813685248)) = - (3801038085500699 / 2251799813685248)"
    using fl_eqI [of "- (3801038085500699 / 2251799813685248)" 52] by (simp add: round_even_def)
  show "fl (- (954763121002545 / 562949953421312)) = - (954763121002545 / 562949953421312)"
    using fl_eqI [of "- (954763121002545 / 562949953421312)" 52] by (simp add: round_even_def)
  show "fl (- (7998392938210001 / 4503599627370496)) = - (7998392938210001 / 4503599627370496)"
    using fl_eqI [of "- (7998392938210001 / 4503599627370496)" 52] by (simp add: round_even_def)
  show "fl (2) = 2"
    using fl_eqI [of "2" 51] by (simp add: round_even_def)
  show "fl (36749372959343245 / 18014398509481984) = 2296835809958953 / 1125899906842624"
    using fl_eqI [of "36749372959343245 / 18014398509481984" 51] by (simp add: round_even_def)
  show "fl (- (2296835809958953 / 1125899906842624)) = - (2296835809958953 / 1125899906842624)"
    using fl_eqI [of "- (2296835809958953 / 1125899906842624)" 51] by (simp add: round_even_def)
  show "fl (- (10556437526556443 / 4503599627370496)) = - (2639109381639111 / 1125899906842624)"
    using fl_eqI [of "- (10556437526556443 / 4503599627370496)" 51] by (simp add: round_even_def)
  show "fl (- (21509191820321489 / 9007199254740992)) = - (1344324488770093 / 562949953421312)"
    using fl_eqI [of "- (21509191820321489 / 9007199254740992)" 51] by (simp add: round_even_def)
  show "fl (734086739261391 / 281474976710656) = 734086739261391 / 281474976710656"
    using fl_eqI [of "734086739261391 / 281474976710656" 51] by (simp add: round_even_def)
  show "fl (25340253903337995 / 9007199254740992) = 6335063475834499 / 2251799813685248"
    using fl_eqI [of "25340253903337995 / 9007199254740992" 51] by (simp add: round_even_def)
  show "fl (6335063475834499 / 2251799813685248) = 6335063475834499 / 2251799813685248"
    using fl_eqI [of "6335063475834499 / 2251799813685248" 51] by (simp add: round_even_def)
  show "fl (26661309794033335 / 9007199254740992) = 3332663724254167 / 1125899906842624"
    using fl_eqI [of "26661309794033335 / 9007199254740992" 51] by (simp add: round_even_def)
  show "fl (3332663724254167 / 1125899906842624) = 3332663724254167 / 1125899906842624"
    using fl_eqI [of "3332663724254167 / 1125899906842624" 51] by (simp add: round_even_def)
  show "fl (3) = 3"
    using fl_eqI [of "3" 51] by (simp add: round_even_def)
  show "fl (3752999689475413 / 1125899906842624) = 3752999689475413 / 1125899906842624"
    using fl_eqI [of "3752999689475413 / 1125899906842624" 51] by (simp add: round_even_def)
  show "fl (30023997515803305 / 9007199254740992) = 3752999689475413 / 1125899906842624"
    using fl_eqI [of "30023997515803305 / 9007199254740992" 51] by (simp add: round_even_def)
  show "fl (4) = 4"
    using fl_eqI [of "4" 50] by (simp add: round_even_def)
  show "fl (5) = 5"
    using fl_eqI [of "5" 50] by (simp add: round_even_def)
  show "fl (6) = 6"
    using fl_eqI [of "6" 50] by (simp add: round_even_def)
  show "fl (- 7) = - 7"
    using fl_eqI [of "- 7" 50] by (simp add: round_even_def)
  show "fl (1147156897083812765 / 144115188075855872) = 8962163258467287 / 1125899906842624"
    using fl_eqI [of "1147156897083812765 / 144115188075855872" 50] by (simp add: round_even_def)
  show "fl (335500157840592477 / 36028797018963968) = 5242189966259257 / 562949953421312"
    using fl_eqI [of "335500157840592477 / 36028797018963968" 49] by (simp add: round_even_def)
  show "fl (1384658727032823247 / 144115188075855872) = 2704411576235983 / 281474976710656"
    using fl_eqI [of "1384658727032823247 / 144115188075855872" 49] by (simp add: round_even_def)
  show "fl (- 10) = - 10"
    using fl_eqI [of "- 10" 49] by (simp add: round_even_def)
  show "fl (720575940379279375 / 72057594037927936) = 10"
    using fl_eqI [of "720575940379279375 / 72057594037927936" 49] by (simp add: round_even_def)
  show "fl (1585267068834414625 / 144115188075855872) = 11"
    using fl_eqI [of "1585267068834414625 / 144115188075855872" 49] by (simp add: round_even_def)
  show "fl (1873497444986126375 / 144115188075855872) = 13"
    using fl_eqI [of "1873497444986126375 / 144115188075855872" 49] by (simp add: round_even_def)
  show "fl (6923293635164116235 / 72057594037927936) = 6761028940589957 / 70368744177664"
    using fl_eqI [of "6923293635164116235 / 72057594037927936" 46] by (simp add: round_even_def)
  show "fl (7042503917300613 / 70368744177664) = 7042503917300613 / 70368744177664"
    using fl_eqI [of "7042503917300613 / 70368744177664" 46] by (simp add: round_even_def)
qed

section \<open>What each operation does to the state\<close>

lemmas placement_defs =
  placement_overlap_def placement_overhangSize_def placement_delta_def placement_size_def
  top_layer_def previous_layer_def

lemma createBlock_block:
  "fst (createBlock x y z w d dir dyn s) =
     \<lparr>position = vec3 x y z, width = w, depth = d, direction = dir,
      mesh = \<lparr>mesh_position = vec3 x y z, mesh_scale = vec3 1 1 1\<rparr>,
      physicsBody = createBoxBody x y z w BOX_HEIGHT d dyn, isMoving = False,
      isFalling = False, handle = nextHandle s\<rparr>"
  by (simp add: createBlock_def Let_def)

lemma addLayer_eq:
  "addLayer x z w d dir s =
     s\<lparr>world := world s @ [nextHandle s], nextHandle := Suc (nextHandle s),
       scene := scene s @ [nextHandle s],
       stack := stack s @
         [fst (createBlock x (BOX_HEIGHT * real (length (stack s))) z w d dir False s)],
       events := events s @ [LAYER_ADDED (nextHandle s) (Suc (length (stack s)))]\<rparr>"
  by (simp add: addLayer_def Let_def split_def emit_def createBlock_def)

lemma addOverhang_eq:
  "addOverhang x z w d s =
     s\<lparr>world := world s @ [nextHandle s], nextHandle := Suc (nextHandle s),
       scene := scene s @ [nextHandle s],
       overhangs := overhangs s @
         [startFalling (fst (createBlock x
            (BOX_HEIGHT * real_of_int (int (length (stack s)) - 1)) z w d None True s))]\<rparr>"
  by (simp add: addOverhang_def Let_def split_def createBlock_def)

lemma splitBlockAndAddNext_live:
  assumes "\<not> isGameEnded s" "2 \<le> length (stack s)" "direction (top_layer s) = Some d"
  shows "splitBlockAndAddNext s =
           (if 0 < placement_overlap s d
            then Some (cutAndContinue (placement_overlap s d) (placement_size s d)
                         (placement_delta s d) (placement_overhangSize s d) d s)
            else missBlock s)"
  using assms by (simp add: splitBlockAndAddNext_def Let_def placement_defs)

lemma cutAndContinue_stack:
  "stack (cutAndContinue ov sz dl oh d s) =
     (stack s)[length (stack s) - 1 := kept_block ov sz dl s] @
       [fst (createBlock
          (if d = DIR_X then getPosition (kept_block ov sz dl s) DIR_X else -10)
          (BOX_HEIGHT * real (length (stack s)))
          (if d = DIR_Z then getPosition (kept_block ov sz dl s) DIR_Z else -10)
          (width (kept_block ov sz dl s)) (depth (kept_block ov sz dl s))
          (Some (if d = DIR_X then DIR_Z else DIR_X)) False
          (s\<lparr>nextHandle := Suc (nextHandle s)\<rparr>))]"
  by (simp add: cutAndContinue_def kept_block_def top_layer_def Let_def addLayer_eq
      addOverhang_eq emit_def createBlock_block)

lemma cutAndContinue_overhangs:
  "overhangs (cutAndContinue ov sz dl oh d s) =
     overhangs s @
       [startFalling (fst (createBlock
          (if d = DIR_X
           then fl (getPosition (kept_block ov sz dl s) DIR_X
                   + fl (fl (fl (ov / 2) + fl (oh / 2)) * sgn dl))
           else getPosition (kept_block ov sz dl s) DIR_X)
          (BOX_HEIGHT * real_of_int (int (length (stack s)) - 1))
          (if d = DIR_Z
           then fl (getPosition (kept_block ov sz dl s) DIR_Z
                   + fl (fl (fl (ov / 2) + fl (oh / 2)) * sgn dl))
           else getPosition (kept_block ov sz dl s) DIR_Z)
          (if d = DIR_X then oh else width (kept_block ov sz dl s))
          (if d = DIR_Z then oh else depth (kept_block ov sz dl s)) None True s))]"
  by (simp add: cutAndContinue_def kept_block_def top_layer_def Let_def addLayer_eq
      addOverhang_eq emit_def createBlock_block)

lemma cutAndContinue_rest:
  "score (cutAndContinue ov sz dl oh d s) = int (length (stack s)) - 1"
  "isGameEnded (cutAndContinue ov sz dl oh d s) = isGameEnded s"
  "isAutopilot (cutAndContinue ov sz dl oh d s) = isAutopilot s"
  "robotPrecision (cutAndContinue ov sz dl oh d s) = robotPrecision s"
  "cameraY (cutAndContinue ov sz dl oh d s) = cameraY s"
  "world (cutAndContinue ov sz dl oh d s) = world s @ [nextHandle s, Suc (nextHandle s)]"
  "scene (cutAndContinue ov sz dl oh d s) = scene s @ [nextHandle s, Suc (nextHandle s)]"
  "nextHandle (cutAndContinue ov sz dl oh d s) = Suc (Suc (nextHandle s))"
  "events (cutAndContinue ov sz dl oh d s) =
     events s @ [SCORE_UPDATE (int (length (stack s)) - 1),
                 LAYER_ADDED (Suc (nextHandle s)) (Suc (length (stack s)))]"
  by (simp_all add: cutAndContinue_def Let_def addLayer_eq addOverhang_eq emit_def)

lemma missBlock_eq:
  assumes "stack s \<noteq> []"
  shows "missBlock s =
     Some (s\<lparr>world := removeAll (handle (last (stack s))) (world s @ [nextHandle s]),
             nextHandle := Suc (nextHandle s),
             scene := removeAll (handle (last (stack s))) (scene s @ [nextHandle s]),
             overhangs := overhangs s @
               [startFalling (fst (createBlock (getPosition (last (stack s)) DIR_X)
                   (BOX_HEIGHT * real_of_int (int (length (stack s)) - 1))
                   (getPosition (last (stack s)) DIR_Z)
                   (width (last (stack s))) (depth (last (stack s))) None True s))],
             stack := butlast (stack s),
             isGameEnded := True,
             events := events s @ (if isAutopilot s then [] else [GAME_OVER])\<rparr>)"
  using assms by (simp add: missBlock_def Let_def addOverhang_eq emit_def)

lemma top_layer_last: "stack s \<noteq> [] \<Longrightarrow> top_layer s = last (stack s)"
  by (simp add: top_layer_def last_conv_nth)

lemma startGame_eq:
  "startGame s =
     s\<lparr>isAutopilot := False, isGameEnded := False, score := 0, overhangs := [],
       cameraY := 4,
       world := [nextHandle s, Suc (nextHandle s)],
       scene := [nextHandle s, Suc (nextHandle s)],
       nextHandle := Suc (Suc (nextHandle s)),
       stack :=
         [fst (createBlock 0 0 0 ORIGINAL_BOX_SIZE ORIGINAL_BOX_SIZE None False s),
          fst (createBlock (-10) BOX_HEIGHT 0 ORIGINAL_BOX_SIZE ORIGINAL_BOX_SIZE
                 (Some DIR_X) False (s\<lparr>nextHandle := Suc (nextHandle s)\<rparr>))],
       events := events s @
         [LAYER_ADDED (nextHandle s) 1, LAYER_ADDED (Suc (nextHandle s)) 2, GAME_START,
          SCORE_UPDATE 0]\<rparr>"
  by (simp add: startGame_def clearGame_def resetCamera_def Let_def addLayer_eq emit_def
      createBlock_block)

lemmas block_defs = createBlock_block createBoxBody_def vec3_def BOX_HEIGHT_def
  ORIGINAL_BOX_SIZE_def BOX_FALL_MASS_def startFalling_def

lemma fresh_game_eq:
  "fresh_game =
     \<lparr>stack =
        [\<lparr>position = \<lparr>vx = 0, vy = 0, vz = 0\<rparr>, width = 3, depth = 3,
          direction = None,
          mesh = \<lparr>mesh_position = \<lparr>vx = 0, vy = 0, vz = 0\<rparr>,
                  mesh_scale = \<lparr>vx = 1, vy = 1, vz = 1\<rparr>\<rparr>,
          physicsBody = \<lparr>body_position = \<lparr>vx = 0, vy = 0, vz = 0\<rparr>,
                         body_mass = 0,
                         body_shapes = [\<lparr>vx = 3 / 2, vy = 1 / 2, vz = 3 / 2\<rparr>]\<rparr>,
          isMoving = False, isFalling = False, handle = 2\<rparr>,
         \<lparr>position = \<lparr>vx = - 10, vy = 1, vz = 0\<rparr>, width = 3, depth = 3,
          direction = Some DIR_X,
          mesh = \<lparr>mesh_position = \<lparr>vx = - 10, vy = 1, vz = 0\<rparr>,
                  mesh_scale = \<lparr>vx = 1, vy = 1, vz = 1\<rparr>\<rparr>,
          physicsBody = \<lparr>body_position = \<lparr>vx = - 10, vy = 1, vz = 0\<rparr>,
                         body_mass = 0,
                         body_shapes = [\<lparr>vx = 3 / 2, vy = 1 / 2, vz = 3 / 2\<rparr>]\<rparr>,
          isMoving = False, isFalling = False, handle = 3\<rparr>],
      overhangs =
        [],
      isAutopilot = False, isGameEnded = False, score = 0,
      robotPrecision = - (1 / 2), world = [2, 3], scene = [2, 3],
      cameraY = 4, nextHandle = 4,
      events =
        [LAYER_ADDED 0 1, LAYER_ADDED 1 2, LAYER_ADDED 2 1, LAYER_ADDED 3 2,
         GAME_START, SCORE_UPDATE 0]\<rparr>"
  by (simp add: fresh_game_def startGame_eq initialize_def addLayer_eq newGameLogic_def
      setRobotPrecision_def block_defs eval_nat_numeral fl_values fl_zero)

lemmas update_defs = update_def Let_def updateCameraPosition_def shouldBlockMove_def
  moveBlock_def updatePosition_def isOutOfBounds_def getPosition_def updateOverhangs_def
  updateFromPhysics_def MOVEMENT_SPEED_def CAMERA_FOLLOW_SPEED_def BOX_HEIGHT_def

lemma scenarioA_eq:
  "scenarioA =
     \<lparr>stack =
        [\<lparr>position = \<lparr>vx = 0, vy = 0, vz = 0\<rparr>, width = 3, depth = 3,
          direction = None,
          mesh = \<lparr>mesh_position = \<lparr>vx = 0, vy = 0, vz = 0\<rparr>,
                  mesh_scale = \<lparr>vx = 1, vy = 1, vz = 1\<rparr>\<rparr>,
          physicsBody = \<lparr>body_position = \<lparr>vx = 0, vy = 0, vz = 0\<rparr>,
                         body_mass = 0,
                         body_shapes = [\<lparr>vx = 3 / 2, vy = 1 / 2, vz = 3 / 2\<rparr>]\<rparr>,
          isMoving = False, isFalling = False, handle = 2\<rparr>,
         \<lparr>position = \<lparr>vx = 1, vy = 1, vz = 0\<rparr>, width = 3, depth = 3,
          direction = Some DIR_X,
          mesh = \<lparr>mesh_position = \<lparr>vx = 1, vy = 1, vz = 0\<rparr>,
                  mesh_scale = \<lparr>vx = 1, vy = 1, vz = 1\<rparr>\<rparr>,
          physicsBody = \<lparr>body_position = \<lparr>vx = 1, vy = 1, vz = 0\<rparr>,
                         body_mass = 0,
                         body_shapes = [\<lparr>vx = 3 / 2, vy = 1 / 2, vz = 3 / 2\<rparr>]\<rparr>,
          isMoving = False, isFalling = False, handle = 3\<rparr>],
      overhangs =
        [],
      isAutopilot = False, isGameEnded = False, score = 0,
      robotPrecision = - (1 / 2), world = [2, 3], scene = [2, 3],
      cameraY = 4, nextHandle = 4,
      events =
        [LAYER_ADDED 0 1, LAYER_ADDED 1 2, LAYER_ADDED 2 1, LAYER_ADDED 3 2,
         GAME_START, SCORE_UPDATE 0]\<rparr>"
  by (simp add: scenarioA_def fresh_game_eq update_defs fl_values fl_zero)

lemma rounded_1_eq:
  "rounded_1 =
     \<lparr>stack =
        [\<lparr>position = \<lparr>vx = 0, vy = 0, vz = 0\<rparr>, width = 3, depth = 3,
          direction = None,
          mesh = \<lparr>mesh_position = \<lparr>vx = 0, vy = 0, vz = 0\<rparr>,
                  mesh_scale = \<lparr>vx = 1, vy = 1, vz = 1\<rparr>\<rparr>,
          physicsBody = \<lparr>body_position = \<lparr>vx = 0, vy = 0, vz = 0\<rparr>,
                         body_mass = 0,
                         body_shapes = [\<lparr>vx = 3 / 2, vy = 1 / 2, vz = 3 / 2\<rparr>]\<rparr>,
          isMoving = False, isFalling = False, handle = 2\<rparr>,
         \<lparr>position = \<lparr>vx = - (2296835809958953 / 1125899906842624), vy = 1, vz = 0\<rparr>, width = 3, depth = 3,
          direction = Some DIR_X,
          mesh = \<lparr>mesh_position = \<lparr>vx = - (2296835809958953 / 1125899906842624), vy = 1, vz = 0\<rparr>,
                  mesh_scale = \<lparr>vx = 1, vy = 1, vz = 1\<rparr>\<rparr>,
          physicsBody = \<lparr>body_position = \<lparr>vx = - (2296835809958953 / 1125899906842624), vy = 1, vz = 0\<rparr>,
                         body_mass = 0,
                         body_shapes = [\<lparr>vx = 3 / 2, vy = 1 / 2, vz = 3 / 2\<rparr>]\<rparr>,
          isMoving = False, isFalling = False, handle = 3\<rparr>],
      overhangs =
        [],
      isAutopilot = False, isGameEnded = False, score = 0,
      robotPrecision = - (1 / 2), world = [2, 3], scene = [2, 3],
      cameraY = 4, nextHandle = 4,
      events =
        [LAYER_ADDED 0 1, LAYER_ADDED 1 2, LAYER_ADDED 2 1, LAYER_ADDED 3 2,
         GAME_START, SCORE_UPDATE 0]\<rparr>"
  by (simp add: rounded_1_def fresh_game_eq update_defs fl_values fl_zero)

lemma skewed_game_eq:
  "skewed_game =
     \<lparr>stack =
        [\<lparr>position = \<lparr>vx = 0, vy = 0, vz = 0\<rparr>, width = 3, depth = 3,
          direction = None,
          mesh = \<lparr>mesh_position = \<lparr>vx = 0, vy = 0, vz = 0\<rparr>,
                  mesh_scale = \<lparr>vx = 1, vy = 1, vz = 1\<rparr>\<rparr>,
          physicsBody = \<lparr>body_position = \<lparr>vx = 0, vy = 0, vz = 0\<rparr>,
                         body_mass = 0,
                         body_shapes = [\<lparr>vx = 3 / 2, vy = 1 / 2, vz = 3 / 2\<rparr>]\<rparr>,
          isMoving = False, isFalling = False, handle = 2\<rparr>,
         \<lparr>position = \<lparr>vx = - (3801038085500699 / 2251799813685248), vy = 1, vz = 0\<rparr>, width = 3, depth = 3,
          direction = Some DIR_X,
          mesh = \<lparr>mesh_position = \<lparr>vx = - (3801038085500699 / 2251799813685248), vy = 1, vz = 0\<rparr>,
                  mesh_scale = \<lparr>vx = 1, vy = 1, vz = 1\<rparr>\<rparr>,
          physicsBody = \<lparr>body_position = \<lparr>vx = - (3801038085500699 / 2251799813685248), vy = 1, vz = 0\<rparr>,
                         body_mass = 0,
                         body_shapes = [\<lparr>vx = 3 / 2, vy = 1 / 2, vz = 3 / 2\<rparr>]\<rparr>,
          isMoving = False, isFalling = False, handle = 3\<rparr>],
      overhangs =
        [],
      isAutopilot = False, isGameEnded = False, score = 0,
      robotPrecision = - (1 / 2), world = [2, 3], scene = [2, 3],
      cameraY = 4, nextHandle = 4,
      events =
        [LAYER_ADDED 0 1, LAYER_ADDED 1 2, LAYER_ADDED 2 1, LAYER_ADDED 3 2,
         GAME_START, SCORE_UPDATE 0]\<rparr>"
  by (simp add: skewed_game_def rounded_1_eq update_defs fl_values fl_zero)

lemma rounded_2_eq:
  "rounded_2 =
     \<lparr>stack =
        [\<lparr>position = \<lparr>vx = 0, vy = 0, vz = 0\<rparr>, width = 3, depth = 3,
          direction = None,
          mesh = \<lparr>mesh_position = \<lparr>vx = 0, vy = 0, vz = 0\<rparr>,
                  mesh_scale = \<lparr>vx = 1, vy = 1, vz = 1\<rparr>\<rparr>,
          physicsBody = \<lparr>body_position = \<lparr>vx = 0, vy = 0, vz = 0\<rparr>,
                         body_mass = 0,
                         body_shapes = [\<lparr>vx = 3 / 2, vy = 1 / 2, vz = 3 / 2\<rparr>]\<rparr>,
          isMoving = False, isFalling = False, handle = 2\<rparr>,
         \<lparr>position = \<lparr>vx = - (7998392938210001 / 4503599627370496), vy = 1, vz = 0\<rparr>, width = 3, depth = 3,
          direction = Some DIR_X,
          mesh = \<lparr>mesh_position = \<lparr>vx = - (7998392938210001 / 4503599627370496), vy = 1, vz = 0\<rparr>,
                  mesh_scale = \<lparr>vx = 1, vy = 1, vz = 1\<rparr>\<rparr>,
          physicsBody = \<lparr>body_position = \<lparr>vx = - (7998392938210001 / 4503599627370496), vy = 1, vz = 0\<rparr>,
                         body_mass = 0,
                         body_shapes = [\<lparr>vx = 3 / 2, vy = 1 / 2, vz = 3 / 2\<rparr>]\<rparr>,
          isMoving = False, isFalling = False, handle = 3\<rparr>],
      overhangs =
        [],
      isAutopilot = False, isGameEnded = False, score = 0,
      robotPrecision = - (1 / 2), world = [2, 3], scene = [2, 3],
      cameraY = 4, nextHandle = 4,
      events =
        [LAYER_ADDED 0 1, LAYER_ADDED 1 2, LAYER_ADDED 2 1, LAYER_ADDED 3 2,
         GAME_START, SCORE_UPDATE 0]\<rparr>"
  by (simp add: rounded_2_def rounded_1_eq update_defs fl_values fl_zero)

lemma scenarioA_facts:
  "\<not> isGameEnded scenarioA" "length (stack scenarioA) = 2" "overhangs scenarioA = []"
  "\<not> isAutopilot scenarioA"
  "direction (top_layer scenarioA) = Some DIR_X"
  "placement_size scenarioA DIR_X = 3" "placement_delta scenarioA DIR_X = 1"
  "placement_overhangSize scenarioA DIR_X = 1" "placement_overlap scenarioA DIR_X = 2"
  by (simp_all add: scenarioA_eq placement_defs getSize_def getPosition_def fl_values)

lemma fresh_game_facts:
  "\<not> isGameEnded fresh_game" "length (stack fresh_game) = 2" "overhangs fresh_game = []"
  "\<not> isAutopilot fresh_game"
  "direction (top_layer fresh_game) = Some DIR_X"
  "placement_size fresh_game DIR_X = 3" "placement_delta fresh_game DIR_X = -10"
  "placement_overhangSize fresh_game DIR_X = 10" "placement_overlap fresh_game DIR_X = -7"
  by (simp_all add: fresh_game_eq placement_defs getSize_def getPosition_def fl_values)

lemma kept_block_fields:
  assumes "direction (top_layer s) = Some d"
  shows "getSize (kept_block ov sz dl s) (Some d) = ov"
    and "getSize (kept_block ov sz dl s) (Some (other d)) = getSize (top_layer s) (Some (other d))"
    and "getPosition (kept_block ov sz dl s) d = fl (getPosition (top_layer s) d - fl (dl / 2))"
    and "getPosition (kept_block ov sz dl s) (other d) = getPosition (top_layer s) (other d)"
    and "direction (kept_block ov sz dl s) = Some d"
    and "handle (kept_block ov sz dl s) = handle (top_layer s)"
    and "vy (position (kept_block ov sz dl s)) = vy (position (top_layer s))"
  using assms by (cases d; simp add: kept_block_def cut_def Let_def getSize_def getPosition_def)+

lemma cut_branch:
  assumes "\<not> isGameEnded s" and "2 \<le> length (stack s)"
    and "direction (top_layer s) = Some d" and "0 < placement_overlap s d"
  shows "splitBlockAndAddNext s =
           Some (cutAndContinue (placement_overlap s d) (placement_size s d)
                   (placement_delta s d) (placement_overhangSize s d) d s)"
  using assms by (simp add: splitBlockAndAddNext_live)

lemma miss_branch:
  assumes "\<not> isGameEnded s" and "2 \<le> length (stack s)"
    and "direction (top_layer s) = Some d" and "placement_overlap s d \<le> 0"
  shows "splitBlockAndAddNext s = missBlock s"
  using assms by (simp add: splitBlockAndAddNext_live)

lemma cutAndContinue_kept:
  "stack s \<noteq> [] \<Longrightarrow>
   stack (cutAndContinue ov sz dl oh d s) ! (length (stack s) - 1) = kept_block ov sz dl s"
  by (simp add: cutAndContinue_stack nth_append)

lemma cutAndContinue_length:
  "length (stack (cutAndContinue ov sz dl oh d s)) = Suc (length (stack s))"
  by (simp add: cutAndContinue_stack)

lemma missBlock_fields:
  assumes "stack s \<noteq> []"
  shows "\<exists>s'. missBlock s = Some s' \<and> stack s' = butlast (stack s) \<and> isGameEnded s' \<and>
           score s' = score s \<and> isAutopilot s' = isAutopilot s"
  using assms by (simp add: missBlock_eq)

lemmas eval_defs =
  handleBlockPlacement_def splitBlockAndAddNext_def cutAndContinue_def missBlock_def
  addOverhang_eq addLayer_eq emit_def cut_def updateBodyShape_def getSize_def getPosition_def
  block_defs Let_def

lemma scenarioA_placed_facts:
  "map position (stack scenarioA_placed) =
     [\<lparr>vx = 0, vy = 0, vz = 0\<rparr>, \<lparr>vx = 1 / 2, vy = 1, vz = 0\<rparr>, \<lparr>vx = 1 / 2, vy = 2, vz = - 10\<rparr>]"
  "map direction (stack scenarioA_placed) = [None, Some DIR_X, Some DIR_Z]"
  "map width (stack scenarioA_placed) = [3, 2, 2]"
  "map depth (stack scenarioA_placed) = [3, 3, 3]"
  "map position (overhangs scenarioA_placed) = [\<lparr>vx = 2, vy = 1, vz = 0\<rparr>]"
  "map width (overhangs scenarioA_placed) = [1]"
  "map depth (overhangs scenarioA_placed) = [3]"
  "score scenarioA_placed = 1" "\<not> isGameEnded scenarioA_placed"
  "position (stack scenarioA_placed ! 1) = \<lparr>vx = 1 / 2, vy = 1, vz = 0\<rparr>"
  "position (last (stack scenarioA_placed)) = \<lparr>vx = 1 / 2, vy = 2, vz = - 10\<rparr>"
  "direction (last (stack scenarioA_placed)) = Some DIR_Z"
  "position (last (overhangs scenarioA_placed)) = \<lparr>vx = 2, vy = 1, vz = 0\<rparr>"
  by (simp_all add: scenarioA_placed_def scenarioA_eq eval_defs fl_values fl_zero)

lemma skewed_placed_eq:
  "skewed_placed =
     \<lparr>stack =
        [\<lparr>position = \<lparr>vx = 0, vy = 0, vz = 0\<rparr>, width = 3, depth = 3,
          direction = None,
          mesh = \<lparr>mesh_position = \<lparr>vx = 0, vy = 0, vz = 0\<rparr>,
                  mesh_scale = \<lparr>vx = 1, vy = 1, vz = 1\<rparr>\<rparr>,
          physicsBody = \<lparr>body_position = \<lparr>vx = 0, vy = 0, vz = 0\<rparr>,
                         body_mass = 0,
                         body_shapes = [\<lparr>vx = 3 / 2, vy = 1 / 2, vz = 3 / 2\<rparr>]\<rparr>,
          isMoving = False, isFalling = False, handle = 2\<rparr>,
         \<lparr>position = \<lparr>vx = - (3801038085500699 / 4503599627370496), vy = 1, vz = 0\<rparr>, width = 2954361355555045 / 2251799813685248, depth = 3,
          direction = Some DIR_X,
          mesh = \<lparr>mesh_position = \<lparr>vx = - (3801038085500699 / 4503599627370496), vy = 1, vz = 0\<rparr>,
                  mesh_scale = \<lparr>vx = 7878296948146787 / 18014398509481984, vy = 1, vz = 1\<rparr>\<rparr>,
          physicsBody = \<lparr>body_position = \<lparr>vx = - (3801038085500699 / 4503599627370496), vy = 1, vz = 0\<rparr>,
                         body_mass = 0,
                         body_shapes = [\<lparr>vx = 2954361355555045 / 4503599627370496, vy = 1 / 2, vz = 3 / 2\<rparr>]\<rparr>,
          isMoving = False, isFalling = False, handle = 3\<rparr>,
         \<lparr>position = \<lparr>vx = - (3801038085500699 / 4503599627370496), vy = 2, vz = - 10\<rparr>, width = 2954361355555045 / 2251799813685248, depth = 3,
          direction = Some DIR_Z,
          mesh = \<lparr>mesh_position = \<lparr>vx = - (3801038085500699 / 4503599627370496), vy = 2, vz = - 10\<rparr>,
                  mesh_scale = \<lparr>vx = 1, vy = 1, vz = 1\<rparr>\<rparr>,
          physicsBody = \<lparr>body_position = \<lparr>vx = - (3801038085500699 / 4503599627370496), vy = 2, vz = - 10\<rparr>,
                         body_mass = 0,
                         body_shapes = [\<lparr>vx = 2954361355555045 / 4503599627370496, vy = 1 / 2, vz = 3 / 2\<rparr>]\<rparr>,
          isMoving = False, isFalling = False, handle = 5\<rparr>],
      overhangs =
        [\<lparr>position = \<lparr>vx = - (2639109381639111 / 1125899906842624), vy = 1, vz = 0\<rparr>, width = 3801038085500699 / 2251799813685248, depth = 3,
          direction = None,
          mesh = \<lparr>mesh_position = \<lparr>vx = - (2639109381639111 / 1125899906842624), vy = 1, vz = 0\<rparr>,
                  mesh_scale = \<lparr>vx = 1, vy = 1, vz = 1\<rparr>\<rparr>,
          physicsBody = \<lparr>body_position = \<lparr>vx = - (2639109381639111 / 1125899906842624), vy = 1, vz = 0\<rparr>,
                         body_mass = 6335063475834499 / 2251799813685248,
                         body_shapes = [\<lparr>vx = 3801038085500699 / 4503599627370496, vy = 1 / 2, vz = 3 / 2\<rparr>]\<rparr>,
          isMoving = False, isFalling = True, handle = 4\<rparr>],
      isAutopilot = False, isGameEnded = False, score = 1,
      robotPrecision = - (1 / 2), world = [2, 3, 4, 5], scene = [2, 3, 4, 5],
      cameraY = 4, nextHandle = 6,
      events =
        [LAYER_ADDED 0 1, LAYER_ADDED 1 2, LAYER_ADDED 2 1, LAYER_ADDED 3 2,
         GAME_START, SCORE_UPDATE 0, SCORE_UPDATE 1, LAYER_ADDED 5 3]\<rparr>"
  by (simp add: skewed_placed_def skewed_game_eq eval_defs fl_values fl_zero)

lemma rounded_3_eq:
  "rounded_3 =
     \<lparr>stack =
        [\<lparr>position = \<lparr>vx = 0, vy = 0, vz = 0\<rparr>, width = 3, depth = 3,
          direction = None,
          mesh = \<lparr>mesh_position = \<lparr>vx = 0, vy = 0, vz = 0\<rparr>,
                  mesh_scale = \<lparr>vx = 1, vy = 1, vz = 1\<rparr>\<rparr>,
          physicsBody = \<lparr>body_position = \<lparr>vx = 0, vy = 0, vz = 0\<rparr>,
                         body_mass = 0,
                         body_shapes = [\<lparr>vx = 3 / 2, vy = 1 / 2, vz = 3 / 2\<rparr>]\<rparr>,
          isMoving = False, isFalling = False, handle = 2\<rparr>,
         \<lparr>position = \<lparr>vx = - (7998392938210001 / 9007199254740992), vy = 1, vz = 0\<rparr>, width = 5512405943901487 / 4503599627370496, depth = 3,
          direction = Some DIR_X,
          mesh = \<lparr>mesh_position = \<lparr>vx = - (7998392938210001 / 9007199254740992), vy = 1, vz = 0\<rparr>,
                  mesh_scale = \<lparr>vx = 7349874591868649 / 18014398509481984, vy = 1, vz = 1\<rparr>\<rparr>,
          physicsBody = \<lparr>body_position = \<lparr>vx = - (7998392938210001 / 9007199254740992), vy = 1, vz = 0\<rparr>,
                         body_mass = 0,
                         body_shapes = [\<lparr>vx = 5512405943901487 / 9007199254740992, vy = 1 / 2, vz = 3 / 2\<rparr>]\<rparr>,
          isMoving = False, isFalling = False, handle = 3\<rparr>,
         \<lparr>position = \<lparr>vx = - (7998392938210001 / 9007199254740992), vy = 2, vz = - 10\<rparr>, width = 5512405943901487 / 4503599627370496, depth = 3,
          direction = Some DIR_Z,
          mesh = \<lparr>mesh_position = \<lparr>vx = - (7998392938210001 / 9007199254740992), vy = 2, vz = - 10\<rparr>,
                  mesh_scale = \<lparr>vx = 1, vy = 1, vz = 1\<rparr>\<rparr>,
          physicsBody = \<lparr>body_position = \<lparr>vx = - (7998392938210001 / 9007199254740992), vy = 2, vz = - 10\<rparr>,
                         body_mass = 0,
                         body_shapes = [\<lparr>vx = 5512405943901487 / 9007199254740992, vy = 1 / 2, vz = 3 / 2\<rparr>]\<rparr>,
          isMoving = False, isFalling = False, handle = 5\<rparr>],
      overhangs =
        [\<lparr>position = \<lparr>vx = - (1344324488770093 / 562949953421312), vy = 1, vz = 0\<rparr>, width = 7998392938210001 / 4503599627370496, depth = 3,
          direction = None,
          mesh = \<lparr>mesh_position = \<lparr>vx = - (1344324488770093 / 562949953421312), vy = 1, vz = 0\<rparr>,
                  mesh_scale = \<lparr>vx = 1, vy = 1, vz = 1\<rparr>\<rparr>,
          physicsBody = \<lparr>body_position = \<lparr>vx = - (1344324488770093 / 562949953421312), vy = 1, vz = 0\<rparr>,
                         body_mass = 3332663724254167 / 1125899906842624,
                         body_shapes = [\<lparr>vx = 7998392938210001 / 9007199254740992, vy = 1 / 2, vz = 3 / 2\<rparr>]\<rparr>,
          isMoving = False, isFalling = True, handle = 4\<rparr>],
      isAutopilot = False, isGameEnded = False, score = 1,
      robotPrecision = - (1 / 2), world = [2, 3, 4, 5], scene = [2, 3, 4, 5],
      cameraY = 4, nextHandle = 6,
      events =
        [LAYER_ADDED 0 1, LAYER_ADDED 1 2, LAYER_ADDED 2 1, LAYER_ADDED 3 2,
         GAME_START, SCORE_UPDATE 0, SCORE_UPDATE 1, LAYER_ADDED 5 3]\<rparr>"
  by (simp add: rounded_3_def rounded_2_eq eval_defs fl_values fl_zero)

lemma rounded_4_eq:
  "rounded_4 =
     \<lparr>stack =
        [\<lparr>position = \<lparr>vx = 0, vy = 0, vz = 0\<rparr>, width = 3, depth = 3,
          direction = None,
          mesh = \<lparr>mesh_position = \<lparr>vx = 0, vy = 0, vz = 0\<rparr>,
                  mesh_scale = \<lparr>vx = 1, vy = 1, vz = 1\<rparr>\<rparr>,
          physicsBody = \<lparr>body_position = \<lparr>vx = 0, vy = 0, vz = 0\<rparr>,
                         body_mass = 0,
                         body_shapes = [\<lparr>vx = 3 / 2, vy = 1 / 2, vz = 3 / 2\<rparr>]\<rparr>,
          isMoving = False, isFalling = False, handle = 2\<rparr>,
         \<lparr>position = \<lparr>vx = - (7998392938210001 / 9007199254740992), vy = 1, vz = 0\<rparr>, width = 5512405943901487 / 4503599627370496, depth = 3,
          direction = Some DIR_X,
          mesh = \<lparr>mesh_position = \<lparr>vx = - (7998392938210001 / 9007199254740992), vy = 1, vz = 0\<rparr>,
                  mesh_scale = \<lparr>vx = 7349874591868649 / 18014398509481984, vy = 1, vz = 1\<rparr>\<rparr>,
          physicsBody = \<lparr>body_position = \<lparr>vx = - (7998392938210001 / 9007199254740992), vy = 1, vz = 0\<rparr>,
                         body_mass = 0,
                         body_shapes = [\<lparr>vx = 5512405943901487 / 9007199254740992, vy = 1 / 2, vz = 3 / 2\<rparr>]\<rparr>,
          isMoving = False, isFalling = False, handle = 3\<rparr>,
         \<lparr>position = \<lparr>vx = - (7998392938210001 / 9007199254740992), vy = 2, vz = - (110338190870577 / 281474976710656)\<rparr>, width = 5512405943901487 / 4503599627370496, depth = 3,
          direction = Some DIR_Z,
          mesh = \<lparr>mesh_position = \<lparr>vx = - (7998392938210001 / 9007199254740992), vy = 2, vz = - (110338190870577 / 281474976710656)\<rparr>,
                  mesh_scale = \<lparr>vx = 1, vy = 1, vz = 1\<rparr>\<rparr>,
          physicsBody = \<lparr>body_position = \<lparr>vx = - (7998392938210001 / 9007199254740992), vy = 2, vz = - (110338190870577 / 281474976710656)\<rparr>,
                         body_mass = 0,
                         body_shapes = [\<lparr>vx = 5512405943901487 / 9007199254740992, vy = 1 / 2, vz = 3 / 2\<rparr>]\<rparr>,
          isMoving = False, isFalling = False, handle = 5\<rparr>],
      overhangs =
        [\<lparr>position = \<lparr>vx = - (1344324488770093 / 562949953421312), vy = 1, vz = 0\<rparr>, width = 7998392938210001 / 4503599627370496, depth = 3,
          direction = None,
          mesh = \<lparr>mesh_position = \<lparr>vx = - (1344324488770093 / 562949953421312), vy = 1, vz = 0\<rparr>,
                  mesh_scale = \<lparr>vx = 1, vy = 1, vz = 1\<rparr>\<rparr>,
          physicsBody = \<lparr>body_position = \<lparr>vx = - (1344324488770093 / 562949953421312), vy = 1, vz = 0\<rparr>,
                         body_mass = 3332663724254167 / 1125899906842624,
                         body_shapes = [\<lparr>vx = 7998392938210001 / 9007199254740992, vy = 1 / 2, vz = 3 / 2\<rparr>]\<rparr>,
          isMoving = False, isFalling = True, handle = 4\<rparr>],
      isAutopilot = False, isGameEnded = False, score = 1,
      robotPrecision = - (1 / 2), world = [2, 3, 4, 5], scene = [2, 3, 4, 5],
      cameraY = 7042503917300613 / 70368744177664, nextHandle = 6,
      events =
        [LAYER_ADDED 0 1, LAYER_ADDED 1 2, LAYER_ADDED 2 1, LAYER_ADDED 3 2,
         GAME_START, SCORE_UPDATE 0, SCORE_UPDATE 1, LAYER_ADDED 5 3]\<rparr>"
  by (simp add: rounded_4_def rounded_3_eq update_defs fl_values fl_zero)

lemma rounded_5_eq:
  "rounded_5 =
     \<lparr>stack =
        [\<lparr>position = \<lparr>vx = 0, vy = 0, vz = 0\<rparr>, width = 3, depth = 3,
          direction = None,
          mesh = \<lparr>mesh_position = \<lparr>vx = 0, vy = 0, vz = 0\<rparr>,
                  mesh_scale = \<lparr>vx = 1, vy = 1, vz = 1\<rparr>\<rparr>,
          physicsBody = \<lparr>body_position = \<lparr>vx = 0, vy = 0, vz = 0\<rparr>,
                         body_mass = 0,
                         body_shapes = [\<lparr>vx = 3 / 2, vy = 1 / 2, vz = 3 / 2\<rparr>]\<rparr>,
          isMoving = False, isFalling = False, handle = 2\<rparr>,
         \<lparr>position = \<lparr>vx = - (7998392938210001 / 9007199254740992), vy = 1, vz = 0\<rparr>, width = 5512405943901487 / 4503599627370496, depth = 3,
          direction = Some DIR_X,
          mesh = \<lparr>mesh_position = \<lparr>vx = - (7998392938210001 / 9007199254740992), vy = 1, vz = 0\<rparr>,
                  mesh_scale = \<lparr>vx = 7349874591868649 / 18014398509481984, vy = 1, vz = 1\<rparr>\<rparr>,
          physicsBody = \<lparr>body_position = \<lparr>vx = - (7998392938210001 / 9007199254740992), vy = 1, vz = 0\<rparr>,
                         body_mass = 0,
                         body_shapes = [\<lparr>vx = 5512405943901487 / 9007199254740992, vy = 1 / 2, vz = 3 / 2\<rparr>]\<rparr>,
          isMoving = False, isFalling = False, handle = 3\<rparr>,
         \<lparr>position = \<lparr>vx = - (7998392938210001 / 9007199254740992), vy = 2, vz = - (110338190870577 / 562949953421312)\<rparr>, width = 5512405943901487 / 4503599627370496, depth = 734086739261391 / 281474976710656,
          direction = Some DIR_Z,
          mesh = \<lparr>mesh_position = \<lparr>vx = - (7998392938210001 / 9007199254740992), vy = 2, vz = - (110338190870577 / 562949953421312)\<rparr>,
                  mesh_scale = \<lparr>vx = 1, vy = 1, vz = 244695579753797 / 281474976710656\<rparr>\<rparr>,
          physicsBody = \<lparr>body_position = \<lparr>vx = - (7998392938210001 / 9007199254740992), vy = 2, vz = - (110338190870577 / 562949953421312)\<rparr>,
                         body_mass = 0,
                         body_shapes = [\<lparr>vx = 5512405943901487 / 9007199254740992, vy = 1 / 2, vz = 734086739261391 / 562949953421312\<rparr>]\<rparr>,
          isMoving = False, isFalling = False, handle = 5\<rparr>,
         \<lparr>position = \<lparr>vx = - 10, vy = 3, vz = - (110338190870577 / 562949953421312)\<rparr>, width = 5512405943901487 / 4503599627370496, depth = 734086739261391 / 281474976710656,
          direction = Some DIR_X,
          mesh = \<lparr>mesh_position = \<lparr>vx = - 10, vy = 3, vz = - (110338190870577 / 562949953421312)\<rparr>,
                  mesh_scale = \<lparr>vx = 1, vy = 1, vz = 1\<rparr>\<rparr>,
          physicsBody = \<lparr>body_position = \<lparr>vx = - 10, vy = 3, vz = - (110338190870577 / 562949953421312)\<rparr>,
                         body_mass = 0,
                         body_shapes = [\<lparr>vx = 5512405943901487 / 9007199254740992, vy = 1 / 2, vz = 734086739261391 / 562949953421312\<rparr>]\<rparr>,
          isMoving = False, isFalling = False, handle = 7\<rparr>],
      overhangs =
        [\<lparr>position = \<lparr>vx = - (1344324488770093 / 562949953421312), vy = 1, vz = 0\<rparr>, width = 7998392938210001 / 4503599627370496, depth = 3,
          direction = None,
          mesh = \<lparr>mesh_position = \<lparr>vx = - (1344324488770093 / 562949953421312), vy = 1, vz = 0\<rparr>,
                  mesh_scale = \<lparr>vx = 1, vy = 1, vz = 1\<rparr>\<rparr>,
          physicsBody = \<lparr>body_position = \<lparr>vx = - (1344324488770093 / 562949953421312), vy = 1, vz = 0\<rparr>,
                         body_mass = 3332663724254167 / 1125899906842624,
                         body_shapes = [\<lparr>vx = 7998392938210001 / 9007199254740992, vy = 1 / 2, vz = 3 / 2\<rparr>]\<rparr>,
          isMoving = False, isFalling = True, handle = 4\<rparr>,
         \<lparr>position = \<lparr>vx = - (7998392938210001 / 9007199254740992), vy = 2, vz = - (954763121002545 / 562949953421312)\<rparr>, width = 5512405943901487 / 4503599627370496, depth = 110338190870577 / 281474976710656,
          direction = None,
          mesh = \<lparr>mesh_position = \<lparr>vx = - (7998392938210001 / 9007199254740992), vy = 2, vz = - (954763121002545 / 562949953421312)\<rparr>,
                  mesh_scale = \<lparr>vx = 1, vy = 1, vz = 1\<rparr>\<rparr>,
          physicsBody = \<lparr>body_position = \<lparr>vx = - (7998392938210001 / 9007199254740992), vy = 2, vz = - (954763121002545 / 562949953421312)\<rparr>,
                         body_mass = 4801918066687511 / 18014398509481984,
                         body_shapes = [\<lparr>vx = 5512405943901487 / 9007199254740992, vy = 1 / 2, vz = 110338190870577 / 562949953421312\<rparr>]\<rparr>,
          isMoving = False, isFalling = True, handle = 6\<rparr>],
      isAutopilot = False, isGameEnded = False, score = 2,
      robotPrecision = - (1 / 2), world = [2, 3, 4, 5, 6, 7], scene = [2, 3, 4, 5, 6, 7],
      cameraY = 7042503917300613 / 70368744177664, nextHandle = 8,
      events =
        [LAYER_ADDED 0 1, LAYER_ADDED 1 2, LAYER_ADDED 2 1, LAYER_ADDED 3 2,
         GAME_START, SCORE_UPDATE 0, SCORE_UPDATE 1, LAYER_ADDED 5 3, SCORE_UPDATE 2,
         LAYER_ADDED 7 4]\<rparr>"
  by (simp add: rounded_5_def rounded_4_eq eval_defs fl_values fl_zero)

lemma rounded_game_eq:
  "rounded_game =
     \<lparr>stack =
        [\<lparr>position = \<lparr>vx = 0, vy = 0, vz = 0\<rparr>, width = 3, depth = 3,
          direction = None,
          mesh = \<lparr>mesh_position = \<lparr>vx = 0, vy = 0, vz = 0\<rparr>,
                  mesh_scale = \<lparr>vx = 1, vy = 1, vz = 1\<rparr>\<rparr>,
          physicsBody = \<lparr>body_position = \<lparr>vx = 0, vy = 0, vz = 0\<rparr>,
                         body_mass = 0,
                         body_shapes = [\<lparr>vx = 3 / 2, vy = 1 / 2, vz = 3 / 2\<rparr>]\<rparr>,
          isMoving = False, isFalling = False, handle = 2\<rparr>,
         \<lparr>position = \<lparr>vx = - (7998392938210001 / 9007199254740992), vy = 1, vz = 0\<rparr>, width = 5512405943901487 / 4503599627370496, depth = 3,
          direction = Some DIR_X,
          mesh = \<lparr>mesh_position = \<lparr>vx = - (7998392938210001 / 9007199254740992), vy = 1, vz = 0\<rparr>,
                  mesh_scale = \<lparr>vx = 7349874591868649 / 18014398509481984, vy = 1, vz = 1\<rparr>\<rparr>,
          physicsBody = \<lparr>body_position = \<lparr>vx = - (7998392938210001 / 9007199254740992), vy = 1, vz = 0\<rparr>,
                         body_mass = 0,
                         body_shapes = [\<lparr>vx = 5512405943901487 / 9007199254740992, vy = 1 / 2, vz = 3 / 2\<rparr>]\<rparr>,
          isMoving = False, isFalling = False, handle = 3\<rparr>,
         \<lparr>position = \<lparr>vx = - (7998392938210001 / 9007199254740992), vy = 2, vz = - (110338190870577 / 562949953421312)\<rparr>, width = 5512405943901487 / 4503599627370496, depth = 734086739261391 / 281474976710656,
          direction = Some DIR_Z,
          mesh = \<lparr>mesh_position = \<lparr>vx = - (7998392938210001 / 9007199254740992), vy = 2, vz = - (110338190870577 / 562949953421312)\<rparr>,
                  mesh_scale = \<lparr>vx = 1, vy = 1, vz = 244695579753797 / 281474976710656\<rparr>\<rparr>,
          physicsBody = \<lparr>body_position = \<lparr>vx = - (7998392938210001 / 9007199254740992), vy = 2, vz = - (110338190870577 / 562949953421312)\<rparr>,
                         body_mass = 0,
                         body_shapes = [\<lparr>vx = 5512405943901487 / 9007199254740992, vy = 1 / 2, vz = 734086739261391 / 562949953421312\<rparr>]\<rparr>,
          isMoving = False, isFalling = False, handle = 5\<rparr>,
         \<lparr>position = \<lparr>vx = - (387309567953863 / 562949953421312), vy = 3, vz = - (110338190870577 / 562949953421312)\<rparr>, width = 5512405943901487 / 4503599627370496, depth = 734086739261391 / 281474976710656,
          direction = Some DIR_X,
          mesh = \<lparr>mesh_position = \<lparr>vx = - (387309567953863 / 562949953421312), vy = 3, vz = - (110338190870577 / 562949953421312)\<rparr>,
                  mesh_scale = \<lparr>vx = 1, vy = 1, vz = 1\<rparr>\<rparr>,
          physicsBody = \<lparr>body_position = \<lparr>vx = - (387309567953863 / 562949953421312), vy = 3, vz = - (110338190870577 / 562949953421312)\<rparr>,
                         body_mass = 0,
                         body_shapes = [\<lparr>vx = 5512405943901487 / 9007199254740992, vy = 1 / 2, vz = 734086739261391 / 562949953421312\<rparr>]\<rparr>,
          isMoving = False, isFalling = False, handle = 7\<rparr>],
      overhangs =
        [\<lparr>position = \<lparr>vx = - (1344324488770093 / 562949953421312), vy = 1, vz = 0\<rparr>, width = 7998392938210001 / 4503599627370496, depth = 3,
          direction = None,
          mesh = \<lparr>mesh_position = \<lparr>vx = - (1344324488770093 / 562949953421312), vy = 1, vz = 0\<rparr>,
                  mesh_scale = \<lparr>vx = 1, vy = 1, vz = 1\<rparr>\<rparr>,
          physicsBody = \<lparr>body_position = \<lparr>vx = - (1344324488770093 / 562949953421312), vy = 1, vz = 0\<rparr>,
                         body_mass = 3332663724254167 / 1125899906842624,
                         body_shapes = [\<lparr>vx = 7998392938210001 / 9007199254740992, vy = 1 / 2, vz = 3 / 2\<rparr>]\<rparr>,
          isMoving = False, isFalling = True, handle = 4\<rparr>,
         \<lparr>position = \<lparr>vx = - (7998392938210001 / 9007199254740992), vy = 2, vz = - (954763121002545 / 562949953421312)\<rparr>, width = 5512405943901487 / 4503599627370496, depth = 110338190870577 / 281474976710656,
          direction = None,
          mesh = \<lparr>mesh_position = \<lparr>vx = - (7998392938210001 / 9007199254740992), vy = 2, vz = - (954763121002545 / 562949953421312)\<rparr>,
                  mesh_scale = \<lparr>vx = 1, vy = 1, vz = 1\<rparr>\<rparr>,
          physicsBody = \<lparr>body_position = \<lparr>vx = - (7998392938210001 / 9007199254740992), vy = 2, vz = - (954763121002545 / 562949953421312)\<rparr>,
                         body_mass = 4801918066687511 / 18014398509481984,
                         body_shapes = [\<lparr>vx = 5512405943901487 / 9007199254740992, vy = 1 / 2, vz = 110338190870577 / 562949953421312\<rparr>]\<rparr>,
          isMoving = False, isFalling = True, handle = 6\<rparr>],
      isAutopilot = False, isGameEnded = False, score = 2,
      robotPrecision = - (1 / 2), world = [2, 3, 4, 5, 6, 7], scene = [2, 3, 4, 5, 6, 7],
      cameraY = 7042503917300613 / 70368744177664, nextHandle = 8,
      events =
        [LAYER_ADDED 0 1, LAYER_ADDED 1 2, LAYER_ADDED 2 1, LAYER_ADDED 3 2,
         GAME_START, SCORE_UPDATE 0, SCORE_UPDATE 1, LAYER_ADDED 5 3, SCORE_UPDATE 2,
         LAYER_ADDED 7 4]\<rparr>"
  by (simp add: rounded_game_def rounded_5_eq update_defs fl_values fl_zero)

lemma rounded_placed_eq:
  "rounded_placed =
     \<lparr>stack =
        [\<lparr>position = \<lparr>vx = 0, vy = 0, vz = 0\<rparr>, width = 3, depth = 3,
          direction = None,
          mesh = \<lparr>mesh_position = \<lparr>vx = 0, vy = 0, vz = 0\<rparr>,
                  mesh_scale = \<lparr>vx = 1, vy = 1, vz = 1\<rparr>\<rparr>,
          physicsBody = \<lparr>body_position = \<lparr>vx = 0, vy = 0, vz = 0\<rparr>,
                         body_mass = 0,
                         body_shapes = [\<lparr>vx = 3 / 2, vy = 1 / 2, vz = 3 / 2\<rparr>]\<rparr>,
          isMoving = False, isFalling = False, handle = 2\<rparr>,
         \<lparr>position = \<lparr>vx = - (7998392938210001 / 9007199254740992), vy = 1, vz = 0\<rparr>, width = 5512405943901487 / 4503599627370496, depth = 3,
          direction = Some DIR_X,
          mesh = \<lparr>mesh_position = \<lparr>vx = - (7998392938210001 / 9007199254740992), vy = 1, vz = 0\<rparr>,
                  mesh_scale = \<lparr>vx = 7349874591868649 / 18014398509481984, vy = 1, vz = 1\<rparr>\<rparr>,
          physicsBody = \<lparr>body_position = \<lparr>vx = - (7998392938210001 / 9007199254740992), vy = 1, vz = 0\<rparr>,
                         body_mass = 0,
                         body_shapes = [\<lparr>vx = 5512405943901487 / 9007199254740992, vy = 1 / 2, vz = 3 / 2\<rparr>]\<rparr>,
          isMoving = False, isFalling = False, handle = 3\<rparr>,
         \<lparr>position = \<lparr>vx = - (7998392938210001 / 9007199254740992), vy = 2, vz = - (110338190870577 / 562949953421312)\<rparr>, width = 5512405943901487 / 4503599627370496, depth = 734086739261391 / 281474976710656,
          direction = Some DIR_Z,
          mesh = \<lparr>mesh_position = \<lparr>vx = - (7998392938210001 / 9007199254740992), vy = 2, vz = - (110338190870577 / 562949953421312)\<rparr>,
                  mesh_scale = \<lparr>vx = 1, vy = 1, vz = 244695579753797 / 281474976710656\<rparr>\<rparr>,
          physicsBody = \<lparr>body_position = \<lparr>vx = - (7998392938210001 / 9007199254740992), vy = 2, vz = - (110338190870577 / 562949953421312)\<rparr>,
                         body_mass = 0,
                         body_shapes = [\<lparr>vx = 5512405943901487 / 9007199254740992, vy = 1 / 2, vz = 734086739261391 / 562949953421312\<rparr>]\<rparr>,
          isMoving = False, isFalling = False, handle = 5\<rparr>,
         \<lparr>position = \<lparr>vx = - (221802281647997 / 281474976710656), vy = 3, vz = - (110338190870577 / 562949953421312)\<rparr>, width = 2305843009213695 / 2251799813685248, depth = 734086739261391 / 281474976710656,
          direction = Some DIR_X,
          mesh = \<lparr>mesh_position = \<lparr>vx = - (221802281647997 / 281474976710656), vy = 3, vz = - (110338190870577 / 562949953421312)\<rparr>,
                  mesh_scale = \<lparr>vx = 3767717335316495 / 4503599627370496, vy = 1, vz = 1\<rparr>\<rparr>,
          physicsBody = \<lparr>body_position = \<lparr>vx = - (221802281647997 / 281474976710656), vy = 3, vz = - (110338190870577 / 562949953421312)\<rparr>,
                         body_mass = 0,
                         body_shapes = [\<lparr>vx = 2305843009213695 / 4503599627370496, vy = 1 / 2, vz = 734086739261391 / 562949953421312\<rparr>]\<rparr>,
          isMoving = False, isFalling = False, handle = 7\<rparr>,
         \<lparr>position = \<lparr>vx = - (221802281647997 / 281474976710656), vy = 4, vz = - 10\<rparr>, width = 2305843009213695 / 2251799813685248, depth = 734086739261391 / 281474976710656,
          direction = Some DIR_Z,
          mesh = \<lparr>mesh_position = \<lparr>vx = - (221802281647997 / 281474976710656), vy = 4, vz = - 10\<rparr>,
                  mesh_scale = \<lparr>vx = 1, vy = 1, vz = 1\<rparr>\<rparr>,
          physicsBody = \<lparr>body_position = \<lparr>vx = - (221802281647997 / 281474976710656), vy = 4, vz = - 10\<rparr>,
                         body_mass = 0,
                         body_shapes = [\<lparr>vx = 2305843009213695 / 4503599627370496, vy = 1 / 2, vz = 734086739261391 / 562949953421312\<rparr>]\<rparr>,
          isMoving = False, isFalling = False, handle = 9\<rparr>],
      overhangs =
        [\<lparr>position = \<lparr>vx = - (1344324488770093 / 562949953421312), vy = 1, vz = 0\<rparr>, width = 7998392938210001 / 4503599627370496, depth = 3,
          direction = None,
          mesh = \<lparr>mesh_position = \<lparr>vx = - (1344324488770093 / 562949953421312), vy = 1, vz = 0\<rparr>,
                  mesh_scale = \<lparr>vx = 1, vy = 1, vz = 1\<rparr>\<rparr>,
          physicsBody = \<lparr>body_position = \<lparr>vx = - (1344324488770093 / 562949953421312), vy = 1, vz = 0\<rparr>,
                         body_mass = 3332663724254167 / 1125899906842624,
                         body_shapes = [\<lparr>vx = 7998392938210001 / 9007199254740992, vy = 1 / 2, vz = 3 / 2\<rparr>]\<rparr>,
          isMoving = False, isFalling = True, handle = 4\<rparr>,
         \<lparr>position = \<lparr>vx = - (7998392938210001 / 9007199254740992), vy = 2, vz = - (954763121002545 / 562949953421312)\<rparr>, width = 5512405943901487 / 4503599627370496, depth = 110338190870577 / 281474976710656,
          direction = None,
          mesh = \<lparr>mesh_position = \<lparr>vx = - (7998392938210001 / 9007199254740992), vy = 2, vz = - (954763121002545 / 562949953421312)\<rparr>,
                  mesh_scale = \<lparr>vx = 1, vy = 1, vz = 1\<rparr>\<rparr>,
          physicsBody = \<lparr>body_position = \<lparr>vx = - (7998392938210001 / 9007199254740992), vy = 2, vz = - (954763121002545 / 562949953421312)\<rparr>,
                         body_mass = 4801918066687511 / 18014398509481984,
                         body_shapes = [\<lparr>vx = 5512405943901487 / 9007199254740992, vy = 1 / 2, vz = 110338190870577 / 562949953421312\<rparr>]\<rparr>,
          isMoving = False, isFalling = True, handle = 6\<rparr>,
         \<lparr>position = \<lparr>vx = - (792633534417209 / 4503599627370496), vy = 3, vz = - (110338190870577 / 562949953421312)\<rparr>, width = 1801439850948193 / 9007199254740992, depth = 734086739261391 / 281474976710656,
          direction = None,
          mesh = \<lparr>mesh_position = \<lparr>vx = - (792633534417209 / 4503599627370496), vy = 3, vz = - (110338190870577 / 562949953421312)\<rparr>,
                  mesh_scale = \<lparr>vx = 1, vy = 1, vz = 1\<rparr>\<rparr>,
          physicsBody = \<lparr>body_position = \<lparr>vx = - (792633534417209 / 4503599627370496), vy = 3, vz = - (110338190870577 / 562949953421312)\<rparr>,
                         body_mass = 1305043092020247 / 4503599627370496,
                         body_shapes = [\<lparr>vx = 1801439850948193 / 18014398509481984, vy = 1 / 2, vz = 734086739261391 / 562949953421312\<rparr>]\<rparr>,
          isMoving = False, isFalling = True, handle = 8\<rparr>],
      isAutopilot = False, isGameEnded = False, score = 3,
      robotPrecision = - (1 / 2), world = [2, 3, 4, 5, 6, 7, 8, 9], scene = [2, 3, 4, 5, 6, 7, 8, 9],
      cameraY = 7042503917300613 / 70368744177664, nextHandle = 10,
      events =
        [LAYER_ADDED 0 1, LAYER_ADDED 1 2, LAYER_ADDED 2 1, LAYER_ADDED 3 2,
         GAME_START, SCORE_UPDATE 0, SCORE_UPDATE 1, LAYER_ADDED 5 3, SCORE_UPDATE 2,
         LAYER_ADDED 7 4, SCORE_UPDATE 3, LAYER_ADDED 9 5]\<rparr>"
  by (simp add: rounded_placed_def rounded_game_eq eval_defs fl_values fl_zero)

lemma centred_game_facts:
  "\<not> isGameEnded centred_game" "length (stack centred_game) = 2"
  "direction (top_layer centred_game) = Some DIR_X"
  "getPosition (top_layer centred_game) DIR_X = 0"
  "placement_size centred_game DIR_X = 3" "placement_delta centred_game DIR_X = 0"
  "placement_overhangSize centred_game DIR_X = 0" "placement_overlap centred_game DIR_X = 3"
  by (simp_all add: centred_game_def fresh_game_eq update_defs placement_defs getSize_def
      fl_values fl_zero)

lemma skewed_game_facts:
  "\<not> isGameEnded skewed_game" "length (stack skewed_game) = 2"
  "direction (top_layer skewed_game) = Some DIR_X"
  "getPosition (top_layer skewed_game) DIR_X = - (3801038085500699 / 2251799813685248)"
  "placement_size skewed_game DIR_X = 3"
  "placement_delta skewed_game DIR_X = - (3801038085500699 / 2251799813685248)"
  "placement_overhangSize skewed_game DIR_X = 3801038085500699 / 2251799813685248"
  "placement_overlap skewed_game DIR_X = 2954361355555045 / 2251799813685248"
  by (simp_all add: skewed_game_eq placement_defs getSize_def getPosition_def fl_values)

lemma rounded_game_facts:
  "\<not> isGameEnded rounded_game" "length (stack rounded_game) = 4"
  "direction (top_layer rounded_game) = Some DIR_X"
  "placement_size rounded_game DIR_X = 5512405943901487 / 4503599627370496"
  "placement_delta rounded_game DIR_X = 1801439850948193 / 9007199254740992"
  "placement_overhangSize rounded_game DIR_X = 1801439850948193 / 9007199254740992"
  "placement_overlap rounded_game DIR_X = 2305843009213695 / 2251799813685248"
  by (simp_all add: rounded_game_eq placement_defs getSize_def getPosition_def fl_values)

lemma scenarioA_top:
  "getPosition (top_layer scenarioA) DIR_X = 1" "getPosition (top_layer scenarioA) DIR_Z = 0"
  by (simp_all add: scenarioA_eq top_layer_def getPosition_def)

lemma overhang_fields:
  fixes s ov sz dl oh d
  defines "s' \<equiv> cutAndContinue ov sz dl oh d s"
  assumes "direction (top_layer s) = Some d"
  shows "getPosition (last (overhangs s')) d
           = fl (getPosition (kept_block ov sz dl s) d
                   + fl (fl (fl (ov / 2) + fl (oh / 2)) * sgn dl))"
    and "getPosition (last (overhangs s')) (other d) = getPosition (top_layer s) (other d)"
    and "getSize (last (overhangs s')) (Some d) = oh"
    and "getSize (last (overhangs s')) (Some (other d)) = getSize (top_layer s) (Some (other d))"
  using kept_block_fields [OF assms(2), of ov sz dl]
  by (cases d; simp add: s'_def cutAndContinue_overhangs block_defs getSize_def getPosition_def)+

lemma next_layer_fields:
  fixes s ov sz dl oh d
  defines "s' \<equiv> cutAndContinue ov sz dl oh d s"
  shows "vy (position (last (stack s'))) = BOX_HEIGHT * real (length (stack s))"
    and "width (last (stack s')) = width (kept_block ov sz dl s)"
    and "depth (last (stack s')) = depth (kept_block ov sz dl s)"
    and "direction (last (stack s')) = Some (other d)"
    and "getPosition (last (stack s')) (other d) = - 10"
    and "getPosition (last (stack s')) d = getPosition (kept_block ov sz dl s) d"
  by (cases d; simp add: s'_def cutAndContinue_stack createBlock_block vec3_def getPosition_def)+

lemma scenarioA_lost_facts:
  "isGameEnded scenarioA_lost" "length (stack scenarioA_lost) = 2" "score scenarioA_lost = 1"
  "map direction (stack scenarioA_lost) = [None, Some DIR_X]"
  by (simp_all add: scenarioA_lost_def scenarioA_eq eval_defs fl_values fl_zero)

lemma autopilot_game_facts:
  "isAutopilot autopilot_game" "nextHandle autopilot_game = 2"
  "map handle (stack autopilot_game) = [0, 1]" "overhangs autopilot_game = []"
  "events autopilot_game = [LAYER_ADDED 0 1, LAYER_ADDED 1 2]"
  "handles_fresh autopilot_game"
  by (simp_all add: autopilot_game_def initialize_def newGameLogic_def setRobotPrecision_def
      addLayer_eq block_defs handles_fresh_def fl_values fl_zero)

section \<open>The invariant is kept\<close>

lemma settled_startGame: "settled (startGame s)"
  by (simp add: settled_def startGame_eq createBlock_block upt_rec)

lemma settled_initialize: "settled (initialize (newGameLogic r))"
  by (simp add: settled_def initialize_def newGameLogic_def setRobotPrecision_def addLayer_eq
      createBlock_block upt_rec)

lemma settled_frame:
  assumes "settled s" and "map direction (stack t) = map direction (stack s)"
    and "score t = score s" and "isGameEnded t = isGameEnded s"
  shows "settled t"
proof -
  have "length (stack t) = length (stack s)"
    using assms(2) by (rule map_eq_imp_length_eq)
  then show ?thesis
    using assms by (auto simp: settled_def split: if_splits)
qed

lemma settled_direction:
  assumes "settled s" and "i < length (stack s)"
  shows "direction (stack s ! i) = layer_direction i"
proof -
  have "map direction (stack s) ! i = map layer_direction [0..<length (stack s)] ! i"
    using assms(1) by (simp add: settled_def)
  then show ?thesis using assms(2) by simp
qed

lemma settled_top:
  assumes "settled s" and "2 \<le> length (stack s)"
  shows "\<exists>d. direction (top_layer s) = Some d \<and> layer_direction (length (stack s)) = Some (other d)"
proof -
  obtain n where n: "length (stack s) = Suc (Suc n)"
    using assms(2) by (metis Suc_le_D numeral_2_eq_2 Suc_le_mono)
  have "direction (stack s ! Suc n) = layer_direction (Suc n)"
    using assms(1) by (rule settled_direction) (simp add: n)
  then have top: "direction (top_layer s) = layer_direction (Suc n)"
    by (simp add: top_layer_def n)
  show ?thesis
  proof (cases "even n")
    case True
    then show ?thesis by (simp add: top n)
  next
    case False
    then show ?thesis by (simp add: top n)
  qed
qed

lemma kept_block_direction: "direction (kept_block ov sz dl s) = direction (top_layer s)"
  by (simp add: kept_block_def cut_def Let_def split: option.splits)

lemma settled_cut:
  assumes "settled s" and "\<not> isGameEnded s" and "direction (top_layer s) = Some d"
  shows "settled (cutAndContinue ov sz dl oh d s)"
proof -
  have two: "2 \<le> length (stack s)"
    using assms(1,2) by (simp add: settled_def)
  from settled_top [OF assms(1) two] assms(3)
  have nxt: "layer_direction (length (stack s)) = Some (other d)" by simp
  have dirs: "map direction (stack s) = map layer_direction [0..<length (stack s)]"
    using assms(1) by (simp add: settled_def)
  have "(map direction (stack s))[length (stack s) - 1 := direction (top_layer s)]
          = map direction (stack s)"
    unfolding top_layer_def using two by (simp add: list_update_same_conv)
  then have "map direction (stack (cutAndContinue ov sz dl oh d s))
               = map direction (stack s) @ [Some (other d)]"
    by (cases d) (simp_all add: cutAndContinue_stack map_update kept_block_direction
        createBlock_block)
  also have "\<dots> = map layer_direction [0..<Suc (length (stack s))]"
    using dirs nxt by simp
  finally show ?thesis
    using two assms(2)
    by (simp add: settled_def cutAndContinue_length cutAndContinue_rest)
qed

lemma butlast_upt0: "butlast [0..<n] = [0..<n - 1]"
  by (cases n) simp_all

lemma settled_miss:
  assumes "settled s" and "\<not> isGameEnded s"
  shows "\<exists>s'. missBlock s = Some s' \<and> settled s' \<and> score s' = score s \<and>
           length (stack s') < length (stack s) \<and> isGameEnded s' \<and>
           isAutopilot s' = isAutopilot s"
proof -
  have two: "2 \<le> length (stack s)" and sc: "score s = int (length (stack s)) - 2"
    using assms by (simp_all add: settled_def)
  then have ne: "stack s \<noteq> []" by auto
  have dirs: "map direction (stack s) = map layer_direction [0..<length (stack s)]"
    using assms(1) by (simp add: settled_def)
  have "map direction (butlast (stack s)) = butlast (map direction (stack s))"
    by (simp add: map_butlast)
  also have "\<dots> = map layer_direction [0..<length (stack s) - 1]"
    by (simp only: dirs map_butlast [symmetric] butlast_upt0)
  finally show ?thesis
    using two sc ne by (simp add: missBlock_eq settled_def)
qed

lemma split_settled:
  assumes "settled s"
  shows "\<exists>s'. splitBlockAndAddNext s = Some s' \<and> settled s' \<and>
           score s' = score s + (if length (stack s) < length (stack s') then 1 else 0) \<and>
           isAutopilot s' = isAutopilot s"
proof (cases "isGameEnded s")
  case True
  then have "splitBlockAndAddNext s = Some s"
    by (simp add: splitBlockAndAddNext_def)
  then show ?thesis using assms by simp
next
  case False
  then have two: "2 \<le> length (stack s)" and sc: "score s = int (length (stack s)) - 2"
    using assms by (simp_all add: settled_def)
  from settled_top [OF assms two] obtain d where d: "direction (top_layer s) = Some d"
    by blast
  show ?thesis
  proof (cases "0 < placement_overlap s d")
    case True
    let ?c = "cutAndContinue (placement_overlap s d) (placement_size s d)
                (placement_delta s d) (placement_overhangSize s d) d s"
    have "splitBlockAndAddNext s = Some ?c"
      using False two d True by (rule cut_branch)
    moreover have "settled ?c"
      using assms False d by (rule settled_cut)
    moreover have "score ?c = score s + 1"
      by (simp add: cutAndContinue_rest sc)
    moreover have "length (stack s) < length (stack ?c)"
      by (simp add: cutAndContinue_length)
    moreover have "isAutopilot ?c = isAutopilot s"
      by (simp add: cutAndContinue_rest)
    ultimately show ?thesis by simp
  next
    case no: False
    from settled_miss [OF assms False] obtain m where
      m: "missBlock s = Some m" "settled m" "score m = score s"
         "length (stack m) < length (stack s)" "isAutopilot m = isAutopilot s"
      by blast
    have "splitBlockAndAddNext s = Some m"
      using False two d no by (simp add: miss_branch m(1))
    then show ?thesis using m by simp
  qed
qed

lemma updateCameraPosition_fields:
  "stack (updateCameraPosition y dt s) = stack s"
  "score (updateCameraPosition y dt s) = score s"
  "isGameEnded (updateCameraPosition y dt s) = isGameEnded s"
  "isAutopilot (updateCameraPosition y dt s) = isAutopilot s"
  by (simp_all add: updateCameraPosition_def)

lemma updateOverhangs_fields:
  "stack (updateOverhangs s) = stack s"
  "score (updateOverhangs s) = score s"
  "isGameEnded (updateOverhangs s) = isGameEnded s"
  "isAutopilot (updateOverhangs s) = isAutopilot s"
  by (simp_all add: updateOverhangs_def)

lemma setRobotPrecision_fields:
  "stack (setRobotPrecision r s) = stack s"
  "score (setRobotPrecision r s) = score s"
  "isGameEnded (setRobotPrecision r s) = isGameEnded s"
  "isAutopilot (setRobotPrecision r s) = isAutopilot s"
  by (simp_all add: setRobotPrecision_def)

lemma moveBlock_direction: "direction (moveBlock dt b) = direction b"
  by (simp add: moveBlock_def updatePosition_def Let_def split: option.splits)

lemma update_eq:
  assumes "2 \<le> length (stack s)"
  shows "update dt r s =
     map_option updateOverhangs
       (let s1 = updateCameraPosition (BOX_HEIGHT * real_of_int (int (length (stack s)) - 2)) dt s
        in if shouldBlockMove (top_layer s) (previous_layer s) s1
           then (let s2 = s1\<lparr>stack := (stack s1)[length (stack s) - 1 := moveBlock dt (top_layer s)]\<rparr>
                 in if isOutOfBounds (moveBlock dt (top_layer s)) then missBlock s2 else Some s2)
           else if isAutopilot s1
           then map_option (setRobotPrecision r) (splitBlockAndAddNext s1)
           else Some s1)"
  using assms by (simp add: update_def Let_def top_layer_def previous_layer_def)

lemma update_settled:
  assumes "settled s"
  shows "\<exists>s'. update dt r s = Some s' \<and> settled s' \<and>
           score s' = score s + (if length (stack s) < length (stack s') then 1 else 0) \<and>
           isAutopilot s' = isAutopilot s"
proof (cases "2 \<le> length (stack s)")
  case False
  then have "update dt r s = Some s" by (simp add: update_def)
  then show ?thesis using assms by simp
next
  case two: True
  let ?s1 = "updateCameraPosition (BOX_HEIGHT * real_of_int (int (length (stack s)) - 2)) dt s"
  let ?moved = "moveBlock dt (top_layer s)"
  let ?s2 = "?s1\<lparr>stack := (stack ?s1)[length (stack s) - 1 := ?moved]\<rparr>"
  let ?r = "if shouldBlockMove (top_layer s) (previous_layer s) ?s1
           then (if isOutOfBounds ?moved then missBlock ?s2 else Some ?s2)
           else if isAutopilot ?s1
           then map_option (setRobotPrecision r) (splitBlockAndAddNext ?s1)
           else Some ?s1"
  note f1 = updateCameraPosition_fields
  have st1: "settled ?s1"
    using assms by (rule settled_frame) (simp_all add: f1)
  have inner: "\<exists>t. ?r = Some t \<and> settled t \<and>
           score t = score s + (if length (stack s) < length (stack t) then 1 else 0) \<and>
           isAutopilot t = isAutopilot s"
  proof (cases "shouldBlockMove (top_layer s) (previous_layer s) ?s1")
    case move: True
    then have live: "\<not> isGameEnded ?s1"
      by (auto simp: shouldBlockMove_def split: if_splits)
    have dirs2: "map direction (stack ?s2) = map direction (stack s)"
      using two
      by (simp add: f1 map_update moveBlock_direction top_layer_def list_update_same_conv)
    have st2: "settled ?s2"
      using assms dirs2 by (rule settled_frame) (simp_all add: f1)
    have len2: "length (stack ?s2) = length (stack s)"
      by (simp add: f1)
    show ?thesis
    proof (cases "isOutOfBounds ?moved")
      case True
      have live2: "\<not> isGameEnded ?s2" using live by simp
      from settled_miss [OF st2 live2] obtain m where
        m: "missBlock ?s2 = Some m" "settled m" "score m = score ?s2"
           "length (stack m) < length (stack ?s2)" "isAutopilot m = isAutopilot ?s2"
        by blast
      have "?r = Some m" using move True m(1) by simp
      moreover have "score m = score s" using m(3) by (simp add: f1)
      moreover have "\<not> length (stack s) < length (stack m)" using m(4) len2 by simp
      moreover have "isAutopilot m = isAutopilot s" using m(5) by (simp add: f1)
      ultimately show ?thesis using m(2) by simp
    next
      case False
      have "?r = Some ?s2" using move False by simp
      moreover have "score ?s2 = score s" "isAutopilot ?s2 = isAutopilot s"
        by (simp_all add: f1)
      ultimately show ?thesis using st2 len2 by simp
    qed
  next
    case stay: False
    show ?thesis
    proof (cases "isAutopilot ?s1")
      case True
      from split_settled [OF st1] obtain t where
        t: "splitBlockAndAddNext ?s1 = Some t" "settled t"
           "score t = score ?s1 + (if length (stack ?s1) < length (stack t) then 1 else 0)"
           "isAutopilot t = isAutopilot ?s1"
        by blast
      let ?t = "setRobotPrecision r t"
      note f2 = setRobotPrecision_fields
      have "?r = Some ?t" using stay True t(1) by simp
      moreover have "settled ?t"
        using t(2) by (rule settled_frame) (simp_all add: f2)
      moreover have "score ?t = score s + (if length (stack s) < length (stack ?t) then 1 else 0)"
        using t(3) by (simp add: f1 f2)
      moreover have "isAutopilot ?t = isAutopilot s"
        using t(4) by (simp add: f1 f2)
      ultimately show ?thesis by blast
    next
      case False
      have "?r = Some ?s1" using stay False by simp
      then show ?thesis using st1 by (simp add: f1)
    qed
  qed
  then obtain t where
    t: "?r = Some t" "settled t"
       "score t = score s + (if length (stack s) < length (stack t) then 1 else 0)"
       "isAutopilot t = isAutopilot s"
    by blast
  note f3 = updateOverhangs_fields
  have "update dt r s = map_option updateOverhangs ?r"
    using two by (simp add: update_eq Let_def)
  then have "update dt r s = Some (updateOverhangs t)"
    by (simp only: t(1) option.map)
  moreover have "settled (updateOverhangs t)"
    using t(2) by (rule settled_frame) (simp_all add: f3)
  moreover have "score (updateOverhangs t)
      = score s + (if length (stack s) < length (stack (updateOverhangs t)) then 1 else 0)"
    using t(3) by (simp add: f3)
  moreover have "isAutopilot (updateOverhangs t) = isAutopilot s"
    using t(4) by (simp add: f3)
  ultimately show ?thesis by blast
qed

lemma step_settled:
  assumes "settled s"
  shows "\<exists>s'. step a s = Some s' \<and> settled s' \<and>
           (if resets a s then s' = startGame s
            else score s' = score s + (if length (stack s) < length (stack s') then 1 else 0) \<and>
                 isAutopilot s' = isAutopilot s)"
proof (cases a)
  case PlaceBlock
  show ?thesis
  proof (cases "isAutopilot s")
    case True
    then show ?thesis
      by (simp add: PlaceBlock resets_def handleBlockPlacement_def settled_startGame)
  next
    case False
    with split_settled [OF assms] show ?thesis
      by (simp add: PlaceBlock resets_def handleBlockPlacement_def)
  qed
next
  case Reset
  then show ?thesis by (simp add: resets_def settled_startGame)
next
  case (Tick dt r)
  with update_settled [OF assms, of dt r] show ?thesis
    by (simp add: resets_def)
qed

lemma run_settled:
  assumes "settled s"
  shows "\<exists>s'. run acts s = Some s' \<and> settled s'"
  using assms
proof (induction acts arbitrary: s)
  case Nil
  then show ?case by simp
next
  case (Cons a acts)
  from step_settled [OF Cons.prems, of a] obtain s1 where
    s1: "step a s = Some s1" "settled s1" by blast
  from Cons.IH [OF s1(2)] show ?case by (simp add: s1(1))
qed

lemma one_game_scores:
  assumes "settled s" and "one_game acts s"
  shows "\<exists>s'. run acts s = Some s' \<and> settled s' \<and>
           score s' = score s + int (placements acts s) \<and>
           sorted (score s # scores_along acts s)"
  using assms
proof (induction acts arbitrary: s)
  case Nil
  then show ?case by simp
next
  case (Cons a acts)
  have nr: "\<not> resets a s" using Cons.prems(2) by simp
  from step_settled [OF Cons.prems(1), of a] nr obtain s1 where
    s1: "step a s = Some s1" "settled s1"
        "score s1 = score s + (if length (stack s) < length (stack s1) then 1 else 0)"
    by auto
  have "one_game acts s1" using Cons.prems(2) by (simp add: s1(1))
  from Cons.IH [OF s1(2) this] obtain s' where
    s': "run acts s1 = Some s'" "settled s'" "score s' = score s1 + int (placements acts s1)"
        "sorted (score s1 # scores_along acts s1)"
    by blast
  have "run (a # acts) s = Some s'" by (simp add: s1(1) s'(1))
  moreover have "score s' = score s + int (placements (a # acts) s)"
    by (simp add: s1(1) s1(3) s'(3))
  moreover have "score s \<le> score s1" by (simp add: s1(3))
  then have "sorted (score s # scores_along (a # acts) s)"
    using s'(4) by (simp add: s1(1)) force
  ultimately show ?case using s'(2) by blast
qed

lemma layer_direction_Suc:
  "0 < i \<Longrightarrow> layer_direction (Suc i) = map_option other (layer_direction i)"
  by simp

lemma scenarioA_steps:
  "step Reset autopilot_game = Some fresh_game"
  "step (Tick 1375 0) fresh_game = Some scenarioA"
  "step PlaceBlock scenarioA = Some scenarioA_placed"
proof -
  show "step Reset autopilot_game = Some fresh_game"
    by (simp add: fresh_game_def autopilot_game_def)
  have "settled fresh_game"
    unfolding fresh_game_def by (rule settled_startGame)
  from update_settled [OF this, of 1375 0] obtain t where "update 1375 0 fresh_game = Some t"
    by blast
  then show "step (Tick 1375 0) fresh_game = Some scenarioA"
    by (simp add: scenarioA_def)
  have "splitBlockAndAddNext scenarioA \<noteq> None"
    by (simp add: cut_branch scenarioA_facts)
  then show "step PlaceBlock scenarioA = Some scenarioA_placed"
    by (auto simp: scenarioA_placed_def handleBlockPlacement_def scenarioA_facts)
qed

lemmas scenarioA_ops = scenarioA_steps [unfolded step.simps]

lemma step_the:
  assumes "settled s"
  shows "step a s = Some (the (step a s))" and "settled (the (step a s))"
proof -
  from step_settled [OF assms, of a] obtain s' where "step a s = Some s'" "settled s'"
    by blast
  then show "step a s = Some (the (step a s))" and "settled (the (step a s))"
    by simp_all
qed

lemma rounded_steps:
  "step (Tick 995 0) fresh_game = Some rounded_1"
  "step (Tick 44 0) rounded_1 = Some skewed_game"
  "step (Tick 33 0) rounded_1 = Some rounded_2"
  "step PlaceBlock rounded_2 = Some rounded_3"
  "step (Tick 1201 0) rounded_3 = Some rounded_4"
  "step PlaceBlock rounded_4 = Some rounded_5"
  "step (Tick 1164 0) rounded_5 = Some rounded_game"
proof -
  have fresh_game: "settled fresh_game"
    unfolding fresh_game_def by (rule settled_startGame)
  note t = step_the [OF fresh_game, of "Tick 995 0"]
  show "step (Tick 995 0) fresh_game = Some rounded_1"
    using t(1) by (simp add: rounded_1_def)
  have rounded_1: "settled rounded_1"
    using t(2) by (simp add: rounded_1_def)
  note t = step_the [OF rounded_1, of "Tick 44 0"]
  show "step (Tick 44 0) rounded_1 = Some skewed_game"
    using t(1) by (simp add: skewed_game_def)
  note t = step_the [OF rounded_1, of "Tick 33 0"]
  show "step (Tick 33 0) rounded_1 = Some rounded_2"
    using t(1) by (simp add: rounded_2_def)
  have rounded_2: "settled rounded_2"
    using t(2) by (simp add: rounded_2_def)
  note t = step_the [OF rounded_2, of "PlaceBlock"]
  show "step PlaceBlock rounded_2 = Some rounded_3"
    using t(1) by (simp add: rounded_3_def)
  have rounded_3: "settled rounded_3"
    using t(2) by (simp add: rounded_3_def)
  note t = step_the [OF rounded_3, of "Tick 1201 0"]
  show "step (Tick 1201 0) rounded_3 = Some rounded_4"
    using t(1) by (simp add: rounded_4_def)
  have rounded_4: "settled rounded_4"
    using t(2) by (simp add: rounded_4_def)
  note t = step_the [OF rounded_4, of "PlaceBlock"]
  show "step PlaceBlock rounded_4 = Some rounded_5"
    using t(1) by (simp add: rounded_5_def)
  have rounded_5: "settled rounded_5"
    using t(2) by (simp add: rounded_5_def)
  note t = step_the [OF rounded_5, of "Tick 1164 0"]
  show "step (Tick 1164 0) rounded_5 = Some rounded_game"
    using t(1) by (simp add: rounded_game_def)
qed

lemma rounded_runs:
  "run [Reset, Tick 995 0, Tick 44 0] autopilot_game = Some skewed_game"
  "run [Reset, Tick 995 0, Tick 33 0, PlaceBlock, Tick 1201 0, PlaceBlock, Tick 1164 0]
     autopilot_game = Some rounded_game"
  by (simp_all only: run.simps scenarioA_steps(1) rounded_steps option.case)

lemma rounded_placements:
  "splitBlockAndAddNext skewed_game = Some skewed_placed"
  "splitBlockAndAddNext rounded_game = Some rounded_placed"
proof -
  have "splitBlockAndAddNext skewed_game \<noteq> None"
    by (simp add: cut_branch skewed_game_facts)
  then show "splitBlockAndAddNext skewed_game = Some skewed_placed"
    by (auto simp: skewed_placed_def)
  have "splitBlockAndAddNext rounded_game \<noteq> None"
    by (simp add: cut_branch rounded_game_facts)
  then show "splitBlockAndAddNext rounded_game = Some rounded_placed"
    by (auto simp: rounded_placed_def)
qed

lemma scenarioA_placed_length: "length (stack scenarioA_placed) = 3"
proof -
  have "length (map direction (stack scenarioA_placed)) = 3"
    by (simp only: scenarioA_placed_facts) simp
  then show ?thesis by simp
qed

lemma touching_game_facts:
  "\<not> isGameEnded touching_game" "length (stack touching_game) = 2"
  "direction (top_layer touching_game) = Some DIR_X"
  "placement_size touching_game DIR_X = 3" "placement_delta touching_game DIR_X = 3"
  "placement_overlap touching_game DIR_X = 0"
  by (simp_all add: touching_game_def fresh_game_eq update_defs placement_defs getSize_def
      fl_values fl_zero)

lemma placement_lengthens_iff_cut:
  assumes "\<not> isGameEnded s" and "2 \<le> length (stack s)"
    and "direction (top_layer s) = Some d"
  shows "\<exists>s'. splitBlockAndAddNext s = Some s' \<and>
           (length (stack s) < length (stack s') \<longleftrightarrow> 0 < placement_overlap s d)"
proof (cases "0 < placement_overlap s d")
  case True
  with assms show ?thesis
    by (simp add: cut_branch cutAndContinue_length)
next
  case False
  have ne: "stack s \<noteq> []" using assms(2) by auto
  from missBlock_fields [OF ne] obtain m where
    m: "missBlock s = Some m" "stack m = butlast (stack s)" by blast
  have "splitBlockAndAddNext s = Some m"
    using assms False by (simp add: miss_branch m(1))
  then show ?thesis using False m(2) by simp
qed

section \<open>Handles stay fresh\<close>

lemma handles_fresh_iff:
  "handles_fresh s \<longleftrightarrow> (\<forall>b \<in> set (stack s) \<union> set (overhangs s). handle b < nextHandle s)"
  by (auto simp: handles_fresh_def list_all_iff)

lemma handles_fresh_startGame: "handles_fresh (startGame s)"
  by (simp add: handles_fresh_def startGame_eq createBlock_block)

lemma handles_fresh_initialize: "handles_fresh (initialize (newGameLogic r))"
  by (simp add: handles_fresh_def initialize_def newGameLogic_def setRobotPrecision_def
      addLayer_eq createBlock_block)

lemma handles_fresh_map:
  "handles_fresh u \<longleftrightarrow>
     list_all (\<lambda>h. h < nextHandle u) (map handle (stack u) @ map handle (overhangs u))"
  by (simp only: handles_fresh_def map_append [symmetric] list.pred_map comp_def)

lemma handles_fresh_frame:
  assumes "handles_fresh s" and "map handle (stack t) = map handle (stack s)"
    and "map handle (overhangs t) = map handle (overhangs s)" and "nextHandle s \<le> nextHandle t"
  shows "handles_fresh t"
proof -
  have "list_all (\<lambda>h. h < nextHandle s) (map handle (stack s) @ map handle (overhangs s))"
    using assms(1) by (simp only: handles_fresh_map)
  then have "list_all (\<lambda>h. h < nextHandle t) (map handle (stack s) @ map handle (overhangs s))"
    using assms(4) by (simp only: list_all_iff) (meson less_le_trans)
  then show ?thesis
    by (simp only: handles_fresh_map assms(2,3))
qed


lemma handles_fresh_cut:
  assumes "handles_fresh s" and "stack s \<noteq> []" and "direction (top_layer s) = Some d"
  shows "handles_fresh (cutAndContinue ov sz dl oh d s)"
proof -
  let ?k = "kept_block ov sz dl s" and ?c = "cutAndContinue ov sz dl oh d s"
  have k: "handle ?k = handle (top_layer s)"
    using assms(3) by (rule kept_block_fields)
  have "(map handle (stack s))[length (stack s) - 1 := handle (top_layer s)] = map handle (stack s)"
    unfolding top_layer_def using assms(2) by (simp add: list_update_same_conv)
  then have st: "map handle (stack ?c) = map handle (stack s) @ [Suc (nextHandle s)]"
    by (simp add: cutAndContinue_stack map_update k createBlock_block)
  have ov: "map handle (overhangs ?c) = map handle (overhangs s) @ [nextHandle s]"
    by (simp add: cutAndContinue_overhangs createBlock_block startFalling_def)
  have "list_all (\<lambda>h. h < nextHandle s) (map handle (stack s) @ map handle (overhangs s))"
    using assms(1) by (simp only: handles_fresh_map)
  then have "list_all (\<lambda>h. h < Suc (Suc (nextHandle s)))
               (map handle (stack s) @ map handle (overhangs s))"
    by (simp only: list_all_iff) (meson less_Suc_eq)
  then show ?thesis
    by (simp add: handles_fresh_map st ov cutAndContinue_rest)
qed

lemma handles_fresh_miss:
  assumes "handles_fresh s" and "missBlock s = Some m"
  shows "handles_fresh m"
proof -
  have ne: "stack s \<noteq> []" using assms(2) by (auto simp: missBlock_def split: if_splits)
  have m: "stack m = butlast (stack s)" "nextHandle m = Suc (nextHandle s)"
    "map handle (overhangs m) = map handle (overhangs s) @ [nextHandle s]"
    using assms(2) by (auto simp: missBlock_eq [OF ne] createBlock_block startFalling_def)
  have a: "list_all (\<lambda>h. h < nextHandle s) (map handle (stack s) @ map handle (overhangs s))"
    using assms(1) by (simp only: handles_fresh_map)
  have "set (map handle (butlast (stack s))) \<subseteq> set (map handle (stack s))"
    by (auto dest: in_set_butlastD)
  with a have "list_all (\<lambda>h. h < nextHandle s)
                 (map handle (butlast (stack s)) @ map handle (overhangs s))"
    by (simp only: list_all_iff set_append) blast
  then have "list_all (\<lambda>h. h < Suc (nextHandle s))
               (map handle (butlast (stack s)) @ map handle (overhangs s))"
    by (simp only: list_all_iff) (meson less_Suc_eq)
  then show ?thesis
    by (simp add: handles_fresh_map m)
qed

lemma handles_fresh_split:
  assumes "handles_fresh s" and "splitBlockAndAddNext s = Some t"
  shows "handles_fresh t"
proof (cases "isGameEnded s \<or> length (stack s) < 2")
  case True
  then show ?thesis using assms by (simp add: splitBlockAndAddNext_def)
next
  case False
  then have ne: "stack s \<noteq> []" by auto
  show ?thesis
  proof (cases "direction (top_layer s)")
    case None
    then have "missBlock s = Some t"
      using False assms(2) by (simp add: splitBlockAndAddNext_def Let_def top_layer_def)
    with assms(1) show ?thesis by (rule handles_fresh_miss)
  next
    case (Some d)
    show ?thesis
    proof (cases "0 < placement_overlap s d")
      case True
      then have "t = cutAndContinue (placement_overlap s d) (placement_size s d)
                       (placement_delta s d) (placement_overhangSize s d) d s"
        using False Some assms(2) by (simp add: splitBlockAndAddNext_live)
      then show ?thesis using handles_fresh_cut [OF assms(1) ne Some] by simp
    next
      case no: False
      then have "missBlock s = Some t"
        using False Some assms(2) by (simp add: splitBlockAndAddNext_live)
      with assms(1) show ?thesis by (rule handles_fresh_miss)
    qed
  qed
qed

lemma moveBlock_handle: "handle (moveBlock dt b) = handle b"
  by (simp add: moveBlock_def updatePosition_def Let_def split: option.splits)

lemma updateOverhangs_handles:
  "map handle (overhangs (updateOverhangs s)) = map handle (overhangs s)"
  "stack (updateOverhangs s) = stack s" "nextHandle (updateOverhangs s) = nextHandle s"
  by (simp_all add: updateOverhangs_def updateFromPhysics_def comp_def)

lemma updateCameraPosition_handles:
  "stack (updateCameraPosition y dt s) = stack s"
  "overhangs (updateCameraPosition y dt s) = overhangs s"
  "nextHandle (updateCameraPosition y dt s) = nextHandle s"
  by (simp_all add: updateCameraPosition_def)

lemma handles_fresh_update:
  assumes "handles_fresh s" and "update dt r s = Some t"
  shows "handles_fresh t"
proof (cases "2 \<le> length (stack s)")
  case False
  then show ?thesis using assms by (simp add: update_def)
next
  case two: True
  let ?s1 = "updateCameraPosition (BOX_HEIGHT * real_of_int (int (length (stack s)) - 2)) dt s"
  let ?moved = "moveBlock dt (top_layer s)"
  let ?s2 = "?s1\<lparr>stack := (stack ?s1)[length (stack s) - 1 := ?moved]\<rparr>"
  let ?r = "if shouldBlockMove (top_layer s) (previous_layer s) ?s1
           then (if isOutOfBounds ?moved then missBlock ?s2 else Some ?s2)
           else if isAutopilot ?s1
           then map_option (setRobotPrecision r) (splitBlockAndAddNext ?s1)
           else Some ?s1"
  note f1 = updateCameraPosition_handles
  have fr1: "handles_fresh ?s1"
    using assms(1) by (rule handles_fresh_frame) (simp_all add: f1)
  have st2: "map handle (stack ?s2) = map handle (stack s)"
    using two
    by (simp add: f1 map_update moveBlock_handle top_layer_def list_update_same_conv)
  have fr2: "handles_fresh ?s2"
    using assms(1) st2 by (rule handles_fresh_frame) (simp_all add: f1)
  have "update dt r s = map_option updateOverhangs ?r"
    using two by (simp add: update_eq Let_def)
  then have "map_option updateOverhangs ?r = Some t"
    using assms(2) by (simp only:)
  then obtain u where u: "?r = Some u" "t = updateOverhangs u"
    unfolding map_option_eq_Some by blast
  have "handles_fresh u"
  proof (cases "shouldBlockMove (top_layer s) (previous_layer s) ?s1")
    case move: True
    show ?thesis
    proof (cases "isOutOfBounds ?moved")
      case True
      then have "missBlock ?s2 = Some u" using u(1) move by (simp only: if_True)
      with fr2 show ?thesis by (rule handles_fresh_miss)
    next
      case False
      then have "Some ?s2 = Some u" using u(1) move by (simp only: if_True if_False)
      then have "u = ?s2" by simp
      then show ?thesis using fr2 by (simp only:)
    qed
  next
    case stay: False
    show ?thesis
    proof (cases "isAutopilot ?s1")
      case True
      then have "map_option (setRobotPrecision r) (splitBlockAndAddNext ?s1) = Some u"
        using u(1) stay by (simp only: if_True if_False)
      then obtain v where v: "splitBlockAndAddNext ?s1 = Some v" "u = setRobotPrecision r v"
        unfolding map_option_eq_Some by blast
      from fr1 v(1) have "handles_fresh v" by (rule handles_fresh_split)
      then show ?thesis
        unfolding v(2) by (rule handles_fresh_frame) (simp_all add: setRobotPrecision_def)
    next
      case False
      then have "Some ?s1 = Some u" using u(1) stay by (simp only: if_True if_False)
      then have "u = ?s1" by simp
      then show ?thesis using fr1 by (simp only:)
    qed
  qed
  then show ?thesis
    unfolding u(2) by (rule handles_fresh_frame) (simp_all add: updateOverhangs_handles)
qed

lemma handles_fresh_step:
  assumes "handles_fresh s" and "step a s = Some t"
  shows "handles_fresh t"
proof (cases a)
  case PlaceBlock
  show ?thesis
  proof (cases "isAutopilot s")
    case True
    then have "t = startGame s"
      using assms(2) by (simp add: PlaceBlock handleBlockPlacement_def)
    then show ?thesis by (simp add: handles_fresh_startGame)
  next
    case False
    then have "splitBlockAndAddNext s = Some t"
      using assms(2) by (simp add: PlaceBlock handleBlockPlacement_def)
    with assms(1) show ?thesis by (rule handles_fresh_split)
  qed
next
  case Reset
  then have "t = startGame s" using assms(2) by simp
  then show ?thesis by (simp add: handles_fresh_startGame)
next
  case (Tick dt r)
  then have "update dt r s = Some t" using assms(2) by simp
  with assms(1) show ?thesis by (rule handles_fresh_update)
qed

lemma handles_fresh_run:
  assumes "handles_fresh s" and "run acts s = Some t"
  shows "handles_fresh t"
  using assms
proof (induction acts arbitrary: s)
  case Nil
  then show ?case by simp
next
  case (Cons a acts)
  from Cons.prems(2) obtain s1 where s1: "step a s = Some s1" "run acts s1 = Some t"
    by (auto split: option.splits)
  from Cons.prems(1) s1(1) have "handles_fresh s1" by (rule handles_fresh_step)
  then show ?case using s1(2) by (rule Cons.IH)
qed

section \<open>Cutting\<close>

text \<open>
  C1 as stated fails where the subtraction \<open>size - overhangSize\<close> rounds. After a
  reset, frames of 995 and 33 milliseconds, a placement, a frame of 1201 milliseconds, a
  placement and a frame of 1164 milliseconds, the top block has the extent 1.224 along x
  and lies 0.1999999999999994 off the layer below. The kept extent is the double nearest to
  the difference, 1.0240000000000005, and kept extent plus overhang extent is not the
  extent before the cut: not as a sum of reals, and not as the sum in doubles, which is
  1.2239999999999998.
\<close>

theorem cut_splits_extent_counterexample:
  "run [Reset, Tick 995 0, Tick 33 0, PlaceBlock, Tick 1201 0, PlaceBlock, Tick 1164 0]
     (initialize (newGameLogic 0)) = Some rounded_game \<and>
   \<not> isGameEnded rounded_game \<and> 2 \<le> length (stack rounded_game) \<and>
   direction (top_layer rounded_game) = Some DIR_X \<and>
   0 < placement_overlap rounded_game DIR_X \<and>
   splitBlockAndAddNext rounded_game = Some rounded_placed \<and>
   placement_size rounded_game DIR_X = 5512405943901487 / 4503599627370496 \<and>
   getSize (stack rounded_placed ! 3) (Some DIR_X) = 2305843009213695 / 2251799813685248 \<and>
   getSize (last (overhangs rounded_placed)) (Some DIR_X)
     = 1801439850948193 / 9007199254740992 \<and>
   getSize (stack rounded_placed ! 3) (Some DIR_X)
     + getSize (last (overhangs rounded_placed)) (Some DIR_X)
     \<noteq> placement_size rounded_game DIR_X \<and>
   fl (getSize (stack rounded_placed ! 3) (Some DIR_X)
         + getSize (last (overhangs rounded_placed)) (Some DIR_X))
     \<noteq> placement_size rounded_game DIR_X"
proof -
  have r: "run [Reset, Tick 995 0, Tick 33 0, PlaceBlock, Tick 1201 0, PlaceBlock, Tick 1164 0]
     (initialize (newGameLogic 0)) = Some rounded_game"
    using rounded_runs(2) by (simp only: autopilot_game_def)
  have k: "getSize (stack rounded_placed ! 3) (Some DIR_X) = 2305843009213695 / 2251799813685248"
    by (simp add: rounded_placed_eq getSize_def)
  have o: "getSize (last (overhangs rounded_placed)) (Some DIR_X)
             = 1801439850948193 / 9007199254740992"
    by (simp add: rounded_placed_eq getSize_def)
  have "\<not> isGameEnded rounded_game \<and> 2 \<le> length (stack rounded_game) \<and>
   direction (top_layer rounded_game) = Some DIR_X \<and>
   0 < placement_overlap rounded_game DIR_X \<and>
   splitBlockAndAddNext rounded_game = Some rounded_placed \<and>
   placement_size rounded_game DIR_X = 5512405943901487 / 4503599627370496 \<and>
   getSize (stack rounded_placed ! 3) (Some DIR_X) = 2305843009213695 / 2251799813685248 \<and>
   getSize (last (overhangs rounded_placed)) (Some DIR_X)
     = 1801439850948193 / 9007199254740992 \<and>
   getSize (stack rounded_placed ! 3) (Some DIR_X)
     + getSize (last (overhangs rounded_placed)) (Some DIR_X)
     \<noteq> placement_size rounded_game DIR_X \<and>
   fl (getSize (stack rounded_placed ! 3) (Some DIR_X)
         + getSize (last (overhangs rounded_placed)) (Some DIR_X))
     \<noteq> placement_size rounded_game DIR_X"
    by (simp add: k o rounded_game_facts rounded_placements fl_values)
  with r show ?thesis by (rule conjI)
qed

text \<open>
  C1, as amended. A placement with positive overlap returns; it spawns one overhang; the
  block left at the top block's place is the top block itself, its extent along the cut
  axis is exactly \<open>overlap\<close>, the double nearest to \<open>size - overhangSize\<close>; the extent of
  the spawned overhang along that axis is exactly \<open>overhangSize\<close>. The two add up to the
  extent the top block had before the cut up to the rounding of that one subtraction: the
  sum is off by at most \<open>|size - overhangSize| / 2^53 + eta\<close>, and by nothing when
  \<open>size - overhangSize\<close> is a double.
\<close>

theorem cut_splits_extent:
  assumes "\<not> isGameEnded s" and "2 \<le> length (stack s)"
    and "direction (top_layer s) = Some d" and "0 < placement_overlap s d"
  shows "\<exists>s'. splitBlockAndAddNext s = Some s' \<and>
           length (overhangs s') = Suc (length (overhangs s)) \<and>
           handle (stack s' ! (length (stack s) - 1)) = handle (top_layer s) \<and>
           getSize (stack s' ! (length (stack s) - 1)) (Some d) = placement_overlap s d \<and>
           getSize (last (overhangs s')) (Some d) = placement_overhangSize s d \<and>
           \<bar>getSize (stack s' ! (length (stack s) - 1)) (Some d)
              + getSize (last (overhangs s')) (Some d) - placement_size s d\<bar>
             \<le> \<bar>placement_size s d - placement_overhangSize s d\<bar> / 2 ^ 53 + eta \<and>
           (fl (placement_size s d - placement_overhangSize s d)
              = placement_size s d - placement_overhangSize s d \<longrightarrow>
            getSize (stack s' ! (length (stack s) - 1)) (Some d)
              + getSize (last (overhangs s')) (Some d) = placement_size s d)"
proof -
  let ?ov = "placement_overlap s d" and ?sz = "placement_size s d"
  let ?dl = "placement_delta s d" and ?oh = "placement_overhangSize s d"
  let ?s' = "cutAndContinue ?ov ?sz ?dl ?oh d s"
  let ?k = "kept_block ?ov ?sz ?dl s"
  have ne: "stack s \<noteq> []" using assms(2) by auto
  have run: "splitBlockAndAddNext s = Some ?s'"
    using assms by (rule cut_branch)
  have kept: "stack ?s' ! (length (stack s) - 1) = ?k"
    using ne by (rule cutAndContinue_kept)
  note k = kept_block_fields [OF assms(3), of ?ov ?sz ?dl]
  note o = overhang_fields [OF assms(3), of ?ov ?sz ?dl ?oh]
  have ov: "?ov = fl (?sz - ?oh)"
    by (rule placement_overlap_def)
  have "?ov + ?oh - ?sz = fl (?sz - ?oh) - (?sz - ?oh)"
    by (simp add: ov)
  then have err: "\<bar>?ov + ?oh - ?sz\<bar> \<le> \<bar>?sz - ?oh\<bar> / 2 ^ 53 + eta"
    using fl_error [of "?sz - ?oh"] by (simp only:)
  have exact: "?ov + ?oh = ?sz" if "fl (?sz - ?oh) = ?sz - ?oh"
    using that by (simp add: ov)
  show ?thesis
  proof (intro exI conjI impI)
    show "splitBlockAndAddNext s = Some ?s'" by (rule run)
    show "length (overhangs ?s') = Suc (length (overhangs s))"
      by (simp add: cutAndContinue_overhangs)
    show "handle (stack ?s' ! (length (stack s) - 1)) = handle (top_layer s)"
      by (simp only: kept k(6))
    show "getSize (stack ?s' ! (length (stack s) - 1)) (Some d) = ?ov"
      by (simp only: kept k(1))
    show "getSize (last (overhangs ?s')) (Some d) = ?oh"
      by (rule o(3))
    show "\<bar>getSize (stack ?s' ! (length (stack s) - 1)) (Some d)
              + getSize (last (overhangs ?s')) (Some d) - ?sz\<bar>
             \<le> \<bar>?sz - ?oh\<bar> / 2 ^ 53 + eta"
      using err by (simp only: kept k(1) o(3))
    show "getSize (stack ?s' ! (length (stack s) - 1)) (Some d)
              + getSize (last (overhangs ?s')) (Some d) = ?sz"
      if "fl (?sz - ?oh) = ?sz - ?oh"
      using exact [OF that] by (simp only: kept k(1) o(3))
  qed
qed

theorem cut_splits_extent_witness:
  "(\<not> isGameEnded scenarioA \<and> 2 \<le> length (stack scenarioA) \<and>
    direction (top_layer scenarioA) = Some DIR_X \<and> 0 < placement_overlap scenarioA DIR_X \<and>
    fl (placement_size scenarioA DIR_X - placement_overhangSize scenarioA DIR_X)
      = placement_size scenarioA DIR_X - placement_overhangSize scenarioA DIR_X \<and>
    (\<exists>s'. splitBlockAndAddNext scenarioA = Some s' \<and>
       length (overhangs s') = 1 \<and>
       handle (stack s' ! 1) = handle (top_layer scenarioA) \<and>
       getSize (stack s' ! 1) (Some DIR_X) = 2 \<and>
       getSize (last (overhangs s')) (Some DIR_X) = 1 \<and>
       getSize (stack s' ! 1) (Some DIR_X) + getSize (last (overhangs s')) (Some DIR_X) = 3)) \<and>
   (\<not> isGameEnded rounded_game \<and> 2 \<le> length (stack rounded_game) \<and>
    direction (top_layer rounded_game) = Some DIR_X \<and>
    0 < placement_overlap rounded_game DIR_X \<and>
    (\<exists>s'. splitBlockAndAddNext rounded_game = Some s' \<and>
       getSize (stack s' ! 3) (Some DIR_X) = 2305843009213695 / 2251799813685248 \<and>
       getSize (last (overhangs s')) (Some DIR_X) = 1801439850948193 / 9007199254740992 \<and>
       \<bar>getSize (stack s' ! 3) (Some DIR_X) + getSize (last (overhangs s')) (Some DIR_X)
          - 5512405943901487 / 4503599627370496\<bar>
         \<le> (9223372036854781 / 9007199254740992) / 2 ^ 53 + eta))"
proof
  show "\<not> isGameEnded scenarioA \<and> 2 \<le> length (stack scenarioA) \<and>
    direction (top_layer scenarioA) = Some DIR_X \<and> 0 < placement_overlap scenarioA DIR_X \<and>
    fl (placement_size scenarioA DIR_X - placement_overhangSize scenarioA DIR_X)
      = placement_size scenarioA DIR_X - placement_overhangSize scenarioA DIR_X \<and>
    (\<exists>s'. splitBlockAndAddNext scenarioA = Some s' \<and>
       length (overhangs s') = 1 \<and>
       handle (stack s' ! 1) = handle (top_layer scenarioA) \<and>
       getSize (stack s' ! 1) (Some DIR_X) = 2 \<and>
       getSize (last (overhangs s')) (Some DIR_X) = 1 \<and>
       getSize (stack s' ! 1) (Some DIR_X) + getSize (last (overhangs s')) (Some DIR_X) = 3)"
    using cut_splits_extent [of scenarioA DIR_X]
    by (simp add: scenarioA_facts fl_values) blast
  show "\<not> isGameEnded rounded_game \<and> 2 \<le> length (stack rounded_game) \<and>
    direction (top_layer rounded_game) = Some DIR_X \<and>
    0 < placement_overlap rounded_game DIR_X \<and>
    (\<exists>s'. splitBlockAndAddNext rounded_game = Some s' \<and>
       getSize (stack s' ! 3) (Some DIR_X) = 2305843009213695 / 2251799813685248 \<and>
       getSize (last (overhangs s')) (Some DIR_X) = 1801439850948193 / 9007199254740992 \<and>
       \<bar>getSize (stack s' ! 3) (Some DIR_X) + getSize (last (overhangs s')) (Some DIR_X)
          - 5512405943901487 / 4503599627370496\<bar>
         \<le> (9223372036854781 / 9007199254740992) / 2 ^ 53 + eta)"
    using cut_splits_extent [of rounded_game DIR_X]
    by (simp add: rounded_game_facts fl_values) blast
qed

section \<open>Miss or cut\<close>

text \<open>
  C2. On a live game with two layers or more, the placement is a miss (it is
  \<open>missBlock\<close>) if and only if \<open>overlap \<le> 0\<close>. At \<open>overlap \<le> 0\<close>, so also at exactly 0, the
  game has ended and the top entry has left the stack: nothing is kept. At every
  \<open>overlap > 0\<close> the cut runs: the game goes on, the stack has grown by the next layer, and
  the top block is still at its place with a positive extent along the cut axis.
\<close>

theorem miss_iff_no_overlap:
  assumes "\<not> isGameEnded s" and "2 \<le> length (stack s)"
    and "direction (top_layer s) = Some d"
  shows "(splitBlockAndAddNext s = missBlock s \<longleftrightarrow> placement_overlap s d \<le> 0) \<and>
         (placement_overlap s d \<le> 0 \<longrightarrow>
            (\<exists>s'. splitBlockAndAddNext s = Some s' \<and> isGameEnded s' \<and>
                  stack s' = butlast (stack s))) \<and>
         (0 < placement_overlap s d \<longrightarrow>
            (\<exists>s'. splitBlockAndAddNext s = Some s' \<and> \<not> isGameEnded s' \<and>
                  length (stack s') = Suc (length (stack s)) \<and>
                  handle (stack s' ! (length (stack s) - 1)) = handle (top_layer s) \<and>
                  0 < getSize (stack s' ! (length (stack s) - 1)) (Some d)))"
proof -
  have ne: "stack s \<noteq> []" using assms(2) by auto
  from missBlock_fields [OF ne] obtain m where
    m: "missBlock s = Some m" "stack m = butlast (stack s)" "isGameEnded m"
    by blast
  show ?thesis
  proof (cases "0 < placement_overlap s d")
    case True
    let ?c = "cutAndContinue (placement_overlap s d) (placement_size s d)
                (placement_delta s d) (placement_overhangSize s d) d s"
    have c: "splitBlockAndAddNext s = Some ?c"
      using assms True by (rule cut_branch)
    have "length (stack ?c) \<noteq> length (stack m)"
      using m(2) by (simp add: cutAndContinue_length)
    then have "?c \<noteq> m" by auto
    moreover have "stack ?c ! (length (stack s) - 1) = kept_block (placement_overlap s d)
        (placement_size s d) (placement_delta s d) s"
      using ne by (rule cutAndContinue_kept)
    ultimately show ?thesis
      using True c m(1) assms(1) kept_block_fields [OF assms(3)]
      by (simp add: cutAndContinue_length cutAndContinue_rest)
  next
    case False
    then have "splitBlockAndAddNext s = missBlock s"
      using assms by (simp add: miss_branch)
    then show ?thesis using False m by simp
  qed
qed

theorem miss_iff_no_overlap_witness:
  "(\<not> isGameEnded scenarioA \<and> 2 \<le> length (stack scenarioA) \<and>
    direction (top_layer scenarioA) = Some DIR_X \<and> 0 < placement_overlap scenarioA DIR_X \<and>
    splitBlockAndAddNext scenarioA \<noteq> missBlock scenarioA \<and>
    (\<exists>s'. splitBlockAndAddNext scenarioA = Some s' \<and> \<not> isGameEnded s' \<and>
       length (stack s') = 3 \<and> handle (stack s' ! 1) = handle (top_layer scenarioA) \<and>
       0 < getSize (stack s' ! 1) (Some DIR_X))) \<and>
   (\<not> isGameEnded touching_game \<and> 2 \<le> length (stack touching_game) \<and>
    direction (top_layer touching_game) = Some DIR_X \<and>
    placement_overlap touching_game DIR_X = 0 \<and>
    splitBlockAndAddNext touching_game = missBlock touching_game \<and>
    (\<exists>s'. splitBlockAndAddNext touching_game = Some s' \<and> isGameEnded s' \<and>
       stack s' = butlast (stack touching_game)))"
proof
  show "\<not> isGameEnded scenarioA \<and> 2 \<le> length (stack scenarioA) \<and>
    direction (top_layer scenarioA) = Some DIR_X \<and> 0 < placement_overlap scenarioA DIR_X \<and>
    splitBlockAndAddNext scenarioA \<noteq> missBlock scenarioA \<and>
    (\<exists>s'. splitBlockAndAddNext scenarioA = Some s' \<and> \<not> isGameEnded s' \<and>
       length (stack s') = 3 \<and> handle (stack s' ! 1) = handle (top_layer scenarioA) \<and>
       0 < getSize (stack s' ! 1) (Some DIR_X))"
    using miss_iff_no_overlap [of scenarioA DIR_X] by (simp add: scenarioA_facts)
  show "\<not> isGameEnded touching_game \<and> 2 \<le> length (stack touching_game) \<and>
    direction (top_layer touching_game) = Some DIR_X \<and>
    placement_overlap touching_game DIR_X = 0 \<and>
    splitBlockAndAddNext touching_game = missBlock touching_game \<and>
    (\<exists>s'. splitBlockAndAddNext touching_game = Some s' \<and> isGameEnded s' \<and>
       stack s' = butlast (stack touching_game))"
    using miss_iff_no_overlap [of touching_game DIR_X]
    by (simp add: touching_game_facts) metis
qed

section \<open>Where the overhang goes\<close>

text \<open>
  C3 as stated fails twice. In Scenario A the top block is at 1 before the cut,
  \<open>delta = 1\<close>, \<open>overlap = 2\<close>, \<open>overhangSize = 1\<close>; the claimed coordinate is \<open>1 + 3 / 2\<close>,
  the overhang is at 2: the shift is applied to the coordinate the top block has after the
  cut. And the overhang need not adjoin the kept block exactly. After a reset and frames of
  995 and 44 milliseconds the kept block, of extent 1.3119999999999998, is centred at
  -0.8440000000000001 and the overhang, of extent 1.6880000000000002, at
  -2.3440000000000003: the half extents add up to 1.5, the centres are 1.5000000000000002
  apart, as real numbers and also when both are computed in doubles.
\<close>

theorem overhang_position_counterexample:
  "\<not> isGameEnded scenarioA \<and> 2 \<le> length (stack scenarioA) \<and>
   direction (top_layer scenarioA) = Some DIR_X \<and> 0 < placement_overlap scenarioA DIR_X \<and>
   splitBlockAndAddNext scenarioA = Some scenarioA_placed \<and>
   getPosition (last (overhangs scenarioA_placed)) DIR_X \<noteq>
     getPosition (top_layer scenarioA) DIR_X
       + sgn (placement_delta scenarioA DIR_X)
           * (placement_overlap scenarioA DIR_X / 2 + placement_overhangSize scenarioA DIR_X / 2) \<and>
   run [Reset, Tick 995 0, Tick 44 0] (initialize (newGameLogic 0)) = Some skewed_game \<and>
   \<not> isGameEnded skewed_game \<and> 2 \<le> length (stack skewed_game) \<and>
   direction (top_layer skewed_game) = Some DIR_X \<and> 0 < placement_overlap skewed_game DIR_X \<and>
   splitBlockAndAddNext skewed_game = Some skewed_placed \<and>
   getPosition (stack skewed_placed ! 1) DIR_X = - (3801038085500699 / 4503599627370496) \<and>
   getPosition (last (overhangs skewed_placed)) DIR_X
     = - (2639109381639111 / 1125899906842624) \<and>
   getSize (stack skewed_placed ! 1) (Some DIR_X) = 2954361355555045 / 2251799813685248 \<and>
   getSize (last (overhangs skewed_placed)) (Some DIR_X)
     = 3801038085500699 / 2251799813685248 \<and>
   \<not> adjoining (stack skewed_placed ! 1) (last (overhangs skewed_placed)) DIR_X \<and>
   \<bar>fl (getPosition (stack skewed_placed ! 1) DIR_X
          - getPosition (last (overhangs skewed_placed)) DIR_X)\<bar>
     \<noteq> fl (fl (getSize (stack skewed_placed ! 1) (Some DIR_X) / 2)
             + fl (getSize (last (overhangs skewed_placed)) (Some DIR_X) / 2))"
proof -
  have "splitBlockAndAddNext scenarioA \<noteq> None"
    by (simp add: cut_branch scenarioA_facts)
  then have "splitBlockAndAddNext scenarioA = Some scenarioA_placed"
    by (auto simp: scenarioA_placed_def)
  moreover have "getPosition (last (overhangs scenarioA_placed)) DIR_X = 2"
    by (simp add: getPosition_def scenarioA_placed_facts)
  moreover have "getPosition (top_layer scenarioA) DIR_X = 1"
    by (rule scenarioA_top)
  ultimately have a: "\<not> isGameEnded scenarioA \<and> 2 \<le> length (stack scenarioA) \<and>
   direction (top_layer scenarioA) = Some DIR_X \<and> 0 < placement_overlap scenarioA DIR_X \<and>
   splitBlockAndAddNext scenarioA = Some scenarioA_placed \<and>
   getPosition (last (overhangs scenarioA_placed)) DIR_X \<noteq>
     getPosition (top_layer scenarioA) DIR_X
       + sgn (placement_delta scenarioA DIR_X)
           * (placement_overlap scenarioA DIR_X / 2 + placement_overhangSize scenarioA DIR_X / 2)"
    by (simp add: scenarioA_facts)
  have r: "run [Reset, Tick 995 0, Tick 44 0] (initialize (newGameLogic 0)) = Some skewed_game"
    using rounded_runs(1) by (simp only: autopilot_game_def)
  have b: "\<not> isGameEnded skewed_game \<and> 2 \<le> length (stack skewed_game) \<and>
   direction (top_layer skewed_game) = Some DIR_X \<and> 0 < placement_overlap skewed_game DIR_X \<and>
   splitBlockAndAddNext skewed_game = Some skewed_placed \<and>
   getPosition (stack skewed_placed ! 1) DIR_X = - (3801038085500699 / 4503599627370496) \<and>
   getPosition (last (overhangs skewed_placed)) DIR_X
     = - (2639109381639111 / 1125899906842624) \<and>
   getSize (stack skewed_placed ! 1) (Some DIR_X) = 2954361355555045 / 2251799813685248 \<and>
   getSize (last (overhangs skewed_placed)) (Some DIR_X)
     = 3801038085500699 / 2251799813685248 \<and>
   \<not> adjoining (stack skewed_placed ! 1) (last (overhangs skewed_placed)) DIR_X \<and>
   \<bar>fl (getPosition (stack skewed_placed ! 1) DIR_X
          - getPosition (last (overhangs skewed_placed)) DIR_X)\<bar>
     \<noteq> fl (fl (getSize (stack skewed_placed ! 1) (Some DIR_X) / 2)
             + fl (getSize (last (overhangs skewed_placed)) (Some DIR_X) / 2))"
    by (simp add: skewed_placed_eq getPosition_def getSize_def skewed_game_facts
        rounded_placements adjoining_def fl_values)
  from a r b show ?thesis by blast
qed

text \<open>
  C3, as amended. The cut moves the top block by \<open>- delta / 2\<close> first; the overhang is then
  placed at that new coordinate shifted by \<open>sign(delta) * (overlap / 2 + overhangSize / 2)\<close>,
  every operation rounded to a double, and keeps the top block's coordinate along the other
  axis. Unless \<open>delta = 0\<close> the overhang adjoins the kept block up to rounding: the faces
  the two blocks turn to each other are at most
  \<open>(|c| + 4 * (overlap + overhangSize)) / 2^53 + 8 * eta\<close> apart, \<open>c\<close> the coordinate of
  the kept block. At \<open>delta = 0\<close> the overhang is a block of extent 0 at the kept block's
  centre.
\<close>

theorem overhang_position:
  assumes "\<not> isGameEnded s" and "2 \<le> length (stack s)"
    and "direction (top_layer s) = Some d" and "0 < placement_overlap s d"
  shows "\<exists>s'. splitBlockAndAddNext s = Some s' \<and>
           getPosition (stack s' ! (length (stack s) - 1)) d
             = fl (getPosition (top_layer s) d - fl (placement_delta s d / 2)) \<and>
           getPosition (last (overhangs s')) d
             = fl (getPosition (stack s' ! (length (stack s) - 1)) d
                   + fl (fl (fl (placement_overlap s d / 2)
                             + fl (placement_overhangSize s d / 2))
                         * sgn (placement_delta s d))) \<and>
           getPosition (last (overhangs s')) (other d) = getPosition (top_layer s) (other d) \<and>
           (placement_delta s d \<noteq> 0 \<longrightarrow>
              \<bar>face_gap (stack s' ! (length (stack s) - 1)) (last (overhangs s')) d\<bar>
                \<le> (\<bar>getPosition (stack s' ! (length (stack s) - 1)) d\<bar>
                     + 4 * (placement_overlap s d + placement_overhangSize s d)) / 2 ^ 53
                   + 8 * eta) \<and>
           (placement_delta s d = 0 \<longrightarrow>
              getPosition (last (overhangs s')) d
                = getPosition (stack s' ! (length (stack s) - 1)) d \<and>
              getSize (last (overhangs s')) (Some d) = 0)"
proof -
  let ?ov = "placement_overlap s d" and ?sz = "placement_size s d"
  let ?dl = "placement_delta s d" and ?oh = "placement_overhangSize s d"
  let ?s' = "cutAndContinue ?ov ?sz ?dl ?oh d s"
  let ?k = "kept_block ?ov ?sz ?dl s"
  let ?o = "last (overhangs ?s')"
  let ?K = "getPosition ?k d"
  have ne: "stack s \<noteq> []" using assms(2) by auto
  have run: "splitBlockAndAddNext s = Some ?s'"
    using assms by (rule cut_branch)
  have kept: "stack ?s' ! (length (stack s) - 1) = ?k"
    using ne by (rule cutAndContinue_kept)
  note k = kept_block_fields [OF assms(3), of ?ov ?sz ?dl]
  note o = overhang_fields [OF assms(3), of ?ov ?sz ?dl ?oh]
  have oh0: "0 \<le> ?oh" by (simp add: placement_overhangSize_def)
  have ov0: "0 \<le> ?ov" using assms(4) by simp
  have gap: "\<bar>face_gap ?k ?o d\<bar> \<le> (\<bar>?K\<bar> + 4 * (?ov + ?oh)) / 2 ^ 53 + 8 * eta"
    if "?dl \<noteq> 0"
  proof -
    have "\<bar>sgn ?dl\<bar> = 1" using that by (simp add: abs_sgn_eq)
    from shift_gap_bound [OF ov0 oh0 this, of ?K]
    show ?thesis by (simp only: face_gap_def k(1) o(1) o(3))
  qed
  have zero: "?oh = 0" if "?dl = 0"
    using that by (simp add: placement_overhangSize_def)
  have centre: "getPosition ?o d = ?K" if "?dl = 0"
  proof -
    have s0: "sgn ?dl = 0" using that by simp
    have "getPosition ?o d = fl (?K + fl (fl (fl (?ov / 2) + fl (?oh / 2)) * sgn ?dl))"
      by (rule o(1))
    also have "\<dots> = fl ?K"
      by (simp only: s0 mult_zero_right fl_zero add_0_right)
    also have "\<dots> = ?K"
      by (simp only: k(3) fl_fl)
    finally show ?thesis .
  qed
  show ?thesis
  proof (intro exI conjI impI)
    show "splitBlockAndAddNext s = Some ?s'"
      by (rule run)
    show "getPosition (stack ?s' ! (length (stack s) - 1)) d
            = fl (getPosition (top_layer s) d - fl (?dl / 2))"
      by (simp only: kept k(3))
    show "getPosition ?o d
            = fl (getPosition (stack ?s' ! (length (stack s) - 1)) d
                  + fl (fl (fl (?ov / 2) + fl (?oh / 2)) * sgn ?dl))"
      by (simp only: kept o(1))
    show "getPosition ?o (other d) = getPosition (top_layer s) (other d)"
      by (rule o(2))
    show "\<bar>face_gap (stack ?s' ! (length (stack s) - 1)) ?o d\<bar>
            \<le> (\<bar>getPosition (stack ?s' ! (length (stack s) - 1)) d\<bar> + 4 * (?ov + ?oh)) / 2 ^ 53
               + 8 * eta"
      if "?dl \<noteq> 0"
      using gap [OF that] by (simp only: kept)
    show "getPosition ?o d = getPosition (stack ?s' ! (length (stack s) - 1)) d" if "?dl = 0"
      using centre [OF that] by (simp only: kept)
    show "getSize ?o (Some d) = 0" if "?dl = 0"
      by (rule trans [OF o(3) zero [OF that]])
  qed
qed

theorem overhang_position_witness:
  "(\<not> isGameEnded scenarioA \<and> 2 \<le> length (stack scenarioA) \<and>
    direction (top_layer scenarioA) = Some DIR_X \<and> 0 < placement_overlap scenarioA DIR_X \<and>
    placement_delta scenarioA DIR_X \<noteq> 0 \<and>
    (\<exists>s'. splitBlockAndAddNext scenarioA = Some s' \<and>
       getPosition (stack s' ! 1) DIR_X = 1 / 2 \<and>
       getPosition (last (overhangs s')) DIR_X = 2 \<and>
       getPosition (last (overhangs s')) DIR_Z = getPosition (top_layer scenarioA) DIR_Z \<and>
       \<bar>face_gap (stack s' ! 1) (last (overhangs s')) DIR_X\<bar>
         \<le> (1 / 2 + 4 * (2 + 1)) / 2 ^ 53 + 8 * eta)) \<and>
   (\<not> isGameEnded centred_game \<and> 2 \<le> length (stack centred_game) \<and>
    direction (top_layer centred_game) = Some DIR_X \<and>
    0 < placement_overlap centred_game DIR_X \<and>
    placement_delta centred_game DIR_X = 0 \<and>
    (\<exists>s'. splitBlockAndAddNext centred_game = Some s' \<and>
       getPosition (stack s' ! 1) DIR_X = 0 \<and>
       getPosition (last (overhangs s')) DIR_X = getPosition (stack s' ! 1) DIR_X \<and>
       getSize (last (overhangs s')) (Some DIR_X) = 0))"
proof
  have "\<exists>s'. splitBlockAndAddNext scenarioA = Some s' \<and>
      getPosition (stack s' ! 1) DIR_X = 1 / 2 \<and>
      getPosition (last (overhangs s')) DIR_X = fl (getPosition (stack s' ! 1) DIR_X + 3 / 2) \<and>
      getPosition (last (overhangs s')) DIR_Z = getPosition (top_layer scenarioA) DIR_Z \<and>
      \<bar>face_gap (stack s' ! 1) (last (overhangs s')) DIR_X\<bar>
        \<le> (\<bar>getPosition (stack s' ! 1) DIR_X\<bar> + 4 * (2 + 1)) / 2 ^ 53 + 8 * eta"
    using overhang_position [of scenarioA DIR_X]
    by (simp add: scenarioA_facts scenarioA_top fl_values)
  then obtain s' where
    s': "splitBlockAndAddNext scenarioA = Some s'"
    "getPosition (stack s' ! 1) DIR_X = 1 / 2"
    "getPosition (last (overhangs s')) DIR_X = fl (getPosition (stack s' ! 1) DIR_X + 3 / 2)"
    "getPosition (last (overhangs s')) DIR_Z = getPosition (top_layer scenarioA) DIR_Z"
    "\<bar>face_gap (stack s' ! 1) (last (overhangs s')) DIR_X\<bar>
       \<le> (\<bar>getPosition (stack s' ! 1) DIR_X\<bar> + 4 * (2 + 1)) / 2 ^ 53 + 8 * eta"
    by blast
  have "getPosition (last (overhangs s')) DIR_X = 2"
    by (simp only: s'(3) s'(2)) (simp add: fl_values)
  moreover have "\<bar>face_gap (stack s' ! 1) (last (overhangs s')) DIR_X\<bar>
      \<le> (1 / 2 + 4 * (2 + 1)) / 2 ^ 53 + 8 * eta"
    using s'(5) by (simp add: s'(2) del: One_nat_def)
  ultimately show "\<not> isGameEnded scenarioA \<and> 2 \<le> length (stack scenarioA) \<and>
    direction (top_layer scenarioA) = Some DIR_X \<and> 0 < placement_overlap scenarioA DIR_X \<and>
    placement_delta scenarioA DIR_X \<noteq> 0 \<and>
    (\<exists>s'. splitBlockAndAddNext scenarioA = Some s' \<and>
       getPosition (stack s' ! 1) DIR_X = 1 / 2 \<and>
       getPosition (last (overhangs s')) DIR_X = 2 \<and>
       getPosition (last (overhangs s')) DIR_Z = getPosition (top_layer scenarioA) DIR_Z \<and>
       \<bar>face_gap (stack s' ! 1) (last (overhangs s')) DIR_X\<bar>
         \<le> (1 / 2 + 4 * (2 + 1)) / 2 ^ 53 + 8 * eta)"
    using s'(1,2,4) by (simp add: scenarioA_facts)
  show "\<not> isGameEnded centred_game \<and> 2 \<le> length (stack centred_game) \<and>
    direction (top_layer centred_game) = Some DIR_X \<and>
    0 < placement_overlap centred_game DIR_X \<and>
    placement_delta centred_game DIR_X = 0 \<and>
    (\<exists>s'. splitBlockAndAddNext centred_game = Some s' \<and>
       getPosition (stack s' ! 1) DIR_X = 0 \<and>
       getPosition (last (overhangs s')) DIR_X = getPosition (stack s' ! 1) DIR_X \<and>
       getSize (last (overhangs s')) (Some DIR_X) = 0)"
    using overhang_position [of centred_game DIR_X]
    by (simp add: centred_game_facts fl_zero) metis
qed

section \<open>Where the next layer goes\<close>

text \<open>
  C4 as stated fails in Scenario A: the new layer slides along z; its z coordinate is the
  spawn offset, not the top block's, and its x coordinate is the top block's, not the
  spawn offset.
\<close>

theorem next_layer_placement_counterexample:
  "\<not> isGameEnded scenarioA \<and> 2 \<le> length (stack scenarioA) \<and>
   direction (top_layer scenarioA) = Some DIR_X \<and> 0 < placement_overlap scenarioA DIR_X \<and>
   splitBlockAndAddNext scenarioA = Some scenarioA_placed \<and>
   direction (last (stack scenarioA_placed)) = Some DIR_Z \<and>
   \<not> (getPosition (last (stack scenarioA_placed)) DIR_Z
          = getPosition (stack scenarioA_placed ! 1) DIR_Z \<and>
        getPosition (last (stack scenarioA_placed)) DIR_X = - 10)"
proof -
  have "splitBlockAndAddNext scenarioA \<noteq> None"
    by (simp add: cut_branch scenarioA_facts)
  then have "splitBlockAndAddNext scenarioA = Some scenarioA_placed"
    by (auto simp: scenarioA_placed_def)
  then show ?thesis
    by (simp add: scenarioA_facts scenarioA_placed_facts getPosition_def)
qed

text \<open>
  C4, as amended. A placement with positive overlap appends one layer. It lies at height
  \<open>BOX_HEIGHT\<close> times the length the stack had when it was appended, its width and depth
  are those of the top block after the cut, and its axis is the other one. Along its own
  axis it starts at the spawn offset \<open>-10\<close>; along the axis just cut it has the
  coordinate of the top block after the cut.
\<close>

theorem next_layer_placement:
  assumes "\<not> isGameEnded s" and "2 \<le> length (stack s)"
    and "direction (top_layer s) = Some d" and "0 < placement_overlap s d"
  shows "\<exists>s'. splitBlockAndAddNext s = Some s' \<and>
           length (stack s') = Suc (length (stack s)) \<and>
           vy (position (last (stack s'))) = BOX_HEIGHT * real (length (stack s)) \<and>
           width (last (stack s')) = width (stack s' ! (length (stack s) - 1)) \<and>
           depth (last (stack s')) = depth (stack s' ! (length (stack s) - 1)) \<and>
           direction (last (stack s')) = Some (other d) \<and>
           getPosition (last (stack s')) (other d) = - 10 \<and>
           getPosition (last (stack s')) d
             = getPosition (stack s' ! (length (stack s) - 1)) d"
proof -
  let ?ov = "placement_overlap s d" and ?sz = "placement_size s d"
  let ?dl = "placement_delta s d" and ?oh = "placement_overhangSize s d"
  let ?s' = "cutAndContinue ?ov ?sz ?dl ?oh d s"
  have ne: "stack s \<noteq> []" using assms(2) by auto
  have run: "splitBlockAndAddNext s = Some ?s'"
    using assms by (rule cut_branch)
  have kept: "stack ?s' ! (length (stack s) - 1) = kept_block ?ov ?sz ?dl s"
    using ne by (rule cutAndContinue_kept)
  note n = next_layer_fields [of ?ov ?sz ?dl ?oh d s]
  show ?thesis
  proof (intro exI conjI)
    show "splitBlockAndAddNext s = Some ?s'" by (rule run)
    show "length (stack ?s') = Suc (length (stack s))" by (rule cutAndContinue_length)
    show "vy (position (last (stack ?s'))) = BOX_HEIGHT * real (length (stack s))" by (rule n(1))
    show "width (last (stack ?s')) = width (stack ?s' ! (length (stack s) - 1))"
      by (simp only: kept n(2))
    show "depth (last (stack ?s')) = depth (stack ?s' ! (length (stack s) - 1))"
      by (simp only: kept n(3))
    show "direction (last (stack ?s')) = Some (other d)" by (rule n(4))
    show "getPosition (last (stack ?s')) (other d) = - 10" by (rule n(5))
    show "getPosition (last (stack ?s')) d = getPosition (stack ?s' ! (length (stack s) - 1)) d"
      by (simp only: kept n(6))
  qed
qed

theorem next_layer_placement_witness:
  "\<not> isGameEnded scenarioA \<and> 2 \<le> length (stack scenarioA) \<and>
   direction (top_layer scenarioA) = Some DIR_X \<and> 0 < placement_overlap scenarioA DIR_X \<and>
   (\<exists>s'. splitBlockAndAddNext scenarioA = Some s' \<and>
      length (stack s') = 3 \<and>
      vy (position (last (stack s'))) = 2 \<and>
      width (last (stack s')) = width (stack s' ! 1) \<and>
      depth (last (stack s')) = depth (stack s' ! 1) \<and>
      direction (last (stack s')) = Some DIR_Z \<and>
      getPosition (last (stack s')) DIR_Z = - 10 \<and>
      getPosition (last (stack s')) DIR_X = getPosition (stack s' ! 1) DIR_X)"
  using next_layer_placement [of scenarioA DIR_X]
  by (simp add: scenarioA_facts BOX_HEIGHT_def)

section \<open>Alternating axes\<close>

text \<open>
  C5. A placement with positive overlap leaves the cut layer on its axis \<open>d\<close> and appends
  a layer on the other axis, whatever the positions and extents. Hence in every state the
  engine reaches the layers have the axes none, x, z, x, z, ...: from the second layer on,
  each layer's axis is the opposite of the one below.
\<close>

theorem axis_alternates:
  "(\<not> isGameEnded s \<and> 2 \<le> length (stack s) \<and> direction (top_layer s) = Some d \<and>
    0 < placement_overlap s d \<longrightarrow>
      (\<exists>s'. splitBlockAndAddNext s = Some s' \<and>
         direction (stack s' ! (length (stack s) - 1)) = Some d \<and>
         direction (last (stack s')) = Some (other d))) \<and>
   (\<exists>g. run acts (initialize (newGameLogic r)) = Some g \<and>
      map direction (stack g) = map layer_direction [0..<length (stack g)] \<and>
      (\<forall>i. 0 < i \<and> Suc i < length (stack g) \<longrightarrow>
         direction (stack g ! Suc i) = map_option other (direction (stack g ! i))))"
proof (intro conjI impI)
  assume h: "\<not> isGameEnded s \<and> 2 \<le> length (stack s) \<and> direction (top_layer s) = Some d \<and>
    0 < placement_overlap s d"
  let ?ov = "placement_overlap s d" and ?sz = "placement_size s d"
  let ?dl = "placement_delta s d" and ?oh = "placement_overhangSize s d"
  let ?s' = "cutAndContinue ?ov ?sz ?dl ?oh d s"
  have ne: "stack s \<noteq> []" using h by auto
  have "splitBlockAndAddNext s = Some ?s'"
    using h by (simp add: cut_branch)
  moreover have "direction (stack ?s' ! (length (stack s) - 1)) = Some d"
    using h by (simp only: cutAndContinue_kept [OF ne] kept_block_direction)
  moreover have "direction (last (stack ?s')) = Some (other d)"
    by (rule next_layer_fields)
  ultimately show "\<exists>s'. splitBlockAndAddNext s = Some s' \<and>
         direction (stack s' ! (length (stack s) - 1)) = Some d \<and>
         direction (last (stack s')) = Some (other d)"
    by blast
next
  from run_settled [OF settled_initialize, of acts r] obtain g where
    g: "run acts (initialize (newGameLogic r)) = Some g" "settled g" by blast
  have dirs: "map direction (stack g) = map layer_direction [0..<length (stack g)]"
    using g(2) by (simp add: settled_def)
  have "direction (stack g ! Suc i) = map_option other (direction (stack g ! i))"
    if "0 < i \<and> Suc i < length (stack g)" for i
  proof -
    have "direction (stack g ! Suc i) = layer_direction (Suc i)"
      using g(2) that by (intro settled_direction) auto
    moreover have "direction (stack g ! i) = layer_direction i"
      using g(2) that by (intro settled_direction) auto
    ultimately show ?thesis
      using that by (simp only: layer_direction_Suc)
  qed
  then show "\<exists>g. run acts (initialize (newGameLogic r)) = Some g \<and>
      map direction (stack g) = map layer_direction [0..<length (stack g)] \<and>
      (\<forall>i. 0 < i \<and> Suc i < length (stack g) \<longrightarrow>
         direction (stack g ! Suc i) = map_option other (direction (stack g ! i)))"
    using g(1) dirs by blast
qed

theorem axis_alternates_witness:
  "\<not> isGameEnded scenarioA \<and> 2 \<le> length (stack scenarioA) \<and>
   direction (top_layer scenarioA) = Some DIR_X \<and> 0 < placement_overlap scenarioA DIR_X \<and>
   (\<exists>s'. splitBlockAndAddNext scenarioA = Some s' \<and>
      direction (stack s' ! 1) = Some DIR_X \<and> direction (last (stack s')) = Some DIR_Z) \<and>
   (\<exists>g. run [Reset, Tick 1375 0, PlaceBlock] (initialize (newGameLogic 0)) = Some g \<and>
      0 < (1::nat) \<and> Suc 1 < length (stack g) \<and>
      direction (stack g ! Suc 1) = map_option other (direction (stack g ! 1)))"
proof -
  note t = axis_alternates [of scenarioA DIR_X "[Reset, Tick 1375 0, PlaceBlock]" 0]
  have a: "\<exists>s'. splitBlockAndAddNext scenarioA = Some s' \<and>
      direction (stack s' ! 1) = Some DIR_X \<and> direction (last (stack s')) = Some DIR_Z"
    using t by (simp add: scenarioA_facts)
  have r: "run [Reset, Tick 1375 0, PlaceBlock] (initialize (newGameLogic 0)) = Some scenarioA_placed"
    using scenarioA_steps by (simp add: autopilot_game_def)
  from t obtain g where
    g: "run [Reset, Tick 1375 0, PlaceBlock] (initialize (newGameLogic 0)) = Some g"
       "\<forall>i. 0 < i \<and> Suc i < length (stack g) \<longrightarrow>
           direction (stack g ! Suc i) = map_option other (direction (stack g ! i))"
    by blast
  have "g = scenarioA_placed" using g(1) r by simp
  then have len: "Suc 1 < length (stack g)" by (simp add: scenarioA_placed_length)
  then have "direction (stack g ! Suc 1) = map_option other (direction (stack g ! 1))"
    using g(2) by blast
  then show ?thesis
    using a g(1) len by (simp add: scenarioA_facts)
qed

section \<open>The score\<close>

text \<open>
  C6. A fresh game (from \<open>startGame\<close> or from \<open>initialize\<close>) has score 0. After any list
  of requests that stays within this game the engine has returned, the score is the number
  of successful placements among them, and the scores after each request never decrease.
  Whatever request \<open>a\<close> comes next, if it lowers the score then it is one that calls
  \<open>startGame\<close>, and the score is 0 afterwards.
\<close>

theorem score_counts_placements:
  assumes "g = startGame s0 \<or> g = initialize (newGameLogic r)" and "one_game acts g"
  shows "score g = 0 \<and>
         (\<exists>s. run acts g = Some s \<and> score s = int (placements acts g) \<and>
              sorted (score g # scores_along acts g) \<and>
              (\<exists>s'. step a s = Some s' \<and>
                 (score s' < score s \<longrightarrow> resets a s \<and> s' = startGame s \<and> score s' = 0)))"
proof -
  have st: "settled g"
    using assms(1) settled_startGame settled_initialize by auto
  have z: "score g = 0"
    using assms(1)
    by (auto simp: startGame_eq initialize_def newGameLogic_def setRobotPrecision_def addLayer_eq)
  from one_game_scores [OF st assms(2)] obtain s where
    s: "run acts g = Some s" "settled s" "score s = score g + int (placements acts g)"
       "sorted (score g # scores_along acts g)"
    by blast
  from step_settled [OF s(2), of a] obtain s' where
    s': "step a s = Some s'"
        "if resets a s then s' = startGame s
         else score s' = score s + (if length (stack s) < length (stack s') then 1 else 0) \<and>
              isAutopilot s' = isAutopilot s"
    by blast
  have "resets a s \<and> s' = startGame s \<and> score s' = 0" if "score s' < score s"
  proof (cases "resets a s")
    case True
    with s'(2) show ?thesis by (simp add: startGame_eq)
  next
    case False
    with s'(2) that show ?thesis by (simp split: if_splits)
  qed
  then have "\<exists>s'. step a s = Some s' \<and>
      (score s' < score s \<longrightarrow> resets a s \<and> s' = startGame s \<and> score s' = 0)"
    using s'(1) by blast
  moreover have "score s = int (placements acts g)"
    using s(3) z by simp
  ultimately show ?thesis
    using z s(1) s(4) by blast
qed

theorem score_counts_placements_witness:
  "(fresh_game = startGame autopilot_game \<or> fresh_game = initialize (newGameLogic 0)) \<and>
   one_game [Tick 1375 0, PlaceBlock] fresh_game \<and>
   placements [Tick 1375 0, PlaceBlock] fresh_game = 1 \<and>
   score fresh_game = 0 \<and>
   (\<exists>s. run [Tick 1375 0, PlaceBlock] fresh_game = Some s \<and> score s = 1 \<and>
      sorted (score fresh_game # scores_along [Tick 1375 0, PlaceBlock] fresh_game) \<and>
      (\<exists>s'. step Reset s = Some s' \<and> score s' < score s \<and> resets Reset s \<and>
         s' = startGame s \<and> score s' = 0))"
proof -
  have h1: "fresh_game = startGame autopilot_game \<or> fresh_game = initialize (newGameLogic 0)"
    by (simp add: fresh_game_def autopilot_game_def)
  have h2: "one_game [Tick 1375 0, PlaceBlock] fresh_game"
    by (simp add: scenarioA_ops resets_def scenarioA_facts)
  have p: "placements [Tick 1375 0, PlaceBlock] fresh_game = 1"
    by (simp add: scenarioA_ops scenarioA_facts fresh_game_facts scenarioA_placed_length)
  from score_counts_placements [OF h1 h2, of Reset] obtain s s' where
    s: "score fresh_game = 0" "run [Tick 1375 0, PlaceBlock] fresh_game = Some s"
       "score s = int (placements [Tick 1375 0, PlaceBlock] fresh_game)"
       "sorted (score fresh_game # scores_along [Tick 1375 0, PlaceBlock] fresh_game)"
       "step Reset s = Some s'"
       "score s' < score s \<longrightarrow> resets Reset s \<and> s' = startGame s \<and> score s' = 0"
    by blast
  have one: "score s = 1" using s(3) p by simp
  have "s' = startGame s" using s(5) by simp
  then have "score s' = 0" by (simp add: startGame_eq)
  then have "score s' < score s" using one by simp
  then show ?thesis
    using h1 h2 p s one by blast
qed

text \<open>
  C7 as stated fails after a reset (two layers, score 0) and after a successful placement
  (Scenario A: three layers, score 1).
\<close>

theorem score_is_length_minus_one_counterexample:
  "score fresh_game \<noteq> int (length (stack fresh_game)) - 1 \<and>
   score scenarioA_placed \<noteq> int (length (stack scenarioA_placed)) - 1"
proof -
  have "length (map direction (stack scenarioA_placed)) = 3"
    by (simp only: scenarioA_placed_facts) simp
  then have "length (stack scenarioA_placed) = 3" by simp
  then show ?thesis
    by (simp add: fresh_game_eq scenarioA_placed_facts)
qed

text \<open>
  C7, as amended. After any run of requests (placements, resets, ticks) from the engine as
  it is built, the engine has returned, and its score is the length of the stack minus 2
  while the game is live (after a reset or a successful placement) and the length of the
  stack minus 1 once it has ended (after a miss).
\<close>

theorem score_counts_settled_layers:
  "\<exists>s. run acts (initialize (newGameLogic r)) = Some s \<and>
       score s = int (length (stack s)) - (if isGameEnded s then 1 else 2)"
proof -
  from run_settled [OF settled_initialize, of acts r] obtain s where
    s: "run acts (initialize (newGameLogic r)) = Some s" "settled s" by blast
  have "score s = int (length (stack s)) - (if isGameEnded s then 1 else 2)"
    using s(2) by (simp add: settled_def split: if_splits)
  with s(1) show ?thesis by blast
qed

theorem score_counts_settled_layers_witness:
  "\<exists>s. run [Reset, Tick 1375 0, PlaceBlock] (initialize (newGameLogic 0)) = Some s \<and>
       \<not> isGameEnded s \<and> length (stack s) = 3 \<and> score s = 1"
proof -
  have r: "run [Reset, Tick 1375 0, PlaceBlock] (initialize (newGameLogic 0)) = Some scenarioA_placed"
    using scenarioA_steps by (simp add: autopilot_game_def)
  from score_counts_settled_layers [of "[Reset, Tick 1375 0, PlaceBlock]" 0] obtain s where
    s: "run [Reset, Tick 1375 0, PlaceBlock] (initialize (newGameLogic 0)) = Some s"
       "score s = int (length (stack s)) - (if isGameEnded s then 1 else 2)"
    by blast
  have "s = scenarioA_placed" using s(1) r by simp
  then show ?thesis
    using s by (simp add: scenarioA_placed_length scenarioA_placed_facts)
qed

section \<open>Missing\<close>

text \<open>
  C8. On a stack of two layers or more \<open>missBlock\<close> returns: one overhang is added, at the
  top block's x and z with its width and depth, and it is falling; the stack loses its top
  entry and nothing is appended; the body and mesh of the top block leave world and scene;
  the game has ended; the score is untouched; \<open>GAME_OVER\<close> is emitted if and only if the
  engine is not in autopilot. A placement on a live game with \<open>overlap \<le> 0\<close> is this miss.
\<close>

theorem miss_drops_top_block:
  assumes "2 \<le> length (stack s)"
  shows "\<exists>s'. missBlock s = Some s' \<and>
           length (overhangs s') = Suc (length (overhangs s)) \<and>
           butlast (overhangs s') = overhangs s \<and>
           getPosition (last (overhangs s')) DIR_X = getPosition (top_layer s) DIR_X \<and>
           getPosition (last (overhangs s')) DIR_Z = getPosition (top_layer s) DIR_Z \<and>
           width (last (overhangs s')) = width (top_layer s) \<and>
           depth (last (overhangs s')) = depth (top_layer s) \<and>
           isFalling (last (overhangs s')) \<and>
           stack s' = butlast (stack s) \<and>
           length (stack s') = length (stack s) - 1 \<and>
           isGameEnded s' \<and>
           score s' = score s \<and>
           events s' = events s @ (if isAutopilot s then [] else [GAME_OVER]) \<and>
           handle (top_layer s) \<notin> set (world s') \<and>
           handle (top_layer s) \<notin> set (scene s') \<and>
           (\<not> isGameEnded s \<and> direction (top_layer s) = Some d \<and> placement_overlap s d \<le> 0
              \<longrightarrow> splitBlockAndAddNext s = Some s')"
proof -
  have ne: "stack s \<noteq> []" using assms by auto
  show ?thesis
    using assms miss_branch [of s d]
    by (simp add: missBlock_eq [OF ne] top_layer_last [OF ne] block_defs getPosition_def)
qed

theorem miss_drops_top_block_witness:
  "2 \<le> length (stack fresh_game) \<and> \<not> isGameEnded fresh_game \<and>
   direction (top_layer fresh_game) = Some DIR_X \<and> placement_overlap fresh_game DIR_X \<le> 0 \<and>
   \<not> isAutopilot fresh_game \<and>
   (\<exists>s'. missBlock fresh_game = Some s' \<and> splitBlockAndAddNext fresh_game = Some s' \<and>
      length (overhangs s') = 1 \<and>
      getPosition (last (overhangs s')) DIR_X = getPosition (top_layer fresh_game) DIR_X \<and>
      getPosition (last (overhangs s')) DIR_Z = getPosition (top_layer fresh_game) DIR_Z \<and>
      width (last (overhangs s')) = width (top_layer fresh_game) \<and>
      depth (last (overhangs s')) = depth (top_layer fresh_game) \<and>
      stack s' = butlast (stack fresh_game) \<and> length (stack s') = 1 \<and> isGameEnded s' \<and>
      events s' = events fresh_game @ [GAME_OVER])"
  using miss_drops_top_block [of fresh_game DIR_X]
  by (simp add: fresh_game_facts) blast

section \<open>A placement request in autopilot\<close>

text \<open>
  C9. In autopilot \<open>handleBlockPlacement\<close> is \<open>startGame\<close>: nothing is cut or placed.
  Afterwards autopilot is off, the game is live, the score is 0, there are no overhangs,
  the stack is the two seed layers, and world and scene hold the bodies and meshes of
  these two layers only; so no block of the old stack or of the old overhangs is left in
  either.
\<close>

theorem placement_in_autopilot_resets:
  assumes "isAutopilot s"
  shows "handleBlockPlacement s = Some (startGame s) \<and>
         \<not> isAutopilot (startGame s) \<and> \<not> isGameEnded (startGame s) \<and>
         score (startGame s) = 0 \<and> overhangs (startGame s) = [] \<and>
         stack (startGame s) =
           [fst (createBlock 0 0 0 ORIGINAL_BOX_SIZE ORIGINAL_BOX_SIZE None False s),
            fst (createBlock (- 10) BOX_HEIGHT 0 ORIGINAL_BOX_SIZE ORIGINAL_BOX_SIZE
                   (Some DIR_X) False (s\<lparr>nextHandle := Suc (nextHandle s)\<rparr>))] \<and>
         world (startGame s) = map handle (stack (startGame s)) \<and>
         scene (startGame s) = map handle (stack (startGame s)) \<and>
         (handles_fresh s \<longrightarrow>
            list_all (\<lambda>b. handle b \<notin> set (world (startGame s)) \<and>
                           handle b \<notin> set (scene (startGame s)))
              (stack s @ overhangs s))"
proof -
  have w: "world (startGame s) = [nextHandle s, Suc (nextHandle s)]"
    "scene (startGame s) = [nextHandle s, Suc (nextHandle s)]"
    by (simp_all add: startGame_eq)
  have "list_all (\<lambda>b. handle b \<notin> set (world (startGame s)) \<and>
                       handle b \<notin> set (scene (startGame s))) (stack s @ overhangs s)"
    if fresh: "handles_fresh s"
  proof -
    have "handle b \<notin> set (world (startGame s)) \<and> handle b \<notin> set (scene (startGame s))"
      if "b \<in> set (stack s @ overhangs s)" for b
    proof -
      from that fresh have "handle b < nextHandle s"
        by (simp add: handles_fresh_def list_all_iff)
      then show ?thesis by (simp add: w)
    qed
    then show ?thesis by (simp only: list_all_iff) blast
  qed
  then show ?thesis
    using assms by (simp add: handleBlockPlacement_def startGame_eq createBlock_block)
qed

theorem placement_in_autopilot_resets_witness:
  "isAutopilot autopilot_game \<and> handles_fresh autopilot_game \<and>
   handleBlockPlacement autopilot_game = Some (startGame autopilot_game) \<and>
   \<not> isAutopilot (startGame autopilot_game) \<and> \<not> isGameEnded (startGame autopilot_game) \<and>
   score (startGame autopilot_game) = 0 \<and> overhangs (startGame autopilot_game) = [] \<and>
   length (stack (startGame autopilot_game)) = 2 \<and>
   world (startGame autopilot_game) = [2, 3] \<and> scene (startGame autopilot_game) = [2, 3] \<and>
   list_all (\<lambda>b. handle b \<notin> set (world (startGame autopilot_game)) \<and>
                 handle b \<notin> set (scene (startGame autopilot_game)))
     (stack autopilot_game @ overhangs autopilot_game)"
proof -
  note ap = autopilot_game_facts(1) and fresh = autopilot_game_facts(6)
  note t = placement_in_autopilot_resets [OF ap]
  have old: "list_all (\<lambda>b. handle b \<notin> set (world (startGame autopilot_game)) \<and>
                 handle b \<notin> set (scene (startGame autopilot_game)))
     (stack autopilot_game @ overhangs autopilot_game)"
    using t fresh by blast
  have new: "world (startGame autopilot_game) = [2, 3]" "scene (startGame autopilot_game) = [2, 3]"
    "length (stack (startGame autopilot_game)) = 2"
    by (simp_all add: startGame_eq autopilot_game_facts eval_nat_numeral)
  show ?thesis
    using ap fresh t old new by blast
qed

section \<open>Requests that change nothing\<close>

text \<open>
  C10. A placement attempt on a game that has ended, or on a stack of fewer than two
  layers, returns the state it was given: stack, overhangs, score, phase and everything
  else are unchanged, and no overhang is spawned.
\<close>

theorem ended_or_short_no_op:
  assumes "isGameEnded s \<or> length (stack s) < 2"
  shows "splitBlockAndAddNext s = Some s"
  using assms by (auto simp: splitBlockAndAddNext_def)

theorem ended_or_short_no_op_witness:
  "(isGameEnded scenarioA_lost \<or> length (stack scenarioA_lost) < 2) \<and>
   splitBlockAndAddNext scenarioA_lost = Some scenarioA_lost"
  using ended_or_short_no_op [of scenarioA_lost] by (simp add: scenarioA_lost_facts)

end
